(* ===== verification/Prelude.thy ===== *)
theory Prelude
  imports Main "HOL-Library.Multiset"
begin

text \<open>
  Shared vocabulary of the development: the names of the model's basic types, the
  exceptions of the web framework that the services raise (the error half of every
  result), the lemma collections the component theories fill, and generic facts on
  lists used as database tables.
\<close>

section \<open>Basic types\<close>

text \<open>
  Identifiers are the UUID strings that PostgreSQL generates for the primary key
  columns; the clock is Unix time in seconds, as the JWT claims \<open>iat\<close> and \<open>exp\<close>.
\<close>

type_synonym uuid = string
type_synonym time = nat

section \<open>Framework exceptions\<close>

text \<open>
  The HTTP exceptions of \<open>@nestjs/common\<close> that the services throw, each with the
  message the source passes (for \<open>InternalServerErrorException(error)\<close> the wrapped
  error's message), \<open>ValidationFailed\<close> for the \<open>BadRequestException\<close> that
  \<open>ValidationPipe\<close> throws with the array of every failed constraint's message, and
  \<open>RawError\<close> for anything else that escapes a service (a database error that is
  not caught, a failed \<open>fetch\<close>, an error thrown by jsonwebtoken). A service result
  is an exception or a value.
\<close>

datatype exc =
    BadRequest string
  | ValidationFailed "string list"
  | Unauthorized string
  | Forbidden string
  | NotFound string
  | Conflict string
  | InternalServerError string
  | RawError string

type_synonym 'a result = "exc + 'a"

section \<open>Characters\<close>

text \<open>\<open>String.prototype.toLowerCase\<close> on ASCII letters, and decimal digits.\<close>

definition lower_char :: "char \<Rightarrow> char" where
  "lower_char c =
     (case map_of (zip ''ABCDEFGHIJKLMNOPQRSTUVWXYZ'' ''abcdefghijklmnopqrstuvwxyz'') c of
        None \<Rightarrow> c | Some c' \<Rightarrow> c')"

definition is_digit :: "char \<Rightarrow> bool" where
  "is_digit c \<longleftrightarrow> c \<in> set ''0123456789''"

definition digit_val :: "char \<Rightarrow> nat" where
  "digit_val c = (case map_of (zip ''0123456789'' [0, 1, 2, 3, 4, 5, 6, 7, 8, 9]) c of None \<Rightarrow> 0 | Some n \<Rightarrow> n)"

text \<open>
  \<open>String(n)\<close> for a natural number and for an integer: the decimal spelling, with
  a minus sign for a negative integer.
\<close>

fun string_of_nat :: "nat \<Rightarrow> string" where
  "string_of_nat n =
     (if n < 10 then [''0123456789'' ! n] else string_of_nat (n div 10) @ [''0123456789'' ! (n mod 10)])"

declare string_of_nat.simps [simp del]

definition string_of_int :: "int \<Rightarrow> string" where
  "string_of_int i = (if i < 0 then CHR ''-'' # string_of_nat (nat (- i)) else string_of_nat (nat i))"

section \<open>Lemma collections\<close>

named_theorems table_simps "equations of the generic table operations"
named_theorems keeps_wf "an operation keeps the well-formedness of its table"

section \<open>Lists as tables\<close>

lemma distinct_map_snoc [simp]:
  "distinct (map f (xs @ [x])) \<longleftrightarrow> distinct (map f xs) \<and> f x \<notin> f ` set xs"
  by auto

lemma distinct_map_filter_keep:
  "distinct (map f xs) \<Longrightarrow> distinct (map f (filter P xs))"
  by (induction xs) auto

lemma find_Some_in_set:
  "find P xs = Some x \<Longrightarrow> x \<in> set xs \<and> P x"
  by (auto simp: find_Some_iff)

lemma find_key_Some_in_image:
  "find (\<lambda>r. f r = k) xs = Some x \<Longrightarrow> k \<in> f ` set xs"
  by (auto simp: find_Some_iff)

lemma find_unique_key:
  assumes "distinct (map f xs)" "x \<in> set xs" "f x = k"
  shows "find (\<lambda>r. f r = k) xs = Some x"
  using assms by (induction xs) (auto simp: image_iff)

lemma find_snoc_fresh:
  "k \<notin> f ` set xs \<Longrightarrow> find (\<lambda>r. f r = k) (xs @ [x]) = (if f x = k then Some x else None)"
  by (induction xs) auto

lemma find_key_None_iff:
  "find (\<lambda>r. f r = k) xs = None \<longleftrightarrow> k \<notin> f ` set xs"
  by (auto simp: find_None_iff)

lemma length_filter_not_eq:
  "length (filter (\<lambda>r. \<not> P r) xs) = length xs - length (filter P xs)"
  using sum_length_filter_compl [of P xs] by simp

end
