(* ===== verification/Entities.thy ===== *)
theory Entities
  imports Prelude
begin

text \<open>
  The data model: the role enumeration, the request DTOs with the checks their
  class-validator decorators ask for, the two persisted entities and the password
  hashes stored in the user table, and the configuration the services read.
  Field names are those of the TypeScript classes; where two classes share a field
  name the DTO's field carries a prefix, since record fields are global constants.
\<close>

section \<open>Roles\<close>

text \<open>\<open>enum Roles\<close> of \<open>common/guards/roles-auth.guard.ts\<close> and its string values.\<close>

datatype roles = ADMIN | STANDARD

fun roles_value :: "roles \<Rightarrow> string" where
  "roles_value ADMIN = ''admin''"
| "roles_value STANDARD = ''standard''"

definition parse_roles :: "string \<Rightarrow> roles option" where
  "parse_roles s =
     (if s = ''admin'' then Some ADMIN
      else if s = ''standard'' then Some STANDARD
      else None)"

section \<open>Request DTOs\<close>

text \<open>
  \<open>LoginDTO\<close> and \<open>RegisterDTO\<close>: the register DTO has the login DTO's two fields
  and a role. A request body arrives with every field a string; the decorators
  \<open>@IsNotEmpty() @IsString()\<close> and \<open>@IsEnum(Roles)\<close> decide whether it becomes a DTO.
\<close>

record login_dto =
  login_username :: string
  login_password :: string

record register_dto =
  reg_username :: string
  reg_password :: string
  reg_role :: roles

record register_body =
  body_username :: string
  body_password :: string
  body_role :: string

text \<open>
  \<open>ValidationPipe\<close> collects the messages of every failed constraint, property by
  property in declaration order, and within a property in the order class-validator
  registered the decorators, which is bottom-up (the decorator next to the field
  first). A string field fails \<open>@IsNotEmpty()\<close> only when it is empty and never fails
  \<open>@IsString()\<close>; \<open>role\<close> fails \<open>@IsEnum(Roles)\<close> for any other value than
  \<open>admin\<close> and \<open>standard\<close>, the empty one included.
\<close>

definition not_empty_msgs :: "string \<Rightarrow> string \<Rightarrow> string list" where
  "not_empty_msgs prop v = (if v = [] then [prop @ '' should not be empty''] else [])"

definition validate_login_dto :: "login_dto \<Rightarrow> login_dto result" where
  "validate_login_dto d =
     (let msgs = not_empty_msgs ''username'' (login_username d) @ not_empty_msgs ''password'' (login_password d)
      in if msgs = [] then Inr d else Inl (ValidationFailed msgs))"

definition validate_register_dto :: "register_body \<Rightarrow> register_dto result" where
  "validate_register_dto b =
     (let msgs = not_empty_msgs ''username'' (body_username b) @ not_empty_msgs ''password'' (body_password b) @
                 (if parse_roles (body_role b) = None
                  then [''role must be one of the following values: admin, standard''] else []) @
                 not_empty_msgs ''role'' (body_role b)
      in case (msgs, parse_roles (body_role b)) of
           ([], Some r) \<Rightarrow> Inr \<lparr>reg_username = body_username b, reg_password = body_password b, reg_role = r\<rparr>
         | _ \<Rightarrow> Inl (ValidationFailed msgs))"

text \<open>
  \<open>CreateMovieDto\<close>: six fields, \<open>@IsString()\<close> or \<open>@IsInt()\<close>; the types carry the
  checks (no field is required to be non-empty). The \<open>Movie\<close> entity is the DTO
  extended with the generated primary key, so \<open>create_movie_dto.truncate\<close> forgets
  the key. \<open>UpdateMovieDto\<close> makes every field optional.
\<close>

record create_movie_dto =
  title :: string
  episode_id :: int
  opening_crawl :: string
  director :: string
  producer :: string
  release_date :: string

record movie = create_movie_dto +
  movie_id :: uuid

record update_movie_dto =
  upd_title :: "string option"
  upd_episode_id :: "int option"
  upd_opening_crawl :: "string option"
  upd_director :: "string option"
  upd_producer :: "string option"
  upd_release_date :: "string option"

definition movie_of_dto :: "uuid \<Rightarrow> create_movie_dto \<Rightarrow> movie" where
  "movie_of_dto u d = create_movie_dto.extend d \<lparr>movie_id = u\<rparr>"

text \<open>
  What \<open>UPDATE movie SET ...\<close> does with the fields present in the DTO; \<open>None\<close>
  fields are left alone. A DTO with no field gives no assignment at all.
\<close>

definition apply_update :: "update_movie_dto \<Rightarrow> movie \<Rightarrow> movie" where
  "apply_update d m =
     m\<lparr>title := case_option (title m) id (upd_title d),
       episode_id := case_option (episode_id m) id (upd_episode_id d),
       opening_crawl := case_option (opening_crawl m) id (upd_opening_crawl d),
       director := case_option (director m) id (upd_director d),
       producer := case_option (producer m) id (upd_producer d),
       release_date := case_option (release_date m) id (upd_release_date d)\<rparr>"

definition update_is_empty :: "update_movie_dto \<Rightarrow> bool" where
  "update_is_empty d \<longleftrightarrow>
     upd_title d = None \<and> upd_episode_id d = None \<and> upd_opening_crawl d = None \<and>
     upd_director d = None \<and> upd_producer d = None \<and> upd_release_date d = None"

section \<open>Password hashes\<close>

text \<open>
  The \<open>password\<close> column holds what \<open>bcrypt.hashSync(password, 10)\<close> returns: the
  cost, a random salt and the digest. Hashing is modelled symbolically: a hash
  records the secret it was made from, and no operation of the model reads the
  secret out of a hash. bcrypt digests only the first 72 bytes of the password
  (strings are byte sequences here, a character being one byte of the UTF-8
  encoding), so \<open>compareSync\<close> accepts exactly the passwords that agree with the
  hashed one on their first 72 bytes.
\<close>

datatype pw_hash = Bcrypt (hash_cost: nat) (hash_salt: string) (hash_secret: string)

definition hashSync :: "string \<Rightarrow> nat \<Rightarrow> string \<Rightarrow> pw_hash" where
  "hashSync data rounds salt = Bcrypt rounds salt data"

definition compareSync :: "string \<Rightarrow> pw_hash \<Rightarrow> bool" where
  "compareSync data h \<longleftrightarrow> take 72 data = take 72 (hash_secret h)"

section \<open>The user entity\<close>

text \<open>
  \<open>User\<close> of \<open>common/entities/user.entity.ts\<close>; \<open>plainToInstance(User, u)\<close> with
  the \<open>@Exclude()\<close> on \<open>password\<close> gives the public view without it.
\<close>

record user =
  user_id :: uuid
  username :: string
  password :: pw_hash
  role :: roles

record public_user =
  pub_id :: uuid
  pub_username :: string
  pub_role :: roles

definition plainToInstance_user :: "user \<Rightarrow> public_user" where
  "plainToInstance_user u = \<lparr>pub_id = user_id u, pub_username = username u, pub_role = role u\<rparr>"

section \<open>Configuration\<close>

text \<open>
  The part of \<open>IEnvs\<close> the core reads, as \<open>ConfigService.get\<close> returns it: the
  environment's strings, \<open>None\<close> for an expiration variable that is not set
  (\<open>get\<close> then returns \<open>undefined\<close>).
\<close>

record envs =
  ACCESSTOKEN_SECRET :: string
  ACCESSTOKEN_EXPIRATION :: "string option"
  REFRESHTOKEN_SECRET :: string
  REFRESHTOKEN_EXPIRATION :: "string option"

end
