(* ===== verification/Timespan.thy ===== *)
theory Timespan
  imports Prelude
begin

text \<open>
  Token lifetimes. \<open>IEnvs\<close> declares \<open>ACCESSTOKEN_EXPIRATION\<close> and
  \<open>REFRESHTOKEN_EXPIRATION\<close> as strings, and \<open>AuthService\<close> passes what
  \<open>ConfigService.get\<close> returns as the \<open>expiresIn\<close> option of \<open>JwtService.sign\<close>.
  jsonwebtoken turns a string \<open>expiresIn\<close> into the \<open>exp\<close> claim with
  \<open>timespan(time, iat)\<close>, which reads the string with the \<open>ms\<close> package:
  a decimal number, optional spaces, and an optional unit, where a number with no
  unit counts milliseconds. This theory models that reading exactly, with
  decimal numbers kept exact as a mantissa and a number of fraction digits.
\<close>

section \<open>The \<open>ms\<close> parser\<close>

text \<open>
  The number part of \<open>/^(-?(?:\d+)?\.?\d+) *(unit)?$/i\<close>: an optional minus
  sign, then digits, or digits, a point and at least one digit. The result is
  the signed mantissa, the number of digits after the point, and the rest of the
  input. The input after the number cannot start with a digit or a point, so
  the longest match is the only one the regular expression can use.
\<close>

definition digits_nat :: "string \<Rightarrow> nat" where
  "digits_nat ds = foldl (\<lambda>n c. 10 * n + digit_val c) 0 ds"

definition ms_number :: "string \<Rightarrow> (int \<times> nat \<times> string) option" where
  "ms_number s =
     (let (neg, s1) = (case s of c # r \<Rightarrow> if c = CHR ''-'' then (True, r) else (False, s) | [] \<Rightarrow> (False, s));
          sgn = (\<lambda>n. if neg then - int n else int n);
          d1 = takeWhile is_digit s1;
          s2 = dropWhile is_digit s1
      in case s2 of
           c # r \<Rightarrow>
             if c = CHR ''.'' then
               (let d2 = takeWhile is_digit r
                in if d2 = [] then None
                   else Some (sgn (digits_nat (d1 @ d2)), length d2, dropWhile is_digit r))
             else if d1 = [] then None else Some (sgn (digits_nat d1), 0, s2)
         | [] \<Rightarrow> if d1 = [] then None else Some (sgn (digits_nat d1), 0, []))"

text \<open>The units of \<open>ms\<close>, in milliseconds, by their lower-case spelling.\<close>

definition ms_units :: "(string \<times> int) list" where
  "ms_units =
     [(''years'', 31557600000), (''year'', 31557600000), (''yrs'', 31557600000),
      (''yr'', 31557600000), (''y'', 31557600000),
      (''weeks'', 604800000), (''week'', 604800000), (''w'', 604800000),
      (''days'', 86400000), (''day'', 86400000), (''d'', 86400000),
      (''hours'', 3600000), (''hour'', 3600000), (''hrs'', 3600000), (''hr'', 3600000), (''h'', 3600000),
      (''minutes'', 60000), (''minute'', 60000), (''mins'', 60000), (''min'', 60000), (''m'', 60000),
      (''seconds'', 1000), (''second'', 1000), (''secs'', 1000), (''sec'', 1000), (''s'', 1000),
      (''milliseconds'', 1), (''millisecond'', 1), (''msecs'', 1), (''msec'', 1), (''ms'', 1),
      ('''', 1)]"

text \<open>
  \<open>ms.parse(str)\<close>: \<open>undefined\<close> for strings longer than 100 characters and for
  strings the expression does not match; otherwise the number times the unit,
  as an exact decimal: the value is \<open>v / 10^k\<close> milliseconds for the result \<open>(v, k)\<close>.
\<close>

definition ms_parse :: "string \<Rightarrow> (int \<times> nat) option" where
  "ms_parse s =
     (if 100 < length s then None
      else case ms_number s of
             None \<Rightarrow> None
           | Some (m, k, rest) \<Rightarrow>
               (case map_of ms_units (map lower_char (dropWhile (\<lambda>c. c = CHR '' '') rest)) of
                  None \<Rightarrow> None
                | Some f \<Rightarrow> Some (m * f, k)))"

section \<open>The \<open>exp\<close> claim\<close>

text \<open>
  \<open>timespan(time, iat)\<close> of jsonwebtoken for a string \<open>time\<close>:
  \<open>Math.floor(iat + ms(time) / 1000)\<close>, and \<open>undefined\<close> when \<open>ms\<close> gives
  \<open>undefined\<close>. The empty string is refused earlier by the option schema of
  \<open>sign\<close>, with the same message.
\<close>

definition timespan :: "string \<Rightarrow> time \<Rightarrow> int option" where
  "timespan s iat =
     (if s = [] then None
      else case ms_parse s of
             None \<Rightarrow> None
           | Some (v, k) \<Rightarrow> Some (int iat + v div (1000 * 10 ^ k)))"

section \<open>Lemmas on decimal numbers\<close>

lemma digit_val_nth [simp]: "i < 10 \<Longrightarrow> digit_val (''0123456789'' ! i) = i"
  by (auto simp: digit_val_def less_Suc_eq numeral_eq_Suc)

lemma is_digit_nth [simp]: "i < 10 \<Longrightarrow> is_digit (''0123456789'' ! i)"
  by (auto simp: is_digit_def less_Suc_eq numeral_eq_Suc)

lemma digits_nat_snoc [simp]: "digits_nat (xs @ [c]) = 10 * digits_nat xs + digit_val c"
  by (simp add: digits_nat_def)

lemma string_of_nat_digits: "\<forall>c\<in>set (string_of_nat n). is_digit c"
  by (induction n rule: string_of_nat.induct) (subst string_of_nat.simps, simp)

lemma string_of_nat_value [simp]: "digits_nat (string_of_nat n) = n"
proof (induction n rule: string_of_nat.induct)
  case (1 n)
  then show ?case
    by (subst string_of_nat.simps) (simp add: digits_nat_def)
qed

lemma string_of_nat_ne [simp]: "string_of_nat n \<noteq> []"
  by (subst string_of_nat.simps) simp

lemma string_of_nat_length: "0 < k \<Longrightarrow> n < 10 ^ k \<Longrightarrow> length (string_of_nat n) \<le> k"
proof (induction n arbitrary: k rule: string_of_nat.induct)
  case (1 n)
  show ?case
  proof (cases "n < 10")
    case True
    with "1.prems" show ?thesis by (subst string_of_nat.simps) simp
  next
    case False
    with "1.prems" obtain k' where k: "k = Suc k'" by (cases k) auto
    with "1.prems" have lt: "n div 10 < 10 ^ k'" by simp
    with False have "0 < k'" by (cases k') auto
    with lt False "1.IH" k show ?thesis by (subst string_of_nat.simps) simp
  qed
qed

lemma takeWhile_digits_append:
  "\<forall>c\<in>set ds. is_digit c \<Longrightarrow> (u = [] \<or> \<not> is_digit (hd u)) \<Longrightarrow>
   takeWhile is_digit (ds @ u) = ds \<and> dropWhile is_digit (ds @ u) = u"
  by (cases u) (simp_all add: takeWhile_append2 dropWhile_append2)

lemma ms_number_nat:
  assumes "u = [] \<or> (\<not> is_digit (hd u) \<and> hd u \<noteq> CHR ''.'')"
  shows "ms_number (string_of_nat n @ u) = Some (int n, 0, u)"
proof -
  have d: "\<forall>c\<in>set (string_of_nat n). is_digit c" by (rule string_of_nat_digits)
  have h: "hd (string_of_nat n @ u) \<noteq> CHR ''-''"
    using d string_of_nat_ne [of n] by (cases "string_of_nat n") (auto simp: is_digit_def)
  obtain c r where cr: "string_of_nat n @ u = c # r" by (cases "string_of_nat n") auto
  with h have sign: "(case string_of_nat n @ u of c # r \<Rightarrow> if c = CHR ''-'' then (True, r) else (False, string_of_nat n @ u)
                     | [] \<Rightarrow> (False, string_of_nat n @ u)) = (False, string_of_nat n @ u)"
    by simp
  have tw: "takeWhile is_digit (string_of_nat n @ u) = string_of_nat n \<and>
            dropWhile is_digit (string_of_nat n @ u) = u"
    using takeWhile_digits_append [OF d] assms by blast
  show ?thesis
    unfolding ms_number_def Let_def sign prod.case tw [THEN conjunct1] tw [THEN conjunct2]
    using assms by (cases u) simp_all
qed

lemma timespan_nat_unit:
  assumes "map_of ms_units (map lower_char u) = Some f"
    and "u = [] \<or> (\<not> is_digit (hd u) \<and> hd u \<noteq> CHR ''.'' \<and> hd u \<noteq> CHR '' '')"
    and "length (string_of_nat n @ u) \<le> 100"
  shows "timespan (string_of_nat n @ u) now = Some (int now + int n * f div 1000)"
proof -
  have "ms_number (string_of_nat n @ u) = Some (int n, 0, u)"
    using assms(2) by (intro ms_number_nat) auto
  moreover have "dropWhile (\<lambda>c. c = CHR '' '') u = u"
    using assms(2) by (cases u) auto
  ultimately show ?thesis
    using assms(1,3) by (simp add: timespan_def ms_parse_def)
qed

lemma timespan_None_iff: "timespan s now = None \<longleftrightarrow> s = [] \<or> ms_parse s = None"
  by (auto simp: timespan_def split: option.split)

lemmas timespan_eval = timespan_def ms_parse_def ms_number_def ms_units_def digits_nat_def
  digit_val_def is_digit_def lower_char_def

section \<open>What a configured lifetime means\<close>

text \<open>A lifetime written as a whole number of seconds with the unit \<open>s\<close> (up to 99 digits, so
  that the string stays within the 100 characters \<open>ms\<close> reads) puts \<open>exp\<close> exactly that many
  seconds after \<open>iat\<close>.\<close>

lemma timespan_seconds:
  assumes "n < 10 ^ 99"
  shows "timespan (string_of_nat n @ ''s'') now = Some (int now + int n)"
proof -
  from assms have "length (string_of_nat n) \<le> 99" by (rule string_of_nat_length [rotated]) simp
  then show ?thesis
    by (subst timespan_nat_unit [where f = 1000]) (simp_all add: ms_units_def lower_char_def is_digit_def)
qed

text \<open>A lifetime written as a bare number counts milliseconds, not seconds: \<open>exp\<close> is
  \<open>iat\<close> plus the number divided by 1000 and rounded down, so \<open>'3600'\<close> gives a token that
  expires three seconds after it is issued, and anything below \<open>'1000'\<close> one that is
  already expired.\<close>

lemma timespan_unitless:
  assumes "n < 10 ^ 100"
  shows "timespan (string_of_nat n) now = Some (int now + int n div 1000)"
proof -
  from assms have "length (string_of_nat n) \<le> 100" by (rule string_of_nat_length [rotated]) simp
  then show ?thesis
    using timespan_nat_unit [where u = "[]" and f = 1 and n = n and now = now] by (simp add: ms_units_def)
qed

section \<open>Witnesses\<close>

lemma timespan_seconds_example:
  "(3600::nat) < 10 ^ 99 \<and> timespan ''3600s'' 1000 = Some 4600"
proof -
  have "string_of_nat 3600 = ''3600''" by (simp add: string_of_nat.simps)
  with timespan_seconds [of 3600 1000] show ?thesis by simp
qed

lemma timespan_unitless_example:
  "(3600::nat) < 10 ^ 100 \<and> timespan ''3600'' 1000 = Some 1003"
proof -
  have "string_of_nat 3600 = ''3600''" by (simp add: string_of_nat.simps)
  with timespan_unitless [of 3600 1000] show ?thesis by simp
qed

end
