(* ===== verification/Tokens.thy ===== *)
theory Tokens
  imports Entities Timespan
begin

text \<open>
  The token service: \<open>JwtService.sign\<close> and the verification that passport-jwt
  performs, the extraction of the bearer token from the \<open>Authorization\<close>
  header, and the two strategies of \<open>common/strategies\<close>, which differ only in the
  secret they verify with. Signatures are modelled symbolically: a token records
  the secret it was signed with, and verification with a secret accepts exactly
  the tokens signed with it and not yet expired. Tokens carry \<open>{id, role}\<close> and the
  registered claims \<open>iat\<close> and \<open>exp\<close>; signing fails when \<open>expiresIn\<close> is
  \<open>undefined\<close>, empty or no timespan.
\<close>

section \<open>Signed tokens\<close>

record jwt_payload =
  pl_id :: uuid
  pl_role :: roles

datatype jwt = JWT (jwt_claims: jwt_payload) (jwt_key: string) (jwt_iat: time) (jwt_exp: "int option")

text \<open>What the header carries after \<open>Bearer\<close>: a well-formed token or anything else.\<close>

datatype token = Token jwt | Malformed string

text \<open>
  The \<open>exp\<close> claim that \<open>sign\<close> computes from \<open>expiresIn\<close> at \<open>iat = now\<close>
  (\<open>None\<close> when it computes none, and then \<open>sign\<close> throws), and whether
  \<open>expiresIn\<close> passes the option schema and \<open>timespan\<close>. The services always pass
  the key \<open>expiresIn\<close>, with \<open>undefined\<close> as its value when the variable is not
  set, and the option schema refuses that value as it refuses the empty string.
\<close>

definition exp_claim :: "string option \<Rightarrow> time \<Rightarrow> int option" where
  "exp_claim expiresIn now = (case expiresIn of None \<Rightarrow> None | Some s \<Rightarrow> timespan s now)"

definition valid_expiresIn :: "string option \<Rightarrow> bool" where
  "valid_expiresIn expiresIn \<longleftrightarrow> (case expiresIn of None \<Rightarrow> False | Some s \<Rightarrow> s \<noteq> [] \<and> ms_parse s \<noteq> None)"

text \<open>
  The two messages of jsonwebtoken: the option schema's, for \<open>undefined\<close> and the
  empty string, and the one \<open>sign\<close> throws when \<open>timespan\<close> gives no \<open>exp\<close>.
\<close>

definition expiresIn_schema_error :: string where
  \<open>expiresIn_schema_error = ''"expiresIn" should be a number of seconds or string representing a timespan''\<close>

definition expiresIn_error :: "string option \<Rightarrow> string" where
  \<open>expiresIn_error expiresIn =
     (case expiresIn of
        Some s \<Rightarrow> if s = [] then expiresIn_schema_error else expiresIn_schema_error @ '' eg: "1d", "20h", 60''
      | None \<Rightarrow> expiresIn_schema_error)\<close>

text \<open>
  \<open>jwtService.sign(payload, {secret, expiresIn})\<close> at clock \<open>now\<close>: \<open>@nestjs/jwt\<close>
  hands the options to jsonwebtoken's \<open>sign\<close>, which checks them against its schema,
  sets \<open>iat\<close> and \<open>exp = timespan(expiresIn, iat)\<close>, and throws a plain \<open>Error\<close>
  when the schema refuses \<open>expiresIn\<close> or \<open>timespan\<close> cannot read it.
\<close>

definition jwt_sign :: "jwt_payload \<Rightarrow> string \<Rightarrow> string option \<Rightarrow> time \<Rightarrow> jwt result" where
  "jwt_sign p secret expiresIn now =
     (case expiresIn of
        None \<Rightarrow> Inl (RawError expiresIn_schema_error)
      | Some s \<Rightarrow>
          if s = [] then Inl (RawError expiresIn_schema_error)
          else (case timespan s now of
                  None \<Rightarrow> Inl (RawError (expiresIn_error expiresIn))
                | Some e \<Rightarrow> Inr (JWT p secret now (Some e))))"

text \<open>
  Expiry as \<open>jsonwebtoken.verify\<close> checks it with \<open>ignoreExpiration: false\<close>: a
  token with an \<open>exp\<close> is expired from the second \<open>exp\<close> on; one without (which
  this application never signs) never is.
\<close>

fun live_until :: "int option \<Rightarrow> time \<Rightarrow> bool" where
  "live_until None now = True"
| "live_until (Some e) now = (int now < e)"

text \<open>Verification: the signature must match the secret, and the token must not be expired.\<close>

fun jwt_verify :: "string \<Rightarrow> time \<Rightarrow> token \<Rightarrow> jwt_payload option" where
  "jwt_verify secret now (Token t) =
     (if jwt_key t = secret \<and> live_until (jwt_exp t) now then Some (jwt_claims t) else None)"
| "jwt_verify secret now (Malformed s) = None"

section \<open>The bearer token of a request\<close>

text \<open>
  \<open>ExtractJwt.fromAuthHeaderAsBearerToken()\<close>: the header is a scheme and a
  credential; the scheme is compared with \<open>bearer\<close> ignoring case.
\<close>

datatype auth_header = AuthHeader (scheme: string) (credential: token)

definition fromAuthHeaderAsBearerToken :: "auth_header option \<Rightarrow> token option" where
  "fromAuthHeaderAsBearerToken h =
     (case h of
        None \<Rightarrow> None
      | Some (AuthHeader s t) \<Rightarrow> if map lower_char s = ''bearer'' then Some t else None)"

section \<open>The two strategies\<close>

text \<open>
  A passport-jwt strategy: extract, verify with its secret, then \<open>validate\<close>,
  which returns the payload unchanged; any failure is a 401.
\<close>

definition jwt_strategy :: "string \<Rightarrow> time \<Rightarrow> auth_header option \<Rightarrow> jwt_payload result" where
  "jwt_strategy secret now h =
     (case fromAuthHeaderAsBearerToken h of
        None \<Rightarrow> Inl (Unauthorized ''Unauthorized'')
      | Some t \<Rightarrow>
          (case jwt_verify secret now t of
             None \<Rightarrow> Inl (Unauthorized ''Unauthorized'')
           | Some p \<Rightarrow> Inr p))"

text \<open>\<open>AuthStrategy\<close> (name \<open>'auth'\<close>): the access-token secret.\<close>

definition auth_strategy :: "envs \<Rightarrow> time \<Rightarrow> auth_header option \<Rightarrow> jwt_payload result" where
  "auth_strategy cfg now h = jwt_strategy (ACCESSTOKEN_SECRET cfg) now h"

text \<open>\<open>RefreshStrategy\<close> (name \<open>'refresh'\<close>): the refresh-token secret.\<close>

definition refresh_strategy :: "envs \<Rightarrow> time \<Rightarrow> auth_header option \<Rightarrow> jwt_payload result" where
  "refresh_strategy cfg now h = jwt_strategy (REFRESHTOKEN_SECRET cfg) now h"

text \<open>The header a client sends with a token it was given.\<close>

definition bearer :: "jwt \<Rightarrow> auth_header option" where
  "bearer t = Some (AuthHeader ''Bearer'' (Token t))"

section \<open>Sample data\<close>

text \<open>
  A configuration with two secrets and lifetimes written with units, one that
  gives both kinds of token the same secret, one whose lifetimes are bare
  numbers, and one without lifetimes.
\<close>

abbreviation cfg_demo :: envs where
  "cfg_demo \<equiv> \<lparr>ACCESSTOKEN_SECRET = ''access-secret'', ACCESSTOKEN_EXPIRATION = Some ''1h'',
     REFRESHTOKEN_SECRET = ''refresh-secret'', REFRESHTOKEN_EXPIRATION = Some ''7d''\<rparr>"

abbreviation cfg_shared :: envs where
  "cfg_shared \<equiv> \<lparr>ACCESSTOKEN_SECRET = ''secret'', ACCESSTOKEN_EXPIRATION = Some ''1h'',
     REFRESHTOKEN_SECRET = ''secret'', REFRESHTOKEN_EXPIRATION = Some ''7d''\<rparr>"

abbreviation cfg_numeric :: envs where
  "cfg_numeric \<equiv> \<lparr>ACCESSTOKEN_SECRET = ''access-secret'', ACCESSTOKEN_EXPIRATION = Some ''3600'',
     REFRESHTOKEN_SECRET = ''refresh-secret'', REFRESHTOKEN_EXPIRATION = Some ''86400''\<rparr>"

abbreviation cfg_unset :: envs where
  "cfg_unset \<equiv> \<lparr>ACCESSTOKEN_SECRET = ''access-secret'', ACCESSTOKEN_EXPIRATION = None,
     REFRESHTOKEN_SECRET = ''refresh-secret'', REFRESHTOKEN_EXPIRATION = None\<rparr>"

section \<open>Lemmas on tokens\<close>

lemma jwt_sign_eq:
  "jwt_sign p s e now =
     (if valid_expiresIn e then Inr (JWT p s now (exp_claim e now)) else Inl (RawError (expiresIn_error e)))"
proof (cases e)
  case (Some x)
  have "valid_expiresIn e \<longleftrightarrow> timespan x now \<noteq> None"
    using Some by (simp add: valid_expiresIn_def timespan_None_iff)
  with Some show ?thesis
    by (cases "timespan x now") (auto simp: jwt_sign_def exp_claim_def expiresIn_error_def timespan_def)
qed (simp add: jwt_sign_def valid_expiresIn_def exp_claim_def expiresIn_error_def)

lemma bearer_extract [simp]: "fromAuthHeaderAsBearerToken (bearer t) = Some (Token t)"
  by (simp add: fromAuthHeaderAsBearerToken_def bearer_def lower_char_def)

lemma jwt_strategy_Inr_iff:
  "jwt_strategy secret now h = Inr p \<longleftrightarrow>
     (\<exists>t. fromAuthHeaderAsBearerToken h = Some (Token t) \<and> jwt_key t = secret \<and>
          live_until (jwt_exp t) now \<and> jwt_claims t = p)"
proof -
  have "jwt_verify secret now tk = Some p \<longleftrightarrow>
        (\<exists>t. tk = Token t \<and> jwt_key t = secret \<and> live_until (jwt_exp t) now \<and> jwt_claims t = p)" for tk
    by (cases tk) auto
  then show ?thesis
    by (auto simp: jwt_strategy_def split: option.splits)
qed

lemma jwt_strategy_Inl:
  "jwt_strategy secret now h = Inl e \<Longrightarrow> e = Unauthorized ''Unauthorized''"
  by (auto simp: jwt_strategy_def split: option.splits)

lemma jwt_strategy_JWT:
  "jwt_strategy secret' now' (bearer (JWT p secret iat x)) =
     (if secret = secret' \<and> live_until x now' then Inr p else Inl (Unauthorized ''Unauthorized''))"
  by (auto simp: jwt_strategy_def)

end
