(* ===== verification/AccessControl.thy ===== *)
theory AccessControl
  imports Tokens
begin

text \<open>
  The access-control layer. \<open>AuthApi(...roles)\<close> of
  \<open>common/guards/roles-auth.guard.ts\<close> stores the roles as metadata and installs
  \<open>AuthenticationGuard\<close> then \<open>RolesGuard\<close>; \<open>RefreshGuard\<close> protects the
  refresh endpoint. The guard classes themselves are not in the repository: they
  are modelled from the spec (section 4.3), the authentication guards as the
  passport strategies of the token service, the roles guard as a membership test
  whose failure is reported as Unauthorized. The spec describes the same check as
  a state machine per request; it is the inductive relation \<open>ac_step\<close>, and the
  guard chain is shown to reach exactly the terminal states the machine reaches.
\<close>

section \<open>Guards\<close>

definition AuthenticationGuard :: "envs \<Rightarrow> time \<Rightarrow> auth_header option \<Rightarrow> jwt_payload result" where
  "AuthenticationGuard cfg now h = auth_strategy cfg now h"

definition RefreshGuard :: "envs \<Rightarrow> time \<Rightarrow> auth_header option \<Rightarrow> jwt_payload result" where
  "RefreshGuard cfg now h = refresh_strategy cfg now h"

text \<open>
  The role test of section 4.3 of the spec: the payload's role must overlap the
  roles the endpoint declares, i.e. be one of them; an endpoint that declares
  no role lets every authenticated user through. The roles are an unordered set
  there, so the test is membership and not a role order.
\<close>

definition role_allowed :: "roles list \<Rightarrow> roles \<Rightarrow> bool" where
  "role_allowed roles r \<longleftrightarrow> roles = [] \<or> r \<in> set roles"

definition RolesGuard :: "roles list \<Rightarrow> jwt_payload \<Rightarrow> jwt_payload result" where
  "RolesGuard roles user =
     (if role_allowed roles (pl_role user) then Inr user else Inl (Unauthorized ''Unauthorized''))"

definition AuthApi :: "roles list \<Rightarrow> envs \<Rightarrow> time \<Rightarrow> auth_header option \<Rightarrow> jwt_payload result" where
  "AuthApi roles cfg now h =
     (case AuthenticationGuard cfg now h of
        Inl e \<Rightarrow> Inl e
      | Inr user \<Rightarrow> RolesGuard roles user)"

section \<open>The per-request state machine of the spec\<close>

datatype ac_state =
    Unauthenticated "auth_header option"
  | TokenExtracted token
  | TokenVerified jwt_payload
  | RoleChecked jwt_payload
  | Authorized jwt_payload
  | Rejected exc

inductive ac_step :: "string \<Rightarrow> roles list \<Rightarrow> time \<Rightarrow> ac_state \<Rightarrow> ac_state \<Rightarrow> bool"
  for secret roles now where
  extract_token: "fromAuthHeaderAsBearerToken h = Some t \<Longrightarrow>
    ac_step secret roles now (Unauthenticated h) (TokenExtracted t)"
| no_token: "fromAuthHeaderAsBearerToken h = None \<Longrightarrow>
    ac_step secret roles now (Unauthenticated h) (Rejected (Unauthorized ''Unauthorized''))"
| verify: "jwt_verify secret now t = Some p \<Longrightarrow>
    ac_step secret roles now (TokenExtracted t) (TokenVerified p)"
| bad_token: "jwt_verify secret now t = None \<Longrightarrow>
    ac_step secret roles now (TokenExtracted t) (Rejected (Unauthorized ''Unauthorized''))"
| role_ok: "role_allowed roles (pl_role p) \<Longrightarrow>
    ac_step secret roles now (TokenVerified p) (RoleChecked p)"
| role_bad: "\<not> role_allowed roles (pl_role p) \<Longrightarrow>
    ac_step secret roles now (TokenVerified p) (Rejected (Unauthorized ''Unauthorized''))"
| authorize: "ac_step secret roles now (RoleChecked p) (Authorized p)"

text \<open>The terminal state the machine reaches from each state, stage by stage.\<close>

definition ac_after_verified :: "roles list \<Rightarrow> jwt_payload \<Rightarrow> ac_state" where
  "ac_after_verified roles p =
     (if role_allowed roles (pl_role p) then Authorized p else Rejected (Unauthorized ''Unauthorized''))"

definition ac_after_extracted :: "string \<Rightarrow> roles list \<Rightarrow> time \<Rightarrow> token \<Rightarrow> ac_state" where
  "ac_after_extracted secret roles now t =
     (case jwt_verify secret now t of
        None \<Rightarrow> Rejected (Unauthorized ''Unauthorized'')
      | Some p \<Rightarrow> ac_after_verified roles p)"

fun ac_final :: "string \<Rightarrow> roles list \<Rightarrow> time \<Rightarrow> ac_state \<Rightarrow> ac_state" where
  "ac_final secret roles now (Unauthenticated h) =
     (case fromAuthHeaderAsBearerToken h of
        None \<Rightarrow> Rejected (Unauthorized ''Unauthorized'')
      | Some t \<Rightarrow> ac_after_extracted secret roles now t)"
| "ac_final secret roles now (TokenExtracted t) = ac_after_extracted secret roles now t"
| "ac_final secret roles now (TokenVerified p) = ac_after_verified roles p"
| "ac_final secret roles now (RoleChecked p) = Authorized p"
| "ac_final secret roles now (Authorized p) = Authorized p"
| "ac_final secret roles now (Rejected e) = Rejected e"

fun ac_terminal :: "ac_state \<Rightarrow> bool" where
  "ac_terminal (Authorized p) = True"
| "ac_terminal (Rejected e) = True"
| "ac_terminal s = False"

section \<open>Lemmas on the state machine\<close>

inductive_cases ac_step_UnauthenticatedE: "ac_step secret roles now (Unauthenticated h) s"
inductive_cases ac_step_TokenExtractedE: "ac_step secret roles now (TokenExtracted t) s"
inductive_cases ac_step_TokenVerifiedE: "ac_step secret roles now (TokenVerified p) s"
inductive_cases ac_step_RoleCheckedE: "ac_step secret roles now (RoleChecked p) s"
inductive_cases ac_step_AuthorizedE: "ac_step secret roles now (Authorized p) s"
inductive_cases ac_step_RejectedE: "ac_step secret roles now (Rejected e) s"

lemmas ac_step_elims = ac_step_UnauthenticatedE ac_step_TokenExtractedE ac_step_TokenVerifiedE
  ac_step_RoleCheckedE ac_step_AuthorizedE ac_step_RejectedE

lemma ac_terminal_no_step: "ac_terminal s \<Longrightarrow> \<not> ac_step secret roles now s s'"
  by (cases s) (auto elim: ac_step_elims)

lemma ac_step_deterministic:
  "ac_step secret roles now s s1 \<Longrightarrow> ac_step secret roles now s s2 \<Longrightarrow> s1 = s2"
  by (induction rule: ac_step.induct) (auto elim: ac_step_elims)

lemma ac_step_final:
  "ac_step secret roles now s s' \<Longrightarrow> ac_final secret roles now s' = ac_final secret roles now s"
  by (induction rule: ac_step.induct)
     (auto simp: ac_after_extracted_def ac_after_verified_def split: option.split)

lemma ac_final_terminal: "ac_terminal (ac_final secret roles now s)"
  by (cases s) (auto simp: ac_after_extracted_def ac_after_verified_def split: option.split)

lemma ac_terminal_final: "ac_terminal s \<Longrightarrow> ac_final secret roles now s = s"
  by (cases s) auto

lemma ac_steps_to_final: "(ac_step secret roles now)\<^sup>*\<^sup>* s (ac_final secret roles now s)"
proof -
  have v: "(ac_step secret roles now)\<^sup>*\<^sup>* (TokenVerified p) (ac_after_verified roles p)" for p
    by (auto simp: ac_after_verified_def intro: ac_step.intros converse_rtranclp_into_rtranclp)
  have x: "(ac_step secret roles now)\<^sup>*\<^sup>* (TokenExtracted t) (ac_after_extracted secret roles now t)" for t
  proof (cases "jwt_verify secret now t")
    case None
    then show ?thesis by (auto simp: ac_after_extracted_def intro: ac_step.intros)
  next
    case (Some p)
    then show ?thesis
      by (simp add: ac_after_extracted_def) (rule converse_rtranclp_into_rtranclp [OF ac_step.verify v])
  qed
  show ?thesis
  proof (cases s)
    case (Unauthenticated h)
    then show ?thesis
      by (cases "fromAuthHeaderAsBearerToken h")
         (auto intro: ac_step.intros converse_rtranclp_into_rtranclp x)
  qed (auto intro: ac_step.intros v x)
qed

lemma ac_steps_terminal_unique:
  assumes "(ac_step secret roles now)\<^sup>*\<^sup>* s t" and "ac_terminal t"
  shows "t = ac_final secret roles now s"
  using assms
proof (induction rule: converse_rtranclp_induct)
  case base
  then show ?case by (simp add: ac_terminal_final)
next
  case (step s s')
  then show ?case by (simp add: ac_step_final)
qed

lemma ac_steps_terminal_iff:
  "ac_terminal t \<Longrightarrow> (ac_step secret roles now)\<^sup>*\<^sup>* s t \<longleftrightarrow> t = ac_final secret roles now s"
  using ac_steps_terminal_unique ac_steps_to_final by metis

lemma AuthApi_final:
  "AuthApi roles cfg now h =
     (case ac_final (ACCESSTOKEN_SECRET cfg) roles now (Unauthenticated h) of
        Authorized p \<Rightarrow> Inr p
      | Rejected e \<Rightarrow> Inl e
      | _ \<Rightarrow> Inl (InternalServerError []))"
  by (auto simp: AuthApi_def AuthenticationGuard_def auth_strategy_def jwt_strategy_def RolesGuard_def
      ac_after_extracted_def ac_after_verified_def split: option.split)

section \<open>Properties of the access-control layer\<close>

text \<open>C7: the guard chain of \<open>AuthApi\<close> authorises a request exactly when the spec's state machine
  reaches Authorized with the same payload, and rejects it with an error exactly when the machine
  reaches Rejected with that error.\<close>

theorem AuthApi_refines_machine:
  "(AuthApi roles cfg now h = Inr p \<longleftrightarrow>
      (ac_step (ACCESSTOKEN_SECRET cfg) roles now)\<^sup>*\<^sup>* (Unauthenticated h) (Authorized p)) \<and>
   (AuthApi roles cfg now h = Inl e \<longleftrightarrow>
      (ac_step (ACCESSTOKEN_SECRET cfg) roles now)\<^sup>*\<^sup>* (Unauthenticated h) (Rejected e))"
proof -
  let ?f = "ac_final (ACCESSTOKEN_SECRET cfg) roles now (Unauthenticated h)"
  have t: "ac_terminal ?f" by (rule ac_final_terminal)
  have a: "(ac_step (ACCESSTOKEN_SECRET cfg) roles now)\<^sup>*\<^sup>* (Unauthenticated h) (Authorized p) \<longleftrightarrow> Authorized p = ?f"
    by (rule ac_steps_terminal_iff) simp
  have r: "(ac_step (ACCESSTOKEN_SECRET cfg) roles now)\<^sup>*\<^sup>* (Unauthenticated h) (Rejected e) \<longleftrightarrow> Rejected e = ?f"
    by (rule ac_steps_terminal_iff) simp
  from t show ?thesis
    unfolding a r AuthApi_final by (cases ?f) auto
qed

text \<open>A request that \<open>AuthApi\<close> lets through carries a bearer token signed with the access secret,
  not expired, whose payload is the one passed on and whose role the endpoint allows.\<close>

lemma AuthApi_authorized:
  assumes "AuthApi roles cfg now h = Inr p"
  shows "\<exists>t. fromAuthHeaderAsBearerToken h = Some (Token t) \<and> jwt_key t = ACCESSTOKEN_SECRET cfg \<and>
             live_until (jwt_exp t) now \<and> jwt_claims t = p \<and> role_allowed roles (pl_role p)"
proof -
  from assms obtain u where g: "AuthenticationGuard cfg now h = Inr u" and r: "RolesGuard roles u = Inr p"
    by (auto simp: AuthApi_def split: sum.splits)
  from r have "u = p" and "role_allowed roles (pl_role p)" by (auto simp: RolesGuard_def split: if_splits)
  with g show ?thesis
    by (auto simp: AuthenticationGuard_def auth_strategy_def jwt_strategy_Inr_iff)
qed

text \<open>An endpoint declared \<open>AuthApi(Roles.ADMIN)\<close> passes only payloads with the admin role.\<close>

lemma AuthApi_admin_only:
  "AuthApi [ADMIN] cfg now h = Inr p \<Longrightarrow> pl_role p = ADMIN"
  by (auto simp: AuthApi_def RolesGuard_def role_allowed_def split: sum.splits if_splits)

text \<open>Under that test an endpoint declared \<open>AuthApi(Roles.STANDARD)\<close> refuses a valid
  administrator's token, although the spec's interface table reads \<open>role \<ge> standard\<close> for
  \<open>GET /movies/:id\<close>.\<close>

lemma AuthApi_standard_refuses_admin:
  assumes "auth_strategy cfg now h = Inr p" and "pl_role p = ADMIN"
  shows "AuthApi [STANDARD] cfg now h = Inl (Unauthorized ''Unauthorized'')"
  using assms by (simp add: AuthApi_def AuthenticationGuard_def RolesGuard_def role_allowed_def)

section \<open>Witnesses\<close>

lemma admin_token_ok:
  "auth_strategy cfg_demo 10 (bearer (JWT \<lparr>pl_id = ''u-1'', pl_role = ADMIN\<rparr> ''access-secret'' 0 (Some 3600))) =
     Inr \<lparr>pl_id = ''u-1'', pl_role = ADMIN\<rparr>"
  by (simp add: auth_strategy_def jwt_strategy_JWT)

lemma AuthApi_authorized_example:
  "AuthApi [ADMIN] cfg_demo 10 (bearer (JWT \<lparr>pl_id = ''u-1'', pl_role = ADMIN\<rparr> ''access-secret'' 0 (Some 3600))) =
     Inr \<lparr>pl_id = ''u-1'', pl_role = ADMIN\<rparr> \<and> role_allowed [ADMIN] ADMIN"
proof -
  have h: "AuthApi [ADMIN] cfg_demo 10 (bearer (JWT \<lparr>pl_id = ''u-1'', pl_role = ADMIN\<rparr> ''access-secret'' 0 (Some 3600))) =
     Inr \<lparr>pl_id = ''u-1'', pl_role = ADMIN\<rparr>"
    using admin_token_ok by (simp add: AuthApi_def AuthenticationGuard_def RolesGuard_def role_allowed_def)
  from h AuthApi_authorized [OF h] show ?thesis by auto
qed

lemma AuthApi_admin_only_example:
  "AuthApi [ADMIN] cfg_demo 10 (bearer (JWT \<lparr>pl_id = ''u-1'', pl_role = ADMIN\<rparr> ''access-secret'' 0 (Some 3600))) =
     Inr \<lparr>pl_id = ''u-1'', pl_role = ADMIN\<rparr> \<and> pl_role \<lparr>pl_id = ''u-1'', pl_role = ADMIN\<rparr> = ADMIN"
proof -
  have h: "AuthApi [ADMIN] cfg_demo 10 (bearer (JWT \<lparr>pl_id = ''u-1'', pl_role = ADMIN\<rparr> ''access-secret'' 0 (Some 3600))) =
     Inr \<lparr>pl_id = ''u-1'', pl_role = ADMIN\<rparr>"
    using admin_token_ok by (simp add: AuthApi_def AuthenticationGuard_def RolesGuard_def role_allowed_def)
  from h AuthApi_admin_only [OF h] show ?thesis by simp
qed

lemma AuthApi_standard_refuses_admin_example:
  "auth_strategy cfg_demo 10 (bearer (JWT \<lparr>pl_id = ''u-1'', pl_role = ADMIN\<rparr> ''access-secret'' 0 (Some 3600))) =
     Inr \<lparr>pl_id = ''u-1'', pl_role = ADMIN\<rparr> \<and>
   AuthApi [STANDARD] cfg_demo 10 (bearer (JWT \<lparr>pl_id = ''u-1'', pl_role = ADMIN\<rparr> ''access-secret'' 0 (Some 3600))) =
     Inl (Unauthorized ''Unauthorized'')"
  using admin_token_ok AuthApi_standard_refuses_admin [OF admin_token_ok] by simp

end
