(* ===== verification/Routes.thy ===== *)
theory Routes
  imports AccessControl
begin

text \<open>
  The routes of \<open>AuthController\<close> and \<open>MoviesController\<close>: their methods and
  paths, the guards their decorators install, and \<open>ParseUUIDPipe\<close> on the \<open>:id\<close>
  parameters, whose character-by-character check is shown to accept exactly the
  language of its regular expression.
\<close>

section \<open>Routes\<close>

text \<open>One constructor per handler, with its path parameter and its body.\<close>

datatype route =
    PostRegister register_body
  | PostLogin login_dto
  | PostRefresh
  | GetMovies
  | GetMovie string
  | PostMovie create_movie_dto
  | PostSyncronize
  | PatchMovie string update_movie_dto
  | DeleteMovie string

record request =
  route :: route
  authorization :: "auth_header option"

fun http_method :: "route \<Rightarrow> string" where
  "http_method (GetMovies) = ''GET''"
| "http_method (GetMovie _) = ''GET''"
| "http_method (PatchMovie _ _) = ''PATCH''"
| "http_method (DeleteMovie _) = ''DELETE''"
| "http_method _ = ''POST''"

text \<open>\<open>req.route.path\<close>, the pattern the route was declared with.\<close>

fun route_path :: "route \<Rightarrow> string" where
  "route_path (PostRegister _) = ''/auth/register''"
| "route_path (PostLogin _) = ''/auth/login''"
| "route_path PostRefresh = ''/auth/refresh''"
| "route_path GetMovies = ''/movies''"
| "route_path (GetMovie _) = ''/movies/:id''"
| "route_path (PostMovie _) = ''/movies''"
| "route_path PostSyncronize = ''/movies/syncronize''"
| "route_path (PatchMovie _ _) = ''/movies/:id''"
| "route_path (DeleteMovie _) = ''/movies/:id''"

text \<open>\<open>req.url\<close>.\<close>

fun route_url :: "route \<Rightarrow> string" where
  "route_url (GetMovie k) = ''/movies/'' @ k"
| "route_url (PatchMovie k _) = ''/movies/'' @ k"
| "route_url (DeleteMovie k) = ''/movies/'' @ k"
| "route_url r = route_path r"

section \<open>Guards of the routes\<close>

datatype guard = NoGuard | UseRefreshGuard | UseAuthApi "roles list"

text \<open>\<open>@UseGuards(RefreshGuard)\<close> and \<open>@AuthApi(...)\<close> as the controllers declare them.\<close>

fun route_guard :: "route \<Rightarrow> guard" where
  "route_guard PostRefresh = UseRefreshGuard"
| "route_guard (GetMovie _) = UseAuthApi [STANDARD]"
| "route_guard (PostMovie _) = UseAuthApi [ADMIN]"
| "route_guard PostSyncronize = UseAuthApi [ADMIN]"
| "route_guard (PatchMovie _ _) = UseAuthApi [ADMIN]"
| "route_guard (DeleteMovie _) = UseAuthApi [ADMIN]"
| "route_guard _ = NoGuard"

text \<open>What a guard leaves in \<open>req.user\<close>: nothing for an unguarded route.\<close>

fun run_guard :: "envs \<Rightarrow> time \<Rightarrow> guard \<Rightarrow> auth_header option \<Rightarrow> jwt_payload option result" where
  "run_guard cfg now NoGuard h = Inr None"
| "run_guard cfg now UseRefreshGuard h = map_sum id Some (RefreshGuard cfg now h)"
| "run_guard cfg now (UseAuthApi roles) h = map_sum id Some (AuthApi roles cfg now h)"

section \<open>Pipes\<close>

text \<open>\<open>ParseUUIDPipe\<close>: eight, four, four, four and twelve hex digits.\<close>

definition hex_digit :: "char \<Rightarrow> bool" where
  "hex_digit c \<longleftrightarrow> c \<in> set ''0123456789abcdefABCDEF''"

definition is_uuid :: "string \<Rightarrow> bool" where
  "is_uuid s \<longleftrightarrow>
     map (\<lambda>c. if c = CHR ''-'' then c else if hex_digit c then CHR ''x'' else CHR ''?'') s =
       ''xxxxxxxx-xxxx-xxxx-xxxx-xxxxxxxxxxxx''"

text \<open>
  The pattern \<open>ParseUUIDPipe\<close> checks without a version,
  \<open>/^[0-9A-F]{8}-[0-9A-F]{4}-[0-9A-F]{4}-[0-9A-F]{4}-[0-9A-F]{12}$/i\<close>, as the language
  it denotes: five groups of hex digits of lengths 8, 4, 4, 4 and 12 joined by dashes.
\<close>

definition uuid_pattern :: "string \<Rightarrow> bool" where
  "uuid_pattern s \<longleftrightarrow>
     (\<exists>a b c d e. s = a @ ''-'' @ b @ ''-'' @ c @ ''-'' @ d @ ''-'' @ e \<and>
        length a = 8 \<and> length b = 4 \<and> length c = 4 \<and> length d = 4 \<and> length e = 12 \<and>
        list_all hex_digit (a @ b @ c @ d @ e))"

definition ParseUUIDPipe :: "string \<Rightarrow> string result" where
  "ParseUUIDPipe s = (if is_uuid s then Inr s else Inl (BadRequest ''Validation failed (uuid is expected)''))"

text \<open>The routes whose handlers write the movie table.\<close>

fun writes_movies :: "route \<Rightarrow> bool" where
  "writes_movies (PostMovie _) = True"
| "writes_movies PostSyncronize = True"
| "writes_movies (PatchMovie _ _) = True"
| "writes_movies (DeleteMovie _) = True"
| "writes_movies _ = False"

section \<open>Lemmas on routes\<close>

lemma uuid_shape_split:
  "''xxxxxxxx-xxxx-xxxx-xxxx-xxxxxxxxxxxx'' =
     replicate 8 CHR ''x'' @ ''-'' @ replicate 4 CHR ''x'' @ ''-'' @ replicate 4 CHR ''x'' @ ''-'' @
     replicate 4 CHR ''x'' @ ''-'' @ replicate 12 CHR ''x''"
  by (simp add: numeral_eq_Suc)

lemma uuid_class_hex_iff:
  "replicate n CHR ''x'' = map (\<lambda>c. if c = CHR ''-'' then c else if hex_digit c then CHR ''x'' else CHR ''?'') a \<longleftrightarrow>
   length a = n \<and> list_all hex_digit a"
proof (induction a arbitrary: n)
  case Nil
  then show ?case by auto
next
  case (Cons y a)
  have "hex_digit CHR ''-'' = False" by (simp add: hex_digit_def)
  with Cons show ?case by (cases n) auto
qed

lemma uuid_class_dash:
  "(CHR ''-'' = (if c = CHR ''-'' then c else if hex_digit c then CHR ''x'' else CHR ''?'')) \<longleftrightarrow> c = CHR ''-''"
  by auto

lemma uuid_class_hex:
  "list_all hex_digit a \<Longrightarrow>
   map (\<lambda>c. if c = CHR ''-'' then c else if hex_digit c then CHR ''x'' else CHR ''?'') a = replicate (length a) CHR ''x''"
proof -
  have "hex_digit CHR ''-'' = False" by (simp add: hex_digit_def)
  then show "list_all hex_digit a \<Longrightarrow> ?thesis" by (induction a) auto
qed

lemma AuthApi_Inr_iff:
  "AuthApi roles cfg now h = Inr p \<longleftrightarrow>
     (\<exists>t. fromAuthHeaderAsBearerToken h = Some (Token t) \<and> jwt_key t = ACCESSTOKEN_SECRET cfg \<and>
          live_until (jwt_exp t) now \<and> jwt_claims t = p \<and> role_allowed roles (pl_role p))"
proof -
  have "AuthApi roles cfg now h = Inr p \<longleftrightarrow> auth_strategy cfg now h = Inr p \<and> role_allowed roles (pl_role p)"
    by (auto simp: AuthApi_def AuthenticationGuard_def RolesGuard_def split: sum.splits if_splits)
  then show ?thesis by (auto simp: auth_strategy_def jwt_strategy_Inr_iff)
qed

lemma writes_movies_guard: "writes_movies r \<Longrightarrow> route_guard r = UseAuthApi [ADMIN]"
  by (cases r) auto

lemma run_guard_no_header:
  "g \<noteq> NoGuard \<Longrightarrow> run_guard cfg now g None = Inl (Unauthorized ''Unauthorized'')"
  by (cases g)
     (simp_all add: RefreshGuard_def refresh_strategy_def AuthApi_def AuthenticationGuard_def
       auth_strategy_def jwt_strategy_def fromAuthHeaderAsBearerToken_def)

section \<open>Properties of the routes\<close>

text \<open>The check of \<open>ParseUUIDPipe\<close>, computed by classifying each character and comparing
  with the shape of a UUID, accepts exactly the strings of its regular expression.\<close>

lemma is_uuid_pattern: "is_uuid s \<longleftrightarrow> uuid_pattern s"
proof
  assume "is_uuid s"
  then show "uuid_pattern s"
    unfolding is_uuid_def uuid_pattern_def uuid_shape_split
    by (auto simp: map_eq_append_conv append_eq_map_conv Cons_eq_map_conv uuid_class_hex_iff uuid_class_dash)
      blast
next
  assume "uuid_pattern s"
  then show "is_uuid s"
    unfolding is_uuid_def uuid_pattern_def uuid_shape_split
    by (auto simp: uuid_class_hex)
qed

section \<open>Witnesses\<close>

lemma is_uuid_pattern_example:
  "uuid_pattern ''123e4567-e89b-12d3-a456-426614174000'' \<and> \<not> uuid_pattern ''123e4567''"
  using is_uuid_pattern [of "''123e4567-e89b-12d3-a456-426614174000''"] is_uuid_pattern [of "''123e4567''"]
  by (simp add: is_uuid_def hex_digit_def)

end
