(* ===== verification/Timestamp.thy ===== *)
theory Timestamp
  imports Timespan "HOL-Library.While_Combinator"
begin

text \<open>
  The timestamp of the log entries. \<open>winstonConfig\<close> formats every entry with
  \<open>timestamp({ format: 'DD-MM-YYYY HH:mm:ss' })\<close>: logform sets the entry's
  \<open>timestamp\<close> field to \<open>fecha.format(new Date(), 'DD-MM-YYYY HH:mm:ss')\<close>, which
  reads the day, month, year, hours, minutes and seconds of the clock with the
  \<open>Date\<close> getters and writes each with fecha's \<open>pad\<close>. The clock is Unix time in
  seconds and the process runs in UTC, so the getters read the proleptic Gregorian
  calendar from 1 January 1970. The calendar is computed the way a loop over the
  years and the months computes it, and the theory proves that the year loop stops,
  that every field is in its range, and that the written timestamp determines the
  time it was written at.
\<close>

section \<open>The calendar\<close>

definition leap_year :: "nat \<Rightarrow> bool" where
  "leap_year y \<longleftrightarrow> 4 dvd y \<and> (\<not> 100 dvd y \<or> 400 dvd y)"

definition days_in_year :: "nat \<Rightarrow> nat" where
  "days_in_year y = (if leap_year y then 366 else 365)"

definition month_lengths :: "nat \<Rightarrow> nat list" where
  "month_lengths y = [31, if leap_year y then 29 else 28, 31, 30, 31, 30, 31, 31, 30, 31, 30, 31]"

text \<open>
  \<open>getFullYear\<close>: starting from 1970, subtract the length of each year from the
  number of days since the epoch while the rest is at least that long. The result
  is the year and the day within it.
\<close>

definition year_loop :: "nat \<Rightarrow> (nat \<times> nat) option" where
  "year_loop d =
     while_option (\<lambda>(y, r). days_in_year y \<le> r) (\<lambda>(y, r). (Suc y, r - days_in_year y)) (1970, d)"

text \<open>\<open>getMonth\<close> and \<open>getDate\<close>: the same walk over the month lengths of the year.\<close>

fun month_loop :: "nat list \<Rightarrow> nat \<Rightarrow> nat \<Rightarrow> nat \<times> nat" where
  "month_loop [] m r = (m, r)"
| "month_loop (l # ls) m r = (if r < l then (m, r) else month_loop ls (Suc m) (r - l))"

record date_time =
  dt_year :: nat
  dt_month :: nat
  dt_day :: nat
  dt_hour :: nat
  dt_minute :: nat
  dt_second :: nat

text \<open>
  The fields the getters give for a time: \<open>getMonth() + 1\<close>, as fecha writes it,
  is the month counted from 1, and \<open>getDate()\<close> the day counted from 1.
\<close>

definition date_of_time :: "time \<Rightarrow> date_time" where
  "date_of_time t =
     (let (y, r) = the (year_loop (t div 86400));
          (m, d) = month_loop (month_lengths y) 1 r;
          s = t mod 86400
      in \<lparr>dt_year = y, dt_month = m, dt_day = Suc d,
          dt_hour = s div 3600, dt_minute = s mod 3600 div 60, dt_second = s mod 60\<rparr>)"

section \<open>fecha's format\<close>

text \<open>
  \<open>pad(val, len)\<close>: \<open>val = String(val); while (val.length < len) val = '0' + val\<close>.
  The loop stops because the distance from the length of \<open>val\<close> to \<open>len\<close> shrinks.
\<close>

function pad :: "string \<Rightarrow> nat \<Rightarrow> string" where
  "pad v len = (if length v < len then pad (CHR ''0'' # v) len else v)"
  by pat_completeness auto
termination
  by (relation "measure (\<lambda>(v, len). len - length v)") auto

declare pad.simps [simp del]

text \<open>
  The tokens of the mask \<open>'DD-MM-YYYY HH:mm:ss'\<close> as fecha's token expression splits
  it, and what \<open>formatFlags\<close> writes for each: \<open>DD: pad(getDate())\<close>,
  \<open>MM: pad(getMonth() + 1)\<close>, \<open>YYYY: pad(getFullYear(), 4)\<close>, \<open>HH: pad(getHours())\<close>,
  \<open>mm: pad(getMinutes())\<close>, \<open>ss: pad(getSeconds())\<close>; the characters between the
  tokens are copied.
\<close>

datatype fecha_token = Tok_DD | Tok_MM | Tok_YYYY | Tok_HH | Tok_mm | Tok_ss | Lit string

fun format_token :: "date_time \<Rightarrow> fecha_token \<Rightarrow> string" where
  "format_token dt Tok_DD = pad (string_of_nat (dt_day dt)) 2"
| "format_token dt Tok_MM = pad (string_of_nat (dt_month dt)) 2"
| "format_token dt Tok_YYYY = pad (string_of_nat (dt_year dt)) 4"
| "format_token dt Tok_HH = pad (string_of_nat (dt_hour dt)) 2"
| "format_token dt Tok_mm = pad (string_of_nat (dt_minute dt)) 2"
| "format_token dt Tok_ss = pad (string_of_nat (dt_second dt)) 2"
| "format_token dt (Lit s) = s"

definition fecha_format :: "date_time \<Rightarrow> fecha_token list \<Rightarrow> string" where
  "fecha_format dt fmt = concat (map (format_token dt) fmt)"

definition timestamp_mask :: "fecha_token list" where
  "timestamp_mask = [Tok_DD, Lit ''-'', Tok_MM, Lit ''-'', Tok_YYYY, Lit '' '', Tok_HH, Lit '':'', Tok_mm, Lit '':'', Tok_ss]"

text \<open>The \<open>timestamp\<close> field of an entry logged at time \<open>t\<close>.\<close>

definition log_timestamp :: "time \<Rightarrow> string" where
  "log_timestamp t = fecha_format (date_of_time t) timestamp_mask"

section \<open>Reading a timestamp back\<close>

text \<open>
  The reference the properties compare with: the days before a year, the time a
  date denotes, and the reading of a timestamp's six fields at their positions.
\<close>

definition days_before_year :: "nat \<Rightarrow> nat" where
  "days_before_year y = sum_list (map days_in_year [1970..<y])"

definition time_of_date :: "date_time \<Rightarrow> nat" where
  "time_of_date dt =
     (days_before_year (dt_year dt) + sum_list (take (dt_month dt - 1) (month_lengths (dt_year dt)))
        + (dt_day dt - 1)) * 86400 + dt_hour dt * 3600 + dt_minute dt * 60 + dt_second dt"

definition parse_timestamp :: "string \<Rightarrow> nat" where
  "parse_timestamp s =
     time_of_date \<lparr>dt_year = digits_nat (take 4 (drop 6 s)), dt_month = digits_nat (take 2 (drop 3 s)),
                   dt_day = digits_nat (take 2 s), dt_hour = digits_nat (take 2 (drop 11 s)),
                   dt_minute = digits_nat (take 2 (drop 14 s)), dt_second = digits_nat (take 2 (drop 17 s))\<rparr>"

section \<open>Lemmas on the calendar\<close>

lemma days_in_year_ge [simp]: "365 \<le> days_in_year y"
  by (simp add: days_in_year_def)

lemma days_in_year_pos [simp]: "0 < days_in_year y"
  by (simp add: days_in_year_def)

lemma diff_days_in_year_less: "days_in_year y \<le> r \<Longrightarrow> r - days_in_year y < r"
  using days_in_year_pos [of y] by linarith

lemma month_lengths_sum [simp]: "sum_list (month_lengths y) = days_in_year y"
  by (simp add: month_lengths_def days_in_year_def)

lemma month_lengths_length [simp]: "length (month_lengths y) = 12"
  by (simp add: month_lengths_def)

lemma days_before_year_Suc:
  "1970 \<le> y \<Longrightarrow> days_before_year (Suc y) = days_before_year y + days_in_year y"
  by (simp add: days_before_year_def)

lemma days_before_year_le: "1970 \<le> y \<Longrightarrow> days_before_year y \<le> days_before_year (y + k)"
proof (induction k)
  case (Suc k)
  then have "days_before_year (y + Suc k) = days_before_year (y + k) + days_in_year (y + k)"
    by (simp add: days_before_year_Suc)
  with Suc show ?case by linarith
qed simp

lemma days_before_year_mono:
  assumes "1970 \<le> y" "y < y'"
  shows "days_before_year y + days_in_year y \<le> days_before_year y'"
proof -
  from assms(2) obtain k where k: "y' = Suc y + k" by (auto simp: less_iff_Suc_add)
  from assms(1) have "days_before_year (Suc y) \<le> days_before_year (Suc y + k)"
    by (intro days_before_year_le) simp
  moreover from assms(1) have "days_before_year (Suc y) = days_before_year y + days_in_year y"
    by (rule days_before_year_Suc)
  ultimately show ?thesis using k by simp
qed

lemma days_before_year_ge: "365 * k \<le> days_before_year (1970 + k)"
proof (induction k)
  case (Suc k)
  have "days_before_year (1970 + Suc k) = days_before_year (1970 + k) + days_in_year (1970 + k)"
    using days_before_year_Suc [of "1970 + k"] by simp
  moreover have "365 * Suc k = 365 * k + 365" by simp
  ultimately show ?case using Suc.IH days_in_year_ge [of "1970 + k"] by linarith
qed simp

text \<open>The year loop keeps the days it has not yet counted plus the days before its year.\<close>

lemma year_loop_Some:
  "\<exists>y r. year_loop d = Some (y, r) \<and> 1970 \<le> y \<and> days_before_year y + r = d \<and> r < days_in_year y"
proof -
  let ?b = "\<lambda>(y, r). days_in_year y \<le> r" and ?c = "\<lambda>(y, r). (Suc y, r - days_in_year y)"
  let ?P = "\<lambda>(y, r). 1970 \<le> y \<and> days_before_year y + r = d"
  have step: "?P (?c s) \<and> snd (?c s) < snd s" if "?P s" "?b s" for s
  proof -
    obtain y r where s: "s = (y, r)" by (cases s)
    with that have "1970 \<le> y" "days_before_year y + r = d" "days_in_year y \<le> r" by simp_all
    with s show ?thesis by (simp add: days_before_year_Suc diff_days_in_year_less)
  qed
  have start: "?P (1970, d)" by (simp add: days_before_year_def)
  from measure_while_option_Some [where f = snd and P = ?P and b = ?b and c = ?c, OF step start]
  obtain s where s: "while_option ?b ?c (1970, d) = Some s" by blast
  have step1: "?P (?c s)" if "?P s" "?b s" for s using step [OF that] by (rule conjunct1)
  have inv: "?P s" by (rule while_option_rule [where P = ?P and b = ?b and c = ?c, OF step1 s start])
  have stop: "\<not> ?b s" by (rule while_option_stop [OF s])
  obtain y r where yr: "s = (y, r)" by (cases s)
  from s inv stop show ?thesis unfolding year_loop_def yr by simp
qed

lemma year_loop_unique:
  assumes "1970 \<le> y" "days_before_year y + r = d" "r < days_in_year y"
    and "1970 \<le> y'" "days_before_year y' + r' = d" "r' < days_in_year y'"
  shows "y = y' \<and> r = r'"
proof -
  have "\<not> y < y'"
  proof
    assume "y < y'"
    from days_before_year_mono [OF assms(1) this] assms(2,3,5) show False by linarith
  qed
  moreover have "\<not> y' < y"
  proof
    assume "y' < y"
    from days_before_year_mono [OF assms(4) this] assms(2,5,6) show False by linarith
  qed
  ultimately have "y = y'" by simp
  with assms(2,5) show ?thesis by simp
qed

lemma month_loop_spec:
  "r < sum_list ls \<Longrightarrow> month_loop ls m r = (m', e) \<Longrightarrow>
   m \<le> m' \<and> m' - m < length ls \<and> e < ls ! (m' - m) \<and> sum_list (take (m' - m) ls) + e = r"
proof (induction ls arbitrary: m r)
  case (Cons l ls)
  show ?case
  proof (cases "r < l")
    case True
    with Cons.prems show ?thesis by simp
  next
    case False
    with Cons.prems have "r - l < sum_list ls" "month_loop ls (Suc m) (r - l) = (m', e)" by auto
    from Cons.IH [OF this] have ih: "Suc m \<le> m'" "m' - Suc m < length ls" "e < ls ! (m' - Suc m)"
      "sum_list (take (m' - Suc m) ls) + e = r - l" by simp_all
    from ih(1) obtain k where k: "m' = Suc m + k" by (auto simp: le_iff_add)
    then have "m' - m = Suc k" "m' - Suc m = k" by simp_all
    with ih False show ?thesis by simp
  qed
qed simp

text \<open>What the getters give for a time, with the facts the loops establish.\<close>

lemma date_of_time_spec:
  obtains y r m e where "1970 \<le> y" "days_before_year y + r = t div 86400" "r < days_in_year y"
    "1 \<le> m" "m \<le> 12" "e < month_lengths y ! (m - 1)" "sum_list (take (m - 1) (month_lengths y)) + e = r"
    "date_of_time t = \<lparr>dt_year = y, dt_month = m, dt_day = Suc e, dt_hour = t mod 86400 div 3600,
                        dt_minute = t mod 86400 mod 3600 div 60, dt_second = t mod 86400 mod 60\<rparr>"
proof -
  from year_loop_Some [of "t div 86400"] obtain y r where
    yr: "year_loop (t div 86400) = Some (y, r)" "1970 \<le> y" "days_before_year y + r = t div 86400"
        "r < days_in_year y" by blast
  obtain m e where me: "month_loop (month_lengths y) 1 r = (m, e)" by (cases "month_loop (month_lengths y) 1 r")
  from month_loop_spec [OF _ me] yr(4) have
    "1 \<le> m" "m - 1 < 12" "e < month_lengths y ! (m - 1)" "sum_list (take (m - 1) (month_lengths y)) + e = r"
    by simp_all
  moreover have "date_of_time t = \<lparr>dt_year = y, dt_month = m, dt_day = Suc e, dt_hour = t mod 86400 div 3600,
                        dt_minute = t mod 86400 mod 3600 div 60, dt_second = t mod 86400 mod 60\<rparr>"
    using yr(1) me by (simp add: date_of_time_def Let_def)
  ultimately show ?thesis using that yr(2-4) by simp
qed

lemma seconds_of_day: "(s::nat) div 3600 * 3600 + s mod 3600 div 60 * 60 + s mod 60 = s"
proof -
  have "s mod 3600 mod 60 = s mod 60" by (simp add: mod_mod_cancel)
  then have "s mod 3600 div 60 * 60 + s mod 60 = s mod 3600" by (metis div_mult_mod_eq)
  then show ?thesis by (metis add.assoc div_mult_mod_eq)
qed

lemma time_of_date_of_time [simp]: "time_of_date (date_of_time t) = t"
proof -
  obtain y r m e where f: "days_before_year y + r = t div 86400"
    "sum_list (take (m - 1) (month_lengths y)) + e = r"
    "date_of_time t = \<lparr>dt_year = y, dt_month = m, dt_day = Suc e, dt_hour = t mod 86400 div 3600,
                        dt_minute = t mod 86400 mod 3600 div 60, dt_second = t mod 86400 mod 60\<rparr>"
    by (rule date_of_time_spec)
  have "time_of_date (date_of_time t) = t div 86400 * 86400 + t mod 86400"
    using f seconds_of_day [of "t mod 86400"] by (simp add: time_of_date_def add.assoc)
  then show ?thesis by simp
qed

section \<open>Lemmas on the padded fields\<close>

lemma pad_eq: "pad v len = replicate (len - length v) (CHR ''0'') @ v"
proof (induction v len rule: pad.induct)
  case (1 v len)
  show ?case
  proof (cases "length v < len")
    case True
    then have "len - length v = Suc (len - Suc (length v))" by simp
    with True "1.IH" show ?thesis by (subst pad.simps) (simp add: replicate_app_Cons_same)
  next
    case False
    then show ?thesis by (subst pad.simps) simp
  qed
qed

lemma digits_nat_zeros [simp]: "digits_nat (replicate j (CHR ''0'') @ v) = digits_nat v"
proof -
  have "foldl (\<lambda>n c. 10 * n + digit_val c) 0 (replicate j (CHR ''0'')) = 0"
    by (induction j) (simp_all add: digit_val_def)
  then show ?thesis by (simp add: digits_nat_def)
qed

lemma pad_field:
  assumes "0 < k" "n < 10 ^ k"
  shows "length (pad (string_of_nat n) k) = k \<and> digits_nat (pad (string_of_nat n) k) = n"
  using string_of_nat_length [OF assms] by (simp add: pad_eq)

lemma month_lengths_le: "i < 12 \<Longrightarrow> month_lengths y ! i \<le> 31"
proof -
  assume "i < 12"
  then have "month_lengths y ! i \<in> set (month_lengths y)" by simp
  moreover have "\<forall>x\<in>set (month_lengths y). x \<le> 31" by (simp add: month_lengths_def)
  ultimately show ?thesis by blast
qed

lemma day_seconds_bounds:
  "(t::nat) mod 86400 div 3600 < 24 \<and> t mod 86400 mod 3600 div 60 < 60 \<and> t mod 86400 mod 60 < 60"
proof (intro conjI)
  show "t mod 86400 div 3600 < 24" by (rule less_mult_imp_div_less) simp
  show "t mod 86400 mod 3600 div 60 < 60" by (rule less_mult_imp_div_less) simp
qed simp

section \<open>Properties of the timestamp\<close>

text \<open>The year loop of \<open>getFullYear\<close> stops for every number of days since the epoch,
  and the year and day it stops at are the only ones with the day inside the year and the
  days before the year plus the day equal to the given number.\<close>

lemma year_loop_terminates:
  "(\<exists>y r. year_loop d = Some (y, r)) \<and>
   (year_loop d = Some (y, r) \<longleftrightarrow> 1970 \<le> y \<and> days_before_year y + r = d \<and> r < days_in_year y)"
proof -
  from year_loop_Some [of d] obtain y0 r0 where
    s: "year_loop d = Some (y0, r0)" "1970 \<le> y0" "days_before_year y0 + r0 = d" "r0 < days_in_year y0"
    by blast
  have "year_loop d = Some (y, r) \<longleftrightarrow> 1970 \<le> y \<and> days_before_year y + r = d \<and> r < days_in_year y"
  proof
    assume "year_loop d = Some (y, r)"
    with s show "1970 \<le> y \<and> days_before_year y + r = d \<and> r < days_in_year y" by simp
  next
    assume "1970 \<le> y \<and> days_before_year y + r = d \<and> r < days_in_year y"
    with year_loop_unique [OF s(2-4)] s(1) show "year_loop d = Some (y, r)" by auto
  qed
  with s(1) show ?thesis by blast
qed

text \<open>Every field the getters give for a time is in its range: the year is 1970 or
  later, the month between 1 and 12, the day between 1 and the length of that month in that
  year, the hours below 24 and the minutes and seconds below 60.\<close>

lemma date_of_time_bounds:
  "1970 \<le> dt_year (date_of_time t) \<and>
   1 \<le> dt_month (date_of_time t) \<and> dt_month (date_of_time t) \<le> 12 \<and>
   1 \<le> dt_day (date_of_time t) \<and>
   dt_day (date_of_time t) \<le> month_lengths (dt_year (date_of_time t)) ! (dt_month (date_of_time t) - 1) \<and>
   dt_hour (date_of_time t) < 24 \<and> dt_minute (date_of_time t) < 60 \<and> dt_second (date_of_time t) < 60"
proof -
  obtain y r m e where f: "1970 \<le> y" "1 \<le> m" "m \<le> 12" "e < month_lengths y ! (m - 1)"
    "date_of_time t = \<lparr>dt_year = y, dt_month = m, dt_day = Suc e, dt_hour = t mod 86400 div 3600,
                        dt_minute = t mod 86400 mod 3600 div 60, dt_second = t mod 86400 mod 60\<rparr>"
    by (rule date_of_time_spec)
  with day_seconds_bounds [of t] show ?thesis by simp
qed

text \<open>C24: for a time before the year 5000 (below \<open>10^11\<close> seconds), the timestamp of a log
  entry has the 19 characters of \<open>DD-MM-YYYY HH:mm:ss\<close>, and reading its six fields back gives
  the time it was written at: no two seconds share a timestamp.\<close>

theorem log_timestamp_roundtrip:
  assumes "t < 10 ^ 11"
  shows "length (log_timestamp t) = 19 \<and> parse_timestamp (log_timestamp t) = t"
proof -
  obtain y r m e where f: "1970 \<le> y" "days_before_year y + r = t div 86400" "1 \<le> m" "m \<le> 12"
    "e < month_lengths y ! (m - 1)"
    "date_of_time t = \<lparr>dt_year = y, dt_month = m, dt_day = Suc e, dt_hour = t mod 86400 div 3600,
                        dt_minute = t mod 86400 mod 3600 div 60, dt_second = t mod 86400 mod 60\<rparr>"
    by (rule date_of_time_spec)
  have "t div 86400 < 1157408" using assms by (intro less_mult_imp_div_less) simp
  moreover have "365 * (y - 1970) \<le> days_before_year y"
    using days_before_year_ge [of "y - 1970"] f(1) by simp
  ultimately have "y < 10000" using f(2) by linarith
  then have y: "y < 10 ^ 4" by simp
  from f(3,4) have "m - 1 < 12" by simp
  with f(5) month_lengths_le [of "m - 1" y] have d: "Suc e < 10 ^ 2" by simp
  from f(4) have mo: "m < 10 ^ 2" by simp
  from day_seconds_bounds [of t] have
    hms: "t mod 86400 div 3600 < 10 ^ 2" "t mod 86400 mod 3600 div 60 < 10 ^ 2" "t mod 86400 mod 60 < 10 ^ 2"
    by simp_all
  note fields = pad_field [OF _ y] pad_field [OF _ d] pad_field [OF _ mo]
    pad_field [OF _ hms(1)] pad_field [OF _ hms(2)] pad_field [OF _ hms(3)]
  have "parse_timestamp (log_timestamp t) = time_of_date (date_of_time t)"
    using fields by (simp add: parse_timestamp_def log_timestamp_def fecha_format_def timestamp_mask_def f(6))
  moreover have "length (log_timestamp t) = 19"
    using fields by (simp add: log_timestamp_def fecha_format_def timestamp_mask_def f(6))
  ultimately show ?thesis by simp
qed

section \<open>A timestamp\<close>

lemmas timestamp_eval = log_timestamp_def fecha_format_def timestamp_mask_def date_of_time_def year_loop_def
  while_option_unfold [of _ _ "(_, _)"] days_in_year_def leap_year_def month_lengths_def
  pad.simps string_of_nat.simps

lemma log_timestamp_example: "log_timestamp 1700000000 = ''14-11-2023 22:13:20''"
  by (simp add: timestamp_eval)

text \<open>The epoch, the last second of 1999, and 29 February of the leap year 2000 (divisible by 400).\<close>

lemma log_timestamp_boundaries:
  "log_timestamp 0 = ''01-01-1970 00:00:00''"
  "log_timestamp 946684799 = ''31-12-1999 23:59:59''"
  "log_timestamp 951782400 = ''29-02-2000 00:00:00''"
  by (simp_all add: timestamp_eval)

theorem log_timestamp_roundtrip_witness:
  "(1700000000::nat) < 10 ^ 11 \<and> length (log_timestamp 1700000000) = 19 \<and>
   parse_timestamp (log_timestamp 1700000000) = 1700000000"
  using log_timestamp_roundtrip [of 1700000000] by simp

end
