(* ===== verification/Logging.thy ===== *)
theory Logging
  imports Routes Timestamp "HOL-Library.AList"
begin

text \<open>
  The two global providers of \<open>app.module.ts\<close> that see every request: the
  \<open>ExceptionsFilter\<close> of \<open>common/exceptions/all.exception.ts\<close>, which turns an
  exception into the JSON error body and an error log entry, and the
  \<open>LoggerInterceptor\<close> of \<open>common/interceptors/logger.interceptor.ts\<close>, which
  logs each request that passed its guards.
\<close>

section \<open>The exception filter\<close>

fun exc_status :: "exc \<Rightarrow> nat" where
  "exc_status (BadRequest _) = 400"
| "exc_status (ValidationFailed _) = 400"
| "exc_status (Unauthorized _) = 401"
| "exc_status (Forbidden _) = 403"
| "exc_status (NotFound _) = 404"
| "exc_status (Conflict _) = 409"
| "exc_status (InternalServerError _) = 500"
| "exc_status (RawError _) = 500"

text \<open>
  \<open>message: exception.response ? exception.response.message : exception\<close>: an
  \<open>HttpException\<close> contributes the message of its response (for
  \<open>InternalServerErrorException(error)\<close> the wrapped error's message, for
  \<open>ValidationPipe\<close>'s exception the array of messages); anything else is put in the
  body as the exception object itself, an \<open>Error\<close> with its message.
\<close>

datatype err_msg = MsgText string | MsgList "string list" | MsgErrorObject string

fun exc_message :: "exc \<Rightarrow> err_msg" where
  "exc_message (BadRequest m) = MsgText m"
| "exc_message (ValidationFailed ms) = MsgList ms"
| "exc_message (Unauthorized m) = MsgText m"
| "exc_message (Forbidden m) = MsgText m"
| "exc_message (NotFound m) = MsgText m"
| "exc_message (Conflict m) = MsgText m"
| "exc_message (InternalServerError m) = MsgText m"
| "exc_message (RawError m) = MsgErrorObject m"

record error_response =
  err_status :: nat
  err_message :: err_msg
  err_path :: string
  err_method :: string

definition ExceptionsFilter :: "exc \<Rightarrow> request \<Rightarrow> error_response" where
  "ExceptionsFilter e req =
     \<lparr>err_status = exc_status e, err_message = exc_message e,
      err_path = route_url (route req), err_method = http_method (route req)\<rparr>"

section \<open>The logging interceptor\<close>

datatype json = JStr string | JInt int

text \<open>The JSON body of a request, field by field.\<close>

fun request_body :: "route \<Rightarrow> (string \<times> json) list" where
  "request_body (PostRegister b) =
     [(''username'', JStr (body_username b)), (''password'', JStr (body_password b)),
      (''role'', JStr (body_role b))]"
| "request_body (PostLogin d) =
     [(''username'', JStr (login_username d)), (''password'', JStr (login_password d))]"
| "request_body (PostMovie d) =
     [(''title'', JStr (title d)), (''episode_id'', JInt (episode_id d)),
      (''opening_crawl'', JStr (opening_crawl d)), (''director'', JStr (director d)),
      (''producer'', JStr (producer d)), (''release_date'', JStr (release_date d))]"
| "request_body (PatchMovie _ d) =
     concat [case_option [] (\<lambda>v. [(''title'', JStr v)]) (upd_title d),
             case_option [] (\<lambda>v. [(''episode_id'', JInt v)]) (upd_episode_id d),
             case_option [] (\<lambda>v. [(''opening_crawl'', JStr v)]) (upd_opening_crawl d),
             case_option [] (\<lambda>v. [(''director'', JStr v)]) (upd_director d),
             case_option [] (\<lambda>v. [(''producer'', JStr v)]) (upd_producer d),
             case_option [] (\<lambda>v. [(''release_date'', JStr v)]) (upd_release_date d)]"
| "request_body _ = []"

fun route_params :: "route \<Rightarrow> (string \<times> string) list" where
  "route_params (GetMovie k) = [(''id'', k)]"
| "route_params (PatchMovie k _) = [(''id'', k)]"
| "route_params (DeleteMovie k) = [(''id'', k)]"
| "route_params _ = []"

record log_info =
  log_method :: string
  log_action :: nat
  log_route :: string
  log_body :: "(string \<times> json) list"
  log_params :: "(string \<times> string) list"

text \<open>
  \<open>LoggerInterceptor.log\<close>: a copy of the body without \<open>password\<close>, and as
  \<open>action\<close> the response's status code at the moment the interceptor runs.
\<close>

definition LoggerInterceptor :: "request \<Rightarrow> nat \<Rightarrow> log_info" where
  "LoggerInterceptor req statusCode =
     \<lparr>log_method = http_method (route req), log_action = statusCode,
      log_route = route_path (route req),
      log_body = AList.delete ''password'' (request_body (route req)),
      log_params = route_params (route req)\<rparr>"

datatype log_entry = Info log_info | Error error_response


section \<open>The winston transports\<close>

text \<open>
  \<open>winston.config.ts\<close>: the npm levels, the logger at level \<open>info\<close>, and three
  transports: the console (no level of its own, so the logger's), \<open>logs/info.log\<close>
  at \<open>info\<close> and \<open>logs/errors.log\<close> at \<open>error\<close>. A transport writes an entry when
  the entry's level is at least as severe as its level, that is when the entry's
  npm priority is at most the transport's. The interceptor logs with
  \<open>logger.info\<close>, the filter with \<open>logger.error\<close>.
\<close>

datatype npm_level = L_error | L_warn | L_info | L_http | L_verbose | L_debug | L_silly

fun npm_priority :: "npm_level \<Rightarrow> nat" where
  "npm_priority L_error = 0"
| "npm_priority L_warn = 1"
| "npm_priority L_info = 2"
| "npm_priority L_http = 3"
| "npm_priority L_verbose = 4"
| "npm_priority L_debug = 5"
| "npm_priority L_silly = 6"

instantiation npm_level :: linorder
begin

definition less_eq_npm_level :: "npm_level \<Rightarrow> npm_level \<Rightarrow> bool" where
  "less_eq_npm_level a b \<longleftrightarrow> npm_priority a \<le> npm_priority b"

definition less_npm_level :: "npm_level \<Rightarrow> npm_level \<Rightarrow> bool" where
  "less_npm_level a b \<longleftrightarrow> npm_priority a < npm_priority b"

instance
proof
  fix a b :: npm_level
  show "a \<le> b \<Longrightarrow> b \<le> a \<Longrightarrow> a = b"
    by (cases a; cases b) (simp_all add: less_eq_npm_level_def)
qed (auto simp: less_eq_npm_level_def less_npm_level_def)

end

record transport =
  tr_name :: string
  tr_level :: "npm_level option"

definition winston_level :: npm_level where
  "winston_level = L_info"

definition console_transport :: transport where
  "console_transport = \<lparr>tr_name = ''console'', tr_level = None\<rparr>"

definition info_log :: transport where
  "info_log = \<lparr>tr_name = ''logs/info.log'', tr_level = Some L_info\<rparr>"

definition errors_log :: transport where
  "errors_log = \<lparr>tr_name = ''logs/errors.log'', tr_level = Some L_error\<rparr>"

definition winston_transports :: "transport list" where
  "winston_transports = [console_transport, info_log, errors_log]"

fun entry_level :: "log_entry \<Rightarrow> npm_level" where
  "entry_level (Info _) = L_info"
| "entry_level (Error _) = L_error"

definition transport_accepts :: "transport \<Rightarrow> log_entry \<Rightarrow> bool" where
  "transport_accepts t e \<longleftrightarrow> entry_level e \<le> (case tr_level t of None \<Rightarrow> winston_level | Some l \<Rightarrow> l)"

text \<open>What one transport writes of a sequence of entries, in order.\<close>

definition transport_output :: "log_entry list \<Rightarrow> transport \<Rightarrow> log_entry list" where
  "transport_output logs t = filter (transport_accepts t) logs"

section \<open>The winston format\<close>

text \<open>
  \<open>errors({ stack: false })\<close> of logform: an entry whose \<open>message\<close> is an \<open>Error\<close>
  (the filter's body for an exception that is not an \<open>HttpException\<close>) is written with
  the error's message text as its \<open>message\<close>; other entries pass unchanged. The
  error's other enumerable properties, which the format copies into the entry, are not
  modelled.
\<close>

definition errors_response :: "error_response \<Rightarrow> error_response" where
  "errors_response r = (case err_message r of MsgErrorObject m \<Rightarrow> r\<lparr>err_message := MsgText m\<rparr> | _ \<Rightarrow> r)"

fun errors_format :: "log_entry \<Rightarrow> log_entry" where
  "errors_format (Info i) = Info i"
| "errors_format (Error r) = Error (errors_response r)"

text \<open>
  What the logger hands its transports for an entry logged at time \<open>now\<close>:
  \<open>combine(errors(...), timestamp(...), json())\<close> gives the entry after \<open>errors\<close>
  and the \<open>timestamp\<close> field of \<open>Timestamp\<close>; the JSON text \<open>json()\<close> prints from
  them is left as the record.
\<close>

record log_record =
  rec_entry :: log_entry
  rec_timestamp :: string

definition winston_format :: "time \<Rightarrow> log_entry \<Rightarrow> log_record" where
  "winston_format now e = \<lparr>rec_entry = errors_format e, rec_timestamp = log_timestamp now\<rparr>"

text \<open>
  What the filter's \<open>res.json(response)\<close> sends. \<open>logger.error(response)\<close> hands
  winston the response object itself when its \<open>message\<close> is truthy (a non-empty
  string, an array, an error object; otherwise it wraps it as \<open>{ message: response }\<close>),
  and the logger sets \<open>level\<close> on that object and its format changes it in place:
  \<open>errors\<close> replaces an error message by its text and \<open>timestamp\<close> adds the
  \<open>timestamp\<close> field. The format runs inside \<open>logger.error\<close>, before the filter
  calls \<open>res.json\<close>, whenever the logger's stream is not backed up, which the model
  assumes. The symbol-keyed fields winston also sets are not serialised.
\<close>

record error_json =
  json_fields :: error_response
  json_level :: "string option"
  json_timestamp :: "string option"

fun msg_truthy :: "err_msg \<Rightarrow> bool" where
  "msg_truthy (MsgText m) = (m \<noteq> [])"
| "msg_truthy (MsgList _) = True"
| "msg_truthy (MsgErrorObject _) = True"

definition logged_response :: "time \<Rightarrow> error_response \<Rightarrow> error_json" where
  "logged_response now r =
     (if msg_truthy (err_message r)
      then \<lparr>json_fields = errors_response r, json_level = Some ''error'', json_timestamp = Some (log_timestamp now)\<rparr>
      else \<lparr>json_fields = r, json_level = None, json_timestamp = None\<rparr>)"

text \<open>The records one transport writes of a sequence of entries with the time each was logged.\<close>

definition transport_lines :: "(time \<times> log_entry) list \<Rightarrow> transport \<Rightarrow> log_record list" where
  "transport_lines logs t = map (\<lambda>(now, e). winston_format now e) (filter (\<lambda>(now, e). transport_accepts t e) logs)"

section \<open>Lemmas on the transports\<close>

lemma transport_output_files:
  "transport_output logs console_transport = logs"
  "transport_output logs info_log = logs"
  "transport_output logs errors_log = filter (\<lambda>e. entry_level e = L_error) logs"
proof -
  note defs = transport_accepts_def console_transport_def info_log_def errors_log_def winston_level_def
    less_eq_npm_level_def
  have acc: "transport_accepts console_transport e" "transport_accepts info_log e"
    "transport_accepts errors_log e \<longleftrightarrow> entry_level e = L_error" for e
  proof -
    show "transport_accepts console_transport e" by (cases e) (simp_all add: defs)
    show "transport_accepts info_log e" by (cases e) (simp_all add: defs)
    show "transport_accepts errors_log e \<longleftrightarrow> entry_level e = L_error" by (cases e) (simp_all add: defs)
  qed
  have "transport_accepts console_transport = (\<lambda>e. True)"
    "transport_accepts info_log = (\<lambda>e. True)"
    "transport_accepts errors_log = (\<lambda>e. entry_level e = L_error)"
    using acc by (simp_all add: fun_eq_iff)
  then show "transport_output logs console_transport = logs"
    "transport_output logs info_log = logs"
    "transport_output logs errors_log = filter (\<lambda>e. entry_level e = L_error) logs"
    by (simp_all add: transport_output_def)
qed

lemma errors_format_level [simp]: "entry_level (errors_format e) = entry_level e"
  by (cases e) simp_all

text \<open>\<open>logs/errors.log\<close> gets the error entries, each formatted with the time it was logged.\<close>

lemma errors_log_lines:
  "transport_lines logs errors_log =
     map (\<lambda>(now, e). winston_format now e) (filter (\<lambda>(now, e). entry_level e = L_error) logs)"
proof -
  have "transport_accepts errors_log e \<longleftrightarrow> entry_level e = L_error" for e
    by (cases e) (simp_all add: transport_accepts_def errors_log_def less_eq_npm_level_def)
  then show ?thesis by (simp add: transport_lines_def case_prod_beta)
qed

text \<open>
  The body the filter sends is the record the transports write: the same fields,
  the level \<open>error\<close> and the same timestamp.
\<close>

lemma logged_response_record:
  "msg_truthy (err_message r) \<Longrightarrow>
     winston_format now (Error r) = \<lparr>rec_entry = Error (json_fields (logged_response now r)),
                                     rec_timestamp = the (json_timestamp (logged_response now r))\<rparr> \<and>
     json_level (logged_response now r) = Some ''error''"
  by (simp add: winston_format_def logged_response_def)

end
