(* ===== verification/Store.thy ===== *)
theory Store
  imports Entities
begin

text \<open>
  The two tables behind TypeORM's \<open>Repository<User>\<close> and \<open>Repository<Movie>\<close>.
  The services only call the repository; what they rely on is the schema the
  entity classes declare: a generated UUID primary key, \<open>@Unique(['username'])\<close>,
  \<open>@Unique(['title'])\<close>, and an \<open>integer\<close> column for \<open>episode_id\<close>. A table is a
  list of rows; every write that violates a constraint fails with PostgreSQL's
  error code and leaves the table as it was. The database's own behaviour on one
  statement (the UUID it generates, or a lost connection) is an input \<open>db_env\<close>.
  The table is abstracted to a finite map from primary keys to rows
  (\<open>table_map\<close>), and each operation is shown to implement a map operation.
\<close>

section \<open>Database errors and the database's input\<close>

text \<open>
  An out-of-range value carries the number that PostgreSQL's \<open>int4\<close> input function
  refused: node-postgres sends the JavaScript number as its decimal spelling, which
  is plain decimal for every magnitude below \<open>10^21\<close>.
\<close>

datatype db_error = UniqueViolation | NumericOutOfRange int | ConnectionFailure | UpdateValuesMissing

text \<open>\<open>error.code\<close> as the services test it; TypeORM's own errors have none.\<close>

fun pg_code :: "db_error \<Rightarrow> string" where
  "pg_code UniqueViolation = ''23505''"
| "pg_code (NumericOutOfRange _) = ''22003''"
| "pg_code ConnectionFailure = ''08006''"
| "pg_code UpdateValuesMissing = []"

text \<open>
  \<open>error.message\<close>: what PostgreSQL, node-postgres or TypeORM say. PostgreSQL names
  the violated constraint after the unique-violation text; the name TypeORM
  generates for it (a hash of the table and column) is not modelled.
\<close>

fun db_message :: "db_error \<Rightarrow> string" where
  "db_message UniqueViolation = ''duplicate key value violates unique constraint''"
| \<open>db_message (NumericOutOfRange v) = ''value "'' @ string_of_int v @ ''" is out of range for type integer''\<close>
| "db_message ConnectionFailure = ''Connection terminated unexpectedly''"
| \<open>db_message UpdateValuesMissing =
     ''Cannot perform update query because update values are not defined. Call "qb.set(...)" method to specify updated values.''\<close>

datatype db_env = DbOk uuid | DbDown

section \<open>Generic tables\<close>

text \<open>
  A table with primary key \<open>key\<close> and one unique column \<open>uniq\<close>.
\<close>

definition table_wf :: "('r \<Rightarrow> uuid) \<Rightarrow> ('r \<Rightarrow> string) \<Rightarrow> 'r list \<Rightarrow> bool" where
  "table_wf key uniq rows \<longleftrightarrow> distinct (map key rows) \<and> distinct (map uniq rows)"

definition table_map :: "('r \<Rightarrow> uuid) \<Rightarrow> 'r list \<Rightarrow> uuid \<rightharpoonup> 'r" where
  "table_map key rows = map_of (map (\<lambda>r. (key r, r)) rows)"

definition insert_row :: "('r \<Rightarrow> uuid) \<Rightarrow> ('r \<Rightarrow> string) \<Rightarrow> 'r \<Rightarrow> 'r list \<Rightarrow> db_error + 'r list" where
  "insert_row key uniq r rows =
     (if key r \<in> key ` set rows \<or> uniq r \<in> uniq ` set rows then Inl UniqueViolation
      else Inr (rows @ [r]))"

definition find_by :: "('r \<Rightarrow> 'k) \<Rightarrow> 'k \<Rightarrow> 'r list \<Rightarrow> 'r option" where
  "find_by f k rows = find (\<lambda>r. f r = k) rows"

definition delete_by :: "('r \<Rightarrow> uuid) \<Rightarrow> uuid \<Rightarrow> 'r list \<Rightarrow> nat \<times> 'r list" where
  "delete_by key k rows = (length (filter (\<lambda>r. key r = k) rows), filter (\<lambda>r. key r \<noteq> k) rows)"

definition update_rows ::
  "('r \<Rightarrow> uuid) \<Rightarrow> ('r \<Rightarrow> string) \<Rightarrow> uuid \<Rightarrow> ('r \<Rightarrow> 'r) \<Rightarrow> 'r list \<Rightarrow> db_error + 'r list" where
  "update_rows key uniq k f rows =
     (let rows' = map (\<lambda>r. if key r = k then f r else r) rows
      in if distinct (map uniq rows') then Inr rows' else Inl UniqueViolation)"

section \<open>The movie table\<close>

text \<open>PostgreSQL's \<open>integer\<close> is four bytes: values outside it are rejected with 22003.\<close>

definition in_int4 :: "int \<Rightarrow> bool" where
  "in_int4 x \<longleftrightarrow> - (2 ^ 31) \<le> x \<and> x < 2 ^ 31"

definition movies_wf :: "movie list \<Rightarrow> bool" where
  "movies_wf rows \<longleftrightarrow> table_wf movie_id title rows \<and> (\<forall>m \<in> set rows. in_int4 (episode_id m))"

text \<open>
  \<open>movieRepository.save(dto)\<close>. TypeORM's \<open>save\<close> updates the row of the entity's
  primary key when the entity carries one, and inserts otherwise. The entities
  this application saves never carry one: \<open>create\<close> passes a \<open>CreateMovieDto\<close>,
  which has no \<open>id\<close> property once the validation pipe has stripped the
  undeclared ones (the pipe is configured outside the repository), and
  \<open>syncronize\<close> an object literal without \<open>id\<close>. So \<open>save\<close> is an \<open>INSERT\<close> with a
  generated key.
\<close>

definition movie_save :: "db_env \<Rightarrow> create_movie_dto \<Rightarrow> movie list \<Rightarrow> db_error + (movie \<times> movie list)" where
  "movie_save env d rows =
     (case env of
        DbDown \<Rightarrow> Inl ConnectionFailure
      | DbOk u \<Rightarrow>
          if \<not> in_int4 (episode_id d) then Inl (NumericOutOfRange (episode_id d))
          else (case insert_row movie_id title (movie_of_dto u d) rows of
                  Inl e \<Rightarrow> Inl e
                | Inr rows' \<Rightarrow> Inr (movie_of_dto u d, rows')))"

text \<open>\<open>movieRepository.find({order: {episode_id: 'ASC'}})\<close>.\<close>

definition movie_find_ordered :: "movie list \<Rightarrow> movie list" where
  "movie_find_ordered rows = sort_key episode_id rows"

text \<open>
  \<open>movieRepository.update(id, dto)\<close>: TypeORM refuses a DTO that sets nothing
  before it reaches the database; otherwise one \<open>UPDATE ... WHERE id = $1\<close>, which
  changes no row when the key is absent and is checked against the constraints.
\<close>

definition movie_update :: "db_env \<Rightarrow> uuid \<Rightarrow> update_movie_dto \<Rightarrow> movie list \<Rightarrow> db_error + movie list" where
  "movie_update env k d rows =
     (if update_is_empty d then Inl UpdateValuesMissing
      else case env of
        DbDown \<Rightarrow> Inl ConnectionFailure
      | DbOk _ \<Rightarrow>
          if \<not> in_int4 (case_option 0 id (upd_episode_id d)) then Inl (NumericOutOfRange (case_option 0 id (upd_episode_id d)))
          else update_rows movie_id title k (apply_update d) rows)"

text \<open>\<open>movieRepository.delete(id)\<close>: the \<open>DeleteResult\<close>'s \<open>affected\<close> and the new table.\<close>

definition movie_delete :: "db_env \<Rightarrow> uuid \<Rightarrow> movie list \<Rightarrow> db_error + (nat \<times> movie list)" where
  "movie_delete env k rows =
     (case env of DbDown \<Rightarrow> Inl ConnectionFailure | DbOk _ \<Rightarrow> Inr (delete_by movie_id k rows))"

section \<open>The user table\<close>

definition users_wf :: "user list \<Rightarrow> bool" where
  "users_wf rows \<longleftrightarrow> table_wf user_id username rows"

text \<open>
  \<open>userRepository.save({...dto, password})\<close>: the \<open>RegisterDTO\<close> carries no \<open>id\<close>
  (as for \<open>movie_save\<close>), so this is an \<open>INSERT\<close> of a new user with a generated key.
\<close>

definition user_save ::
  "db_env \<Rightarrow> string \<Rightarrow> pw_hash \<Rightarrow> roles \<Rightarrow> user list \<Rightarrow> db_error + (user \<times> user list)" where
  "user_save env n h r rows =
     (case env of
        DbDown \<Rightarrow> Inl ConnectionFailure
      | DbOk u \<Rightarrow>
          (let x = \<lparr>user_id = u, username = n, password = h, role = r\<rparr>
           in case insert_row user_id username x rows of
                Inl e \<Rightarrow> Inl e
              | Inr rows' \<Rightarrow> Inr (x, rows')))"


section \<open>Lemmas on generic tables\<close>

lemma insert_row_Inr_iff [table_simps]:
  "insert_row key uniq r rows = Inr rows' \<longleftrightarrow>
     key r \<notin> key ` set rows \<and> uniq r \<notin> uniq ` set rows \<and> rows' = rows @ [r]"
  by (auto simp: insert_row_def)

lemma insert_row_Inl_iff [table_simps]:
  "insert_row key uniq r rows = Inl e \<longleftrightarrow>
     (key r \<in> key ` set rows \<or> uniq r \<in> uniq ` set rows) \<and> e = UniqueViolation"
  by (auto simp: insert_row_def)

lemma insert_row_wf [keeps_wf]:
  "table_wf key uniq rows \<Longrightarrow> insert_row key uniq r rows = Inr rows' \<Longrightarrow> table_wf key uniq rows'"
  by (auto simp: table_wf_def insert_row_Inr_iff)

lemma table_map_SomeD:
  "table_map key rows k = Some r \<Longrightarrow> r \<in> set rows \<and> key r = k"
  by (induction rows) (auto simp: table_map_def split: if_splits)

lemma table_map_None:
  "k \<notin> key ` set rows \<Longrightarrow> table_map key rows k = None"
  by (induction rows) (auto simp: table_map_def)

lemma table_map_snoc_fresh:
  "key r \<notin> key ` set rows \<Longrightarrow> table_map key (rows @ [r]) = (table_map key rows)(key r \<mapsto> r)"
  by (rule ext) (auto simp: table_map_def map_add_def table_map_None [unfolded table_map_def]
      split: option.splits)

lemma table_map_insert_row:
  "insert_row key uniq r rows = Inr rows' \<Longrightarrow> table_map key rows' = (table_map key rows)(key r \<mapsto> r)"
  by (auto simp: insert_row_Inr_iff table_map_snoc_fresh)

lemma table_map_dom: "dom (table_map key rows) = key ` set rows"
  by (force simp: table_map_def dom_map_of_conv_image_fst)

lemma find_by_table_map:
  "distinct (map key rows) \<Longrightarrow> find_by key k rows = table_map key rows k"
  by (induction rows) (auto simp: find_by_def table_map_def)

lemma table_map_Some_iff:
  "distinct (map key rows) \<Longrightarrow> table_map key rows k = Some r \<longleftrightarrow> r \<in> set rows \<and> key r = k"
proof (induction rows)
  case Nil
  then show ?case by (simp add: table_map_def)
next
  case (Cons a rows)
  then show ?case
    by (auto simp: table_map_def image_iff dest: table_map_SomeD [unfolded table_map_def])
qed

lemma delete_by_wf [keeps_wf]:
  "table_wf key uniq rows \<Longrightarrow> table_wf key uniq (snd (delete_by key k rows))"
  by (simp add: table_wf_def delete_by_def distinct_map_filter_keep)

lemma table_map_delete_by:
  "table_map key (snd (delete_by key k rows)) = (table_map key rows)(k := None)"
  by (induction rows) (auto simp: table_map_def delete_by_def)

lemma delete_by_affected:
  "distinct (map key rows) \<Longrightarrow>
     fst (delete_by key k rows) = (if k \<in> key ` set rows then 1 else 0)"
  by (induction rows) (auto simp: delete_by_def filter_empty_conv)

lemma update_rows_wf [keeps_wf]:
  assumes "table_wf key uniq rows" "\<And>r. key (f r) = key r"
    and "update_rows key uniq k f rows = Inr rows'"
  shows "table_wf key uniq rows'"
proof -
  let ?g = "\<lambda>r. if key r = k then f r else r"
  have keys: "map key (map ?g rows) = map key rows"
    using assms(2) by (induction rows) auto
  from assms(3) have rows': "rows' = map ?g rows" and "distinct (map uniq rows')"
    by (auto simp: update_rows_def Let_def split: if_splits)
  moreover have "distinct (map key rows')"
    using assms(1) keys rows' by (metis table_wf_def)
  ultimately show ?thesis by (simp add: table_wf_def)
qed

lemma table_map_update_rows:
  assumes "\<And>r. key (f r) = key r" "update_rows key uniq k f rows = Inr rows'"
  shows "table_map key rows' = (table_map key rows)(k := map_option f (table_map key rows k))"
proof -
  have "table_map key (map (\<lambda>r. if key r = k then f r else r) rows) =
        (table_map key rows)(k := map_option f (table_map key rows k))"
    using assms(1) by (induction rows) (auto simp: table_map_def)
  with assms(2) show ?thesis by (auto simp: update_rows_def Let_def split: if_splits)
qed

lemma update_rows_Inl:
  "update_rows key uniq k f rows = Inl e \<Longrightarrow> e = UniqueViolation"
  by (auto simp: update_rows_def Let_def split: if_splits)


section \<open>Lemmas on the movie and user tables\<close>

lemma movie_of_dto_sel [simp]:
  "movie_id (movie_of_dto u d) = u" "title (movie_of_dto u d) = title d"
  "episode_id (movie_of_dto u d) = episode_id d"
  "create_movie_dto.truncate (movie_of_dto u d) = d"
  by (simp_all add: movie_of_dto_def create_movie_dto.defs movie.defs)

lemma movie_save_eq [table_simps]:
  "movie_save env d rows =
     (case env of
        DbDown \<Rightarrow> Inl ConnectionFailure
      | DbOk u \<Rightarrow>
          if \<not> in_int4 (episode_id d) then Inl (NumericOutOfRange (episode_id d))
          else if u \<in> movie_id ` set rows \<or> title d \<in> title ` set rows then Inl UniqueViolation
          else Inr (movie_of_dto u d, rows @ [movie_of_dto u d]))"
  by (simp add: movie_save_def insert_row_def split: db_env.split)

lemma movie_save_Inr_iff:
  "movie_save env d rows = Inr (m, rows') \<longleftrightarrow>
     (\<exists>u. env = DbOk u \<and> in_int4 (episode_id d) \<and> u \<notin> movie_id ` set rows \<and>
          title d \<notin> title ` set rows \<and> m = movie_of_dto u d \<and> rows' = rows @ [m])"
  by (auto simp: movie_save_eq split: db_env.splits)

lemma movie_save_wf [keeps_wf]:
  "movies_wf rows \<Longrightarrow> movie_save env d rows = Inr (m, rows') \<Longrightarrow> movies_wf rows'"
  by (auto simp: movies_wf_def table_wf_def movie_save_Inr_iff)

lemma movie_save_table_map:
  "movie_save env d rows = Inr (m, rows') \<Longrightarrow>
     table_map movie_id rows' = (table_map movie_id rows)(movie_id m \<mapsto> m)"
  by (auto simp: movie_save_Inr_iff table_map_snoc_fresh)

lemma apply_update_movie_id [simp]: "movie_id (apply_update d m) = movie_id m"
  by (simp add: apply_update_def)

lemma movie_update_Inr:
  "movie_update env k d rows = Inr rows' \<Longrightarrow>
     \<not> update_is_empty d \<and> env \<noteq> DbDown \<and> in_int4 (case_option 0 id (upd_episode_id d)) \<and>
     update_rows movie_id title k (apply_update d) rows = Inr rows'"
  by (auto simp: movie_update_def split: if_splits db_env.splits)

lemma movie_update_wf [keeps_wf]:
  assumes "movies_wf rows" "movie_update env k d rows = Inr rows'"
  shows "movies_wf rows'"
proof -
  from assms(2) have ok: "in_int4 (case_option 0 id (upd_episode_id d))"
    and upd: "update_rows movie_id title k (apply_update d) rows = Inr rows'"
    by (auto dest: movie_update_Inr)
  from assms(1) have "table_wf movie_id title rows" by (simp add: movies_wf_def)
  then have "table_wf movie_id title rows'"
    using update_rows_wf [of movie_id title rows "apply_update d" k rows'] upd by simp
  moreover from upd have "rows' = map (\<lambda>r. if movie_id r = k then apply_update d r else r) rows"
    by (auto simp: update_rows_def Let_def split: if_splits)
  with assms(1) ok have "\<forall>m \<in> set rows'. in_int4 (episode_id m)"
    by (auto simp: movies_wf_def apply_update_def split: option.splits)
  ultimately show ?thesis by (simp add: movies_wf_def)
qed

lemma movie_update_table_map:
  "movie_update env k d rows = Inr rows' \<Longrightarrow>
     table_map movie_id rows' =
       (table_map movie_id rows)(k := map_option (apply_update d) (table_map movie_id rows k))"
  by (auto dest!: movie_update_Inr intro: table_map_update_rows)

lemma movie_delete_wf [keeps_wf]:
  "movies_wf rows \<Longrightarrow> movie_delete env k rows = Inr (n, rows') \<Longrightarrow> movies_wf rows'"
  using delete_by_wf [of movie_id title rows k]
  by (auto simp: movies_wf_def movie_delete_def delete_by_def split: db_env.splits)

lemma movie_delete_Inr_iff:
  "movie_delete env k rows = Inr (n, rows') \<longleftrightarrow>
     env \<noteq> DbDown \<and> (n, rows') = delete_by movie_id k rows"
  by (auto simp: movie_delete_def split: db_env.splits)

lemma movie_find_ordered_sorted: "sorted (map episode_id (movie_find_ordered rows))"
  by (simp add: movie_find_ordered_def)

lemma movie_find_ordered_mset: "mset (movie_find_ordered rows) = mset rows"
  by (simp add: movie_find_ordered_def)

lemma user_save_eq [table_simps]:
  "user_save env n h r rows =
     (case env of
        DbDown \<Rightarrow> Inl ConnectionFailure
      | DbOk u \<Rightarrow>
          if u \<in> user_id ` set rows \<or> n \<in> username ` set rows then Inl UniqueViolation
          else Inr (\<lparr>user_id = u, username = n, password = h, role = r\<rparr>,
                    rows @ [\<lparr>user_id = u, username = n, password = h, role = r\<rparr>]))"
  by (simp add: user_save_def insert_row_def Let_def split: db_env.split)

lemma user_save_wf [keeps_wf]:
  "users_wf rows \<Longrightarrow> user_save env n h r rows = Inr (x, rows') \<Longrightarrow> users_wf rows'"
  by (auto simp: users_wf_def table_wf_def user_save_eq split: db_env.splits if_splits)

end
