(* ===== verification/AuthService.thy ===== *)
theory AuthService
  imports Store Tokens
begin

text \<open>
  \<open>AuthService\<close> of \<open>modules/auth/auth.service.ts\<close>: registration over the user
  table, login that issues an access and a refresh token, and the re-signing of
  an access token from a verified refresh payload. Each operation takes the
  configuration, the clock and what the database and the hash function draw at
  random as inputs, and returns its result with the new user table.
\<close>

section \<open>Operations\<close>

text \<open>The objects \<open>{ accessToken }\<close> and \<open>{ accessToken, refreshToken }\<close>.\<close>

record access_token_body =
  accessToken :: jwt

record tokens = access_token_body +
  refresh_token :: jwt

text \<open>
  \<open>register\<close>: save the DTO with the password replaced by its bcrypt hash (cost
  10, the salt drawn by bcrypt); 23505 becomes a 409, anything else a 500.
\<close>

definition register ::
  "db_env \<Rightarrow> string \<Rightarrow> register_dto \<Rightarrow> user list \<Rightarrow> public_user result \<times> user list" where
  "register env salt dto users =
     (case user_save env (reg_username dto) (hashSync (reg_password dto) 10 salt) (reg_role dto) users of
        Inl e \<Rightarrow>
          (if pg_code e = ''23505'' then Inl (Conflict ''Username already exists'')
           else Inl (InternalServerError (db_message e)), users)
      | Inr (u, users') \<Rightarrow> (Inr (plainToInstance_user u), users'))"

text \<open>The payload \<open>{ id: user.id, role: user.role }\<close> signed for a user.\<close>

definition user_payload :: "user \<Rightarrow> jwt_payload" where
  "user_payload u = \<lparr>pl_id = user_id u, pl_role = role u\<rparr>"

definition login :: "envs \<Rightarrow> time \<Rightarrow> login_dto \<Rightarrow> user list \<Rightarrow> tokens result" where
  "login cfg now dto users =
     (case find_by username (login_username dto) users of
        None \<Rightarrow> Inl (NotFound ''User not found'')
      | Some u \<Rightarrow>
          if \<not> compareSync (login_password dto) (password u)
          then Inl (Unauthorized ''Invalid username or password'')
          else
            (case jwt_sign (user_payload u) (ACCESSTOKEN_SECRET cfg) (ACCESSTOKEN_EXPIRATION cfg) now of
               Inl e \<Rightarrow> Inl e
             | Inr access \<Rightarrow>
                 (case jwt_sign (user_payload u) (REFRESHTOKEN_SECRET cfg) (REFRESHTOKEN_EXPIRATION cfg) now of
                    Inl e \<Rightarrow> Inl e
                  | Inr refresh \<Rightarrow> Inr \<lparr>accessToken = access, refresh_token = refresh\<rparr>)))"

text \<open>\<open>refreshToken(user)\<close>: \<open>user\<close> is the payload the refresh guard verified.\<close>

definition refreshToken :: "envs \<Rightarrow> time \<Rightarrow> jwt_payload \<Rightarrow> access_token_body result" where
  "refreshToken cfg now user =
     (case jwt_sign \<lparr>pl_id = pl_id user, pl_role = pl_role user\<rparr>
             (ACCESSTOKEN_SECRET cfg) (ACCESSTOKEN_EXPIRATION cfg) now of
        Inl e \<Rightarrow> Inl e
      | Inr access \<Rightarrow> Inr \<lparr>accessToken = access\<rparr>)"

section \<open>What a login issues\<close>

text \<open>
  Both lifetimes of the configuration are accepted by \<open>sign\<close>, and the pair of
  tokens \<open>sign\<close> then returns for a payload at clock \<open>now\<close>.
\<close>

definition lifetimes_ok :: "envs \<Rightarrow> bool" where
  "lifetimes_ok cfg \<longleftrightarrow>
     valid_expiresIn (ACCESSTOKEN_EXPIRATION cfg) \<and> valid_expiresIn (REFRESHTOKEN_EXPIRATION cfg)"

text \<open>
  The error a login gets when \<open>sign\<close> refuses a lifetime: the access token is
  signed first, so its lifetime's error comes first.
\<close>

definition lifetimes_error :: "envs \<Rightarrow> string" where
  "lifetimes_error cfg =
     (if valid_expiresIn (ACCESSTOKEN_EXPIRATION cfg) then expiresIn_error (REFRESHTOKEN_EXPIRATION cfg)
      else expiresIn_error (ACCESSTOKEN_EXPIRATION cfg))"

definition issued :: "envs \<Rightarrow> time \<Rightarrow> jwt_payload \<Rightarrow> tokens" where
  "issued cfg now p =
     \<lparr>accessToken = JWT p (ACCESSTOKEN_SECRET cfg) now (exp_claim (ACCESSTOKEN_EXPIRATION cfg) now),
      refresh_token = JWT p (REFRESHTOKEN_SECRET cfg) now (exp_claim (REFRESHTOKEN_EXPIRATION cfg) now)\<rparr>"

section \<open>Sample data\<close>

text \<open>A registered user and the DTOs that name her.\<close>

abbreviation dto_alice :: register_dto where
  "dto_alice \<equiv> \<lparr>reg_username = ''alice'', reg_password = ''password123'', reg_role = ADMIN\<rparr>"

abbreviation login_alice :: login_dto where
  "login_alice \<equiv> \<lparr>login_username = ''alice'', login_password = ''password123''\<rparr>"

abbreviation user_alice :: user where
  "user_alice \<equiv> \<lparr>user_id = ''u-alice'', username = ''alice'',
     password = hashSync ''password123'' 10 ''salt'', role = ADMIN\<rparr>"

abbreviation alice :: jwt_payload where
  "alice \<equiv> \<lparr>pl_id = ''u-alice'', pl_role = ADMIN\<rparr>"

section \<open>Lemmas\<close>

lemma register_eq:
  "register env salt dto users =
     (case env of
        DbDown \<Rightarrow> (Inl (InternalServerError ''Connection terminated unexpectedly''), users)
      | DbOk u \<Rightarrow>
          if u \<in> user_id ` set users \<or> reg_username dto \<in> username ` set users
          then (Inl (Conflict ''Username already exists''), users)
          else (Inr \<lparr>pub_id = u, pub_username = reg_username dto, pub_role = reg_role dto\<rparr>,
                users @ [\<lparr>user_id = u, username = reg_username dto,
                          password = hashSync (reg_password dto) 10 salt, role = reg_role dto\<rparr>]))"
  by (simp add: register_def user_save_eq plainToInstance_user_def split: db_env.split)

lemma login_eq:
  "login cfg now dto users =
     (case find_by username (login_username dto) users of
        None \<Rightarrow> Inl (NotFound ''User not found'')
      | Some u \<Rightarrow>
          if \<not> compareSync (login_password dto) (password u)
          then Inl (Unauthorized ''Invalid username or password'')
          else if lifetimes_ok cfg then Inr (issued cfg now (user_payload u))
          else Inl (RawError (lifetimes_error cfg)))"
  by (auto simp: login_def jwt_sign_eq lifetimes_ok_def lifetimes_error_def issued_def split: option.split)

lemma login_Inr:
  "login cfg now dto users = Inr tk \<Longrightarrow>
     \<exists>u. u \<in> set users \<and> username u = login_username dto \<and> lifetimes_ok cfg \<and>
         tk = issued cfg now (user_payload u)"
  by (auto simp: login_eq find_by_def split: option.splits if_splits dest: find_Some_in_set)

lemma issued_sel [simp]:
  "accessToken (issued cfg now p) = JWT p (ACCESSTOKEN_SECRET cfg) now (exp_claim (ACCESSTOKEN_EXPIRATION cfg) now)"
  "refresh_token (issued cfg now p) = JWT p (REFRESHTOKEN_SECRET cfg) now (exp_claim (REFRESHTOKEN_EXPIRATION cfg) now)"
  by (simp_all add: issued_def)

lemma refreshToken_eq:
  "refreshToken cfg now p =
     (if valid_expiresIn (ACCESSTOKEN_EXPIRATION cfg)
      then Inr \<lparr>accessToken = JWT p (ACCESSTOKEN_SECRET cfg) now (exp_claim (ACCESSTOKEN_EXPIRATION cfg) now)\<rparr>
      else Inl (RawError (expiresIn_error (ACCESSTOKEN_EXPIRATION cfg))))"
  by (simp add: refreshToken_def jwt_sign_eq)

lemmas lifetimes_eval = lifetimes_ok_def valid_expiresIn_def exp_claim_def timespan_eval

section \<open>Properties of the auth service\<close>

text \<open>C2: registering a username that exists never adds a row; with the database up the answer is Conflict.\<close>

theorem register_existing_username:
  assumes "reg_username dto \<in> username ` set users"
  shows "\<exists>e. register env salt dto users = (Inl e, users) \<and>
             (env \<noteq> DbDown \<longrightarrow> e = Conflict ''Username already exists'')"
  using assms by (auto simp: register_eq split: db_env.split)

text \<open>Registration keeps the user table well formed.\<close>

lemma register_wf [keeps_wf]:
  assumes "users_wf users" and "register env salt dto users = (r, users')"
  shows "users_wf users'"
  using assms by (auto simp: register_eq users_wf_def table_wf_def split: db_env.splits if_splits)

text \<open>C19: a successful registration stores the bcrypt hash of the password, which verifies the
  password, and returns the saved row without its password.\<close>

theorem register_stores_hash:
  assumes "register env salt dto users = (Inr pu, users')"
  shows "\<exists>x. users' = users @ [x] \<and> username x = reg_username dto \<and> role x = reg_role dto \<and>
             password x = hashSync (reg_password dto) 10 salt \<and>
             compareSync (reg_password dto) (password x) \<and> pu = plainToInstance_user x"
  using assms
  by (auto simp: register_eq hashSync_def compareSync_def plainToInstance_user_def
      split: db_env.splits if_splits)

text \<open>C4: login on every branch: unknown username, wrong password, a lifetime \<open>sign\<close> refuses, and
  otherwise the two tokens for the user's id and role.\<close>

theorem login_cases:
  "login cfg now dto users =
     (if login_username dto \<notin> username ` set users then Inl (NotFound ''User not found'')
      else let u = the (find_by username (login_username dto) users) in
        if \<not> compareSync (login_password dto) (password u)
        then Inl (Unauthorized ''Invalid username or password'')
        else if \<not> lifetimes_ok cfg then Inl (RawError (lifetimes_error cfg))
        else Inr (issued cfg now \<lparr>pl_id = user_id u, pl_role = role u\<rparr>))"
  by (auto simp: login_eq find_by_def find_key_None_iff user_payload_def
      split: option.split dest: find_key_Some_in_image)


text \<open>C20: bcrypt reads only the first 72 bytes of a password: after a registration, every
  password that agrees with the registered one on its first 72 bytes logs in as the new
  user, whatever follows.\<close>

theorem register_login_72_bytes:
  assumes "register env salt dto users = (Inr pu, users')" and "lifetimes_ok cfg"
    and "take 72 pw = take 72 (reg_password dto)"
  shows "login cfg now \<lparr>login_username = reg_username dto, login_password = pw\<rparr> users' =
           Inr (issued cfg now \<lparr>pl_id = pub_id pu, pl_role = reg_role dto\<rparr>)"
  using assms
  by (auto simp: register_eq login_eq find_by_def find_snoc_fresh hashSync_def compareSync_def user_payload_def
      split: db_env.splits if_splits)

text \<open>C11: the access token of a login passes the access strategy exactly while its \<open>exp\<close> claim,
  computed from \<open>ACCESSTOKEN_EXPIRATION\<close>, lies ahead, with the user's id and role; the refresh
  token passes the refresh strategy in the same way.\<close>

theorem login_tokens_verify:
  assumes "login cfg now dto users = Inr tk"
  shows "\<exists>u \<in> set users. username u = login_username dto \<and>
           auth_strategy cfg t (bearer (accessToken tk)) =
             (if live_until (exp_claim (ACCESSTOKEN_EXPIRATION cfg) now) t
              then Inr \<lparr>pl_id = user_id u, pl_role = role u\<rparr> else Inl (Unauthorized ''Unauthorized'')) \<and>
           refresh_strategy cfg t (bearer (refresh_token tk)) =
             (if live_until (exp_claim (REFRESHTOKEN_EXPIRATION cfg) now) t
              then Inr \<lparr>pl_id = user_id u, pl_role = role u\<rparr> else Inl (Unauthorized ''Unauthorized''))"
  using login_Inr [OF assms]
  by (auto simp: auth_strategy_def refresh_strategy_def jwt_strategy_JWT user_payload_def)

text \<open>C5: with distinct secrets an access token never passes the refresh strategy and a refresh
  token never passes the access strategy.\<close>

theorem tokens_not_interchangeable:
  assumes "ACCESSTOKEN_SECRET cfg \<noteq> REFRESHTOKEN_SECRET cfg" and "login cfg now dto users = Inr tk"
  shows "refresh_strategy cfg t (bearer (accessToken tk)) = Inl (Unauthorized ''Unauthorized'') \<and>
         auth_strategy cfg t (bearer (refresh_token tk)) = Inl (Unauthorized ''Unauthorized'')"
  using assms login_Inr [OF assms(2)]
  by (auto simp: auth_strategy_def refresh_strategy_def jwt_strategy_JWT)

text \<open>The two tokens of a login differ exactly when the configuration gives them different
  secrets or lifetimes that yield different \<open>exp\<close> claims.\<close>

lemma login_tokens_distinct_iff:
  assumes "login cfg now dto users = Inr tk"
  shows "accessToken tk \<noteq> refresh_token tk \<longleftrightarrow>
           ACCESSTOKEN_SECRET cfg \<noteq> REFRESHTOKEN_SECRET cfg \<or>
           exp_claim (ACCESSTOKEN_EXPIRATION cfg) now \<noteq> exp_claim (REFRESHTOKEN_EXPIRATION cfg) now"
  using login_Inr [OF assms] by auto

text \<open>C10: \<open>refreshToken\<close>, given the payload the refresh strategy verified and an access lifetime
  \<open>sign\<close> accepts, returns an access token with the same id and role, accepted by the access
  strategy until it expires.\<close>

theorem refreshToken_roundtrip:
  assumes "refresh_strategy cfg now h = Inr p" and "valid_expiresIn (ACCESSTOKEN_EXPIRATION cfg)"
    and "live_until (exp_claim (ACCESSTOKEN_EXPIRATION cfg) now) t"
  shows "\<exists>a. refreshToken cfg now p = Inr a \<and> auth_strategy cfg t (bearer (accessToken a)) = Inr p"
  using assms by (simp add: refreshToken_eq auth_strategy_def jwt_strategy_JWT)

text \<open>C27: when the configuration gives both kinds of token the same secret, the refresh
  strategy accepts the access token of a login (and the access strategy the refresh token).\<close>

theorem tokens_interchangeable_shared_secret:
  assumes "ACCESSTOKEN_SECRET cfg = REFRESHTOKEN_SECRET cfg" and "login cfg now dto users = Inr tk"
    and "live_until (exp_claim (ACCESSTOKEN_EXPIRATION cfg) now) t"
  shows "refresh_strategy cfg t (bearer (accessToken tk)) = auth_strategy cfg t (bearer (accessToken tk)) \<and>
         (\<exists>p. refresh_strategy cfg t (bearer (accessToken tk)) = Inr p)"
  using assms login_Inr [OF assms(2)]
  by (auto simp: auth_strategy_def refresh_strategy_def jwt_strategy_JWT)

text \<open>C12: a bare number as \<open>ACCESSTOKEN_EXPIRATION\<close>, such as \<open>'3600'\<close>, is read as
  milliseconds: the access token of a login is accepted only during the first \<open>n div 1000\<close>
  seconds.\<close>

theorem login_numeric_lifetime:
  assumes "ACCESSTOKEN_EXPIRATION cfg = Some (string_of_nat n)" and "n < 10 ^ 100"
    and "login cfg now dto users = Inr tk"
  shows "(\<exists>p. auth_strategy cfg t (bearer (accessToken tk)) = Inr p) \<longleftrightarrow> t < now + n div 1000"
proof -
  from login_Inr [OF assms(3)] obtain u where tk: "tk = issued cfg now (user_payload u)" by blast
  from assms(2) have "length (string_of_nat n) \<le> 100" by (rule string_of_nat_length [rotated]) simp
  then have "timespan (string_of_nat n) now = Some (int now + int n div 1000)"
    using timespan_nat_unit [where u = "[]" and f = 1 and n = n and now = now] by (simp add: ms_units_def)
  moreover have "int n div 1000 = int (n div 1000)" by (simp add: zdiv_int)
  ultimately show ?thesis
    using assms(1) tk by (simp add: exp_claim_def auth_strategy_def jwt_strategy_JWT)
qed

text \<open>C13: when \<open>ACCESSTOKEN_EXPIRATION\<close> is not set, \<open>configService.get\<close> gives
  \<open>undefined\<close>, which the services still pass as \<open>expiresIn\<close>: jsonwebtoken's option
  schema refuses it, so no login and no token refresh succeeds, and a user with the right
  password gets the 500 of the schema's error.\<close>

theorem login_unset_lifetime:
  assumes "ACCESSTOKEN_EXPIRATION cfg = None"
  shows "login cfg now dto users \<in> {Inl (NotFound ''User not found''),
           Inl (Unauthorized ''Invalid username or password''), Inl (RawError expiresIn_schema_error)} \<and>
         refreshToken cfg now p = Inl (RawError expiresIn_schema_error)"
  using assms
  by (simp add: login_eq refreshToken_eq lifetimes_ok_def lifetimes_error_def valid_expiresIn_def
      expiresIn_error_def split: option.split)


section \<open>Witnesses\<close>

lemma register_alice:
  "register (DbOk ''u-alice'') ''salt'' dto_alice [] =
     (Inr \<lparr>pub_id = ''u-alice'', pub_username = ''alice'', pub_role = ADMIN\<rparr>, [user_alice])"
  by (simp add: register_eq)

lemma login_alice_ok:
  "lifetimes_ok cfg \<Longrightarrow> login cfg now login_alice [user_alice] = Inr (issued cfg now alice)"
  by (simp add: login_eq find_by_def hashSync_def compareSync_def user_payload_def)

lemma lifetimes_demo: "lifetimes_ok cfg_demo" "lifetimes_ok cfg_shared" "lifetimes_ok cfg_numeric"
  by (simp_all add: lifetimes_eval)

theorem register_existing_username_witness:
  "''alice'' \<in> username ` set [user_alice] \<and>
   (\<exists>e. register (DbOk ''u2'') ''salt2'' dto_alice [user_alice] = (Inl e, [user_alice]) \<and>
        (DbOk ''u2'' \<noteq> DbDown \<longrightarrow> e = Conflict ''Username already exists''))"
proof -
  have h: "reg_username dto_alice \<in> username ` set [user_alice]" by simp
  from h register_existing_username [OF h, of "DbOk ''u2''" "''salt2''"] show ?thesis by simp
qed

theorem register_stores_hash_witness:
  "\<exists>x. [user_alice] = [] @ [x] \<and> username x = ''alice'' \<and> role x = ADMIN \<and>
       password x = hashSync ''password123'' 10 ''salt'' \<and> compareSync ''password123'' (password x) \<and>
       \<lparr>pub_id = ''u-alice'', pub_username = ''alice'', pub_role = ADMIN\<rparr> = plainToInstance_user x"
  using register_stores_hash [OF register_alice] by simp


theorem login_tokens_verify_witness:
  "login cfg_demo 1000 login_alice [user_alice] = Inr (issued cfg_demo 1000 alice) \<and>
   auth_strategy cfg_demo 2000 (bearer (JWT alice ''access-secret'' 1000 (Some 4600))) = Inr alice"
  using login_alice_ok [OF lifetimes_demo(1), of 1000]
    login_tokens_verify [OF login_alice_ok [OF lifetimes_demo(1), of 1000], of 2000]
  by (simp add: lifetimes_eval)

theorem tokens_not_interchangeable_witness:
  "''access-secret'' \<noteq> ''refresh-secret'' \<and>
   refresh_strategy cfg_demo 2000 (bearer (JWT alice ''access-secret'' 1000 (Some 4600))) =
     Inl (Unauthorized ''Unauthorized'')"
proof -
  have h: "ACCESSTOKEN_SECRET cfg_demo \<noteq> REFRESHTOKEN_SECRET cfg_demo" by simp
  from tokens_not_interchangeable [OF h login_alice_ok [OF lifetimes_demo(1), of 1000], of 2000]
  show ?thesis by (simp add: lifetimes_eval)
qed

lemma login_tokens_distinct_iff_example:
  "JWT alice ''access-secret'' 1000 (Some 4600) \<noteq> JWT alice ''refresh-secret'' 1000 (Some 605800)"
  using login_tokens_distinct_iff [OF login_alice_ok [OF lifetimes_demo(1), of 1000]]
  by (simp add: lifetimes_eval)

theorem refreshToken_roundtrip_witness:
  "refresh_strategy cfg_demo 5000 (bearer (JWT alice ''refresh-secret'' 1000 (Some 605800))) = Inr alice \<and>
   (\<exists>a. refreshToken cfg_demo 5000 alice = Inr a \<and> auth_strategy cfg_demo 6000 (bearer (accessToken a)) = Inr alice)"
proof -
  have h: "refresh_strategy cfg_demo 5000 (bearer (JWT alice ''refresh-secret'' 1000 (Some 605800))) = Inr alice"
    by (simp add: refresh_strategy_def jwt_strategy_JWT)
  have v: "valid_expiresIn (ACCESSTOKEN_EXPIRATION cfg_demo)" by (simp add: lifetimes_eval)
  have t: "live_until (exp_claim (ACCESSTOKEN_EXPIRATION cfg_demo) 5000) 6000" by (simp add: lifetimes_eval)
  from h refreshToken_roundtrip [OF h v t] show ?thesis by simp
qed

theorem tokens_interchangeable_shared_secret_witness:
  "ACCESSTOKEN_SECRET cfg_shared = REFRESHTOKEN_SECRET cfg_shared \<and>
   refresh_strategy cfg_shared 2000 (bearer (JWT alice ''secret'' 1000 (Some 4600))) = Inr alice"
proof -
  have h: "ACCESSTOKEN_SECRET cfg_shared = REFRESHTOKEN_SECRET cfg_shared" by simp
  have t: "live_until (exp_claim (ACCESSTOKEN_EXPIRATION cfg_shared) 1000) 2000" by (simp add: lifetimes_eval)
  from tokens_interchangeable_shared_secret [OF h login_alice_ok [OF lifetimes_demo(2), of 1000] t]
  show ?thesis by (simp add: auth_strategy_def jwt_strategy_JWT lifetimes_eval)
qed

theorem login_numeric_lifetime_witness:
  "ACCESSTOKEN_EXPIRATION cfg_numeric = Some (string_of_nat 3600) \<and>
   (\<exists>p. auth_strategy cfg_numeric 1002 (bearer (accessToken (issued cfg_numeric 1000 alice))) = Inr p) \<and>
   \<not> (\<exists>p. auth_strategy cfg_numeric 1003 (bearer (accessToken (issued cfg_numeric 1000 alice))) = Inr p)"
proof -
  have e: "ACCESSTOKEN_EXPIRATION cfg_numeric = Some (string_of_nat 3600)" by (simp add: string_of_nat.simps)
  have l: "login cfg_numeric 1000 login_alice [user_alice] = Inr (issued cfg_numeric 1000 alice)"
    by (rule login_alice_ok [OF lifetimes_demo(3)])
  from e login_numeric_lifetime [OF e _ l, of 1002] login_numeric_lifetime [OF e _ l, of 1003]
  show ?thesis by simp
qed

theorem login_unset_lifetime_witness:
  "ACCESSTOKEN_EXPIRATION cfg_unset = None \<and>
   login cfg_unset 1000 login_alice [user_alice] = Inl (RawError expiresIn_schema_error) \<and>
   refreshToken cfg_unset 1000 alice = Inl (RawError expiresIn_schema_error)"
proof -
  have u: "ACCESSTOKEN_EXPIRATION cfg_unset = None" by simp
  have "login cfg_unset 1000 login_alice [user_alice] \<noteq> Inl (NotFound ''User not found'') \<and>
        login cfg_unset 1000 login_alice [user_alice] \<noteq> Inl (Unauthorized ''Invalid username or password'')"
    by (simp add: login_eq find_by_def hashSync_def compareSync_def)
  with login_unset_lifetime [OF u, of 1000 login_alice "[user_alice]" alice] show ?thesis by auto
qed

theorem register_login_72_bytes_witness:
  "register (DbOk ''u-alice'') ''salt'' \<lparr>reg_username = ''alice'', reg_password = replicate 72 CHR ''a'', reg_role = ADMIN\<rparr> [] =
     (Inr \<lparr>pub_id = ''u-alice'', pub_username = ''alice'', pub_role = ADMIN\<rparr>,
      [\<lparr>user_id = ''u-alice'', username = ''alice'', password = hashSync (replicate 72 CHR ''a'') 10 ''salt'', role = ADMIN\<rparr>]) \<and>
   lifetimes_ok cfg_demo \<and> take 72 (replicate 72 CHR ''a'' @ ''anything'') = take 72 (replicate 72 CHR ''a'') \<and>
   login cfg_demo 1000 \<lparr>login_username = ''alice'', login_password = replicate 72 CHR ''a'' @ ''anything''\<rparr>
     [\<lparr>user_id = ''u-alice'', username = ''alice'', password = hashSync (replicate 72 CHR ''a'') 10 ''salt'', role = ADMIN\<rparr>] =
     Inr (issued cfg_demo 1000 alice)"
proof -
  have r: "register (DbOk ''u-alice'') ''salt'' \<lparr>reg_username = ''alice'', reg_password = replicate 72 CHR ''a'', reg_role = ADMIN\<rparr> [] =
     (Inr \<lparr>pub_id = ''u-alice'', pub_username = ''alice'', pub_role = ADMIN\<rparr>,
      [\<lparr>user_id = ''u-alice'', username = ''alice'', password = hashSync (replicate 72 CHR ''a'') 10 ''salt'', role = ADMIN\<rparr>])"
    by (simp add: register_eq)
  have t: "take 72 (replicate 72 CHR ''a'' @ ''anything'') = take 72 (replicate 72 CHR ''a'')" by simp
  from r lifetimes_demo(1) t register_login_72_bytes [OF r lifetimes_demo(1), of "replicate 72 CHR ''a'' @ ''anything''" 1000]
  show ?thesis by simp
qed


end
