(* ===== verification/MoviesService.thy ===== *)
theory MoviesService
  imports Store
begin

text \<open>
  \<open>MoviesService\<close> of \<open>modules/movies/movies.service.ts\<close>: the synchronisation with
  the external film catalogue and the CRUD operations, each a function of its
  inputs and the movie table that returns its result and the new table. The
  synchronisation fires every save at once (\<open>Promise.all\<close> over \<open>results.map\<close>);
  the database runs them one after the other in an order the model takes as an
  input, the schedule, together with what the database does for each.
\<close>

section \<open>Synchronisation\<close>

text \<open>A film object of \<open>https://swapi.dev/api/films\<close>: the six fields copied, and others.\<close>

record swapi_film = create_movie_dto +
  url :: string

text \<open>The object literal passed to \<open>save\<close>: the six fields of the film.\<close>

definition swapi_to_dto :: "swapi_film \<Rightarrow> create_movie_dto" where
  "swapi_to_dto f =
     \<lparr>title = title f, episode_id = episode_id f, opening_crawl = opening_crawl f,
      director = director f, producer = producer f, release_date = release_date f\<rparr>"

text \<open>
  The state the callbacks share: the first error thrown by one of them (with which
  \<open>Promise.all\<close> rejects), the array \<open>movies\<close> they push to, and the table.
\<close>

record sync_acc =
  sync_error :: "db_error option"
  sync_movies :: "movie list"
  sync_rows :: "movie list"

text \<open>One callback: save; push on success; return on 23505; throw otherwise.\<close>

definition sync_save :: "swapi_film \<Rightarrow> db_env \<Rightarrow> sync_acc \<Rightarrow> sync_acc" where
  "sync_save f env a =
     (case movie_save env (swapi_to_dto f) (sync_rows a) of
        Inr (m, rows') \<Rightarrow> a\<lparr>sync_movies := sync_movies a @ [m], sync_rows := rows'\<rparr>
      | Inl e \<Rightarrow>
          if pg_code e = ''23505'' then a
          else a\<lparr>sync_error := (case sync_error a of None \<Rightarrow> Some e | Some e' \<Rightarrow> Some e')\<rparr>)"

fun sync_saves :: "(swapi_film \<times> db_env) list \<Rightarrow> sync_acc \<Rightarrow> sync_acc" where
  "sync_saves [] a = a"
| "sync_saves ((f, env) # sched) a = sync_saves sched (sync_save f env a)"

text \<open>
  A schedule is valid for the fetched \<open>results\<close> when it saves each of them once.
  \<open>None\<close> for the response is a failed \<open>fetch\<close> or \<open>json()\<close>, or a body without
  \<open>results\<close>: the error escapes \<open>syncronize\<close> as it is.
\<close>

definition valid_schedule :: "swapi_film list \<Rightarrow> (swapi_film \<times> db_env) list \<Rightarrow> bool" where
  "valid_schedule results sched \<longleftrightarrow> mset (map fst sched) = mset results"

definition syncronize ::
  "swapi_film list option \<Rightarrow> (swapi_film \<times> db_env) list \<Rightarrow> movie list \<Rightarrow> movie list result \<times> movie list" where
  "syncronize response sched rows =
     (case response of
        None \<Rightarrow> (Inl (RawError ''fetch failed''), rows)
      | Some results \<Rightarrow>
          (let a = sync_saves sched \<lparr>sync_error = None, sync_movies = [], sync_rows = rows\<rparr>
           in (case sync_error a of
                 None \<Rightarrow> Inr (sync_movies a)
               | Some e \<Rightarrow> Inl (InternalServerError (db_message e)), sync_rows a)))"

section \<open>Overlapping synchronisations\<close>

text \<open>
  The \<open>@Cron\<close> job and a request to \<open>POST /movies/syncronize\<close> (or two cron runs,
  when one outlasts the interval) are not excluded from running at the same
  time. Each run has its own \<open>movies\<close> array and its own first error; the table
  is shared. The database runs the saves of both in one order, given as a
  schedule whose entries say which run issued the save (\<open>False\<close> for the first,
  \<open>True\<close> for the second), the film, and what the database does.
\<close>

fun sync_overlap :: "(bool \<times> swapi_film \<times> db_env) list \<Rightarrow> sync_acc \<Rightarrow> sync_acc \<Rightarrow> sync_acc \<times> sync_acc" where
  "sync_overlap [] a b = (a, b)"
| "sync_overlap ((False, f, e) # sched) a b =
     (let a' = sync_save f e a in sync_overlap sched a' (b\<lparr>sync_rows := sync_rows a'\<rparr>))"
| "sync_overlap ((True, f, e) # sched) a b =
     (let b' = sync_save f e b in sync_overlap sched (a\<lparr>sync_rows := sync_rows b'\<rparr>) b')"

text \<open>What a run answers once all its callbacks have settled.\<close>

definition sync_result :: "sync_acc \<Rightarrow> movie list result" where
  "sync_result a = (case sync_error a of None \<Rightarrow> Inr (sync_movies a) | Some e \<Rightarrow> Inl (InternalServerError (db_message e)))"

text \<open>Each run saves each film it fetched once.\<close>

definition valid_overlap :: "swapi_film list \<Rightarrow> swapi_film list \<Rightarrow> (bool \<times> swapi_film \<times> db_env) list \<Rightarrow> bool" where
  "valid_overlap ra rb sched \<longleftrightarrow>
     mset (map (fst \<circ> snd) (filter (\<lambda>x. \<not> fst x) sched)) = mset ra \<and>
     mset (map (fst \<circ> snd) (filter fst sched)) = mset rb"

definition syncronize_overlap ::
  "swapi_film list \<Rightarrow> swapi_film list \<Rightarrow> (bool \<times> swapi_film \<times> db_env) list \<Rightarrow> movie list \<Rightarrow>
   (movie list result \<times> movie list result) \<times> movie list" where
  "syncronize_overlap ra rb sched rows =
     (let init = \<lparr>sync_error = None, sync_movies = [], sync_rows = rows\<rparr>;
          (a, b) = sync_overlap sched init init
      in ((sync_result a, sync_result b), sync_rows a))"

text \<open>
  The invariant of two overlapping runs: they see the same table, which is the
  table they started from followed by exactly the rows the two runs pushed.
\<close>

definition ovl_inv :: "movie list \<Rightarrow> sync_acc \<Rightarrow> sync_acc \<Rightarrow> bool" where
  "ovl_inv base a b \<longleftrightarrow>
     sync_rows a = sync_rows b \<and>
     (\<exists>ms. sync_rows a = base @ ms \<and> mset ms = mset (sync_movies a) + mset (sync_movies b))"

section \<open>Queries and updates\<close>

definition findAll :: "movie list \<Rightarrow> movie list" where
  "findAll rows = movie_find_ordered rows"

definition findOne :: "uuid \<Rightarrow> movie list \<Rightarrow> movie result" where
  "findOne k rows =
     (case find_by movie_id k rows of
        None \<Rightarrow> Inl (NotFound ''Movie not found'')
      | Some m \<Rightarrow> Inr m)"

definition create :: "db_env \<Rightarrow> create_movie_dto \<Rightarrow> movie list \<Rightarrow> movie result \<times> movie list" where
  "create env d rows =
     (case movie_save env d rows of
        Inr (m, rows') \<Rightarrow> (Inr m, rows')
      | Inl e \<Rightarrow>
          (if pg_code e = ''23505'' then Inl (Conflict ''Movie already exists'')
           else Inl (InternalServerError (db_message e)), rows))"

text \<open>
  \<open>update\<close> catches nothing: a failed \<open>UPDATE\<close> escapes as it is. Its result is
  what \<open>findOneBy\<close> returns afterwards, \<open>null\<close> (here \<open>None\<close>) for an absent key.
\<close>

definition update :: "db_env \<Rightarrow> uuid \<Rightarrow> update_movie_dto \<Rightarrow> movie list \<Rightarrow> movie option result \<times> movie list" where
  "update env k d rows =
     (case movie_update env k d rows of
        Inl e \<Rightarrow> (Inl (RawError (db_message e)), rows)
      | Inr rows' \<Rightarrow> (Inr (find_by movie_id k rows'), rows'))"

definition remove :: "db_env \<Rightarrow> uuid \<Rightarrow> movie list \<Rightarrow> string result \<times> movie list" where
  "remove env k rows =
     (case movie_delete env k rows of
        Inl e \<Rightarrow> (Inl (RawError (db_message e)), rows)
      | Inr (n, rows') \<Rightarrow>
          (if n = 0 then Inl (NotFound ''Movie not found'') else Inr ''Done'', rows'))"

text \<open>\<open>onApplicationBootstrap\<close> awaits one synchronisation.\<close>

definition onApplicationBootstrap ::
  "swapi_film list option \<Rightarrow> (swapi_film \<times> db_env) list \<Rightarrow> movie list \<Rightarrow> unit result \<times> movie list" where
  "onApplicationBootstrap response sched rows =
     (case syncronize response sched rows of (r, rows') \<Rightarrow> (map_sum id (\<lambda>_. ()) r, rows'))"


text \<open>
  What the database must do for the synchronisation to insert every film it
  fetched: each save reaches it, gets a key never used before, and has an
  episode number the column can hold.
\<close>

definition sync_env_ok :: "(swapi_film \<times> db_env) list \<Rightarrow> movie list \<Rightarrow> bool" where
  "sync_env_ok sched rows \<longleftrightarrow>
     (\<forall>(f, e) \<in> set sched. in_int4 (episode_id f) \<and>
        (case e of DbOk u \<Rightarrow> u \<notin> movie_id ` set rows | DbDown \<Rightarrow> False)) \<and>
     distinct (map snd sched)"


section \<open>Sample data\<close>

text \<open>Two films as the catalogue returns them, used by the witnesses below.\<close>

abbreviation film_a :: swapi_film where
  "film_a \<equiv> \<lparr>title = ''A New Hope'', episode_id = 4, opening_crawl = ''It is a period of civil war'',
     director = ''George Lucas'', producer = ''Gary Kurtz, Rick McCallum'',
     release_date = ''1977-05-25'', url = ''https://swapi.dev/api/films/1/''\<rparr>"

abbreviation film_b :: swapi_film where
  "film_b \<equiv> \<lparr>title = ''The Empire Strikes Back'', episode_id = 5, opening_crawl = ''It is a dark time'',
     director = ''Irvin Kershner'', producer = ''Gary Kurtz, Rick McCallum'',
     release_date = ''1980-05-17'', url = ''https://swapi.dev/api/films/2/''\<rparr>"

text \<open>
  Two runs over both films: the first saves A, the second saves A (a duplicate by
  then) and B, the first saves B (a duplicate by then).
\<close>

abbreviation sched_overlap :: "(bool \<times> swapi_film \<times> db_env) list" where
  "sched_overlap \<equiv> [(False, film_a, DbOk ''m-1''), (True, film_a, DbOk ''m-2''),
                     (True, film_b, DbOk ''m-3''), (False, film_b, DbOk ''m-4'')]"

section \<open>Lemmas on the synchronisation\<close>

lemma swapi_to_dto_sel [simp]:
  "title (swapi_to_dto f) = title f" "episode_id (swapi_to_dto f) = episode_id f"
  by (simp_all add: swapi_to_dto_def)

lemma sync_save_rows:
  "sync_rows a = base @ sync_movies a \<Longrightarrow>
     sync_rows (sync_save f e a) = base @ sync_movies (sync_save f e a)"
  by (auto simp: sync_save_def movie_save_Inr_iff split: sum.split prod.split)

lemma sync_saves_rows:
  "sync_rows a = base @ sync_movies a \<Longrightarrow>
     sync_rows (sync_saves sched a) = base @ sync_movies (sync_saves sched a)"
  by (induction sched arbitrary: a) (auto simp: sync_save_rows)

lemma sync_save_wf [keeps_wf]:
  "movies_wf (sync_rows a) \<Longrightarrow> movies_wf (sync_rows (sync_save f e a))"
  by (auto simp: sync_save_def intro: movie_save_wf split: sum.split prod.split)

lemma sync_saves_wf [keeps_wf]:
  "movies_wf (sync_rows a) \<Longrightarrow> movies_wf (sync_rows (sync_saves sched a))"
  by (induction sched arbitrary: a) (auto simp: sync_save_wf)

lemma sync_save_error_kept:
  "sync_error a = Some e0 \<Longrightarrow> sync_error (sync_save f e a) = Some e0"
  by (auto simp: sync_save_def split: sum.split prod.split)

lemma sync_save_dup:
  assumes "e \<noteq> DbDown" "in_int4 (episode_id f)" "title f \<in> title ` set (sync_rows a)"
  shows "sync_save f e a = a"
  using assms by (cases e) (auto simp: sync_save_def movie_save_eq)

lemma sync_saves_dups:
  "\<forall>(f, e) \<in> set sched. e \<noteq> DbDown \<and> in_int4 (episode_id f) \<and> title f \<in> title ` set (sync_rows a)
     \<Longrightarrow> sync_saves sched a = a"
  by (induction sched) (auto simp: sync_save_dup)

lemma sync_save_fresh:
  assumes "in_int4 (episode_id f)" "u \<notin> movie_id ` set (sync_rows a)"
  shows "title ` set (sync_rows (sync_save f (DbOk u) a)) = insert (title f) (title ` set (sync_rows a))
         \<and> sync_error (sync_save f (DbOk u) a) = sync_error a
         \<and> movie_id ` set (sync_rows (sync_save f (DbOk u) a)) \<subseteq> insert u (movie_id ` set (sync_rows a))"
  using assms by (auto simp: sync_save_def movie_save_eq)

lemma sync_env_ok_Cons:
  "sync_env_ok ((f, e) # sched) rows \<longleftrightarrow>
     in_int4 (episode_id f) \<and> (case e of DbOk u \<Rightarrow> u \<notin> movie_id ` set rows | DbDown \<Rightarrow> False) \<and>
     e \<notin> snd ` set sched \<and> sync_env_ok sched rows"
  by (auto simp: sync_env_ok_def)

lemma sync_env_ok_shift:
  assumes "sync_env_ok sched rows" "DbOk u \<notin> snd ` set sched"
    and "movie_id ` set rows' \<subseteq> insert u (movie_id ` set rows)"
  shows "sync_env_ok sched rows'"
  unfolding sync_env_ok_def
proof (intro conjI ballI)
  show "distinct (map snd sched)" using assms(1) by (simp add: sync_env_ok_def)
next
  fix p assume p: "p \<in> set sched"
  obtain f e where fe: "p = (f, e)" by fastforce
  with p assms(1) have f: "in_int4 (episode_id f)"
    and e: "case e of DbOk v \<Rightarrow> v \<notin> movie_id ` set rows | DbDown \<Rightarrow> False"
    by (auto simp: sync_env_ok_def)
  from p fe assms(2) have "e \<noteq> DbOk u" by force
  with e assms(3) have "case e of DbOk v \<Rightarrow> v \<notin> movie_id ` set rows' | DbDown \<Rightarrow> False"
    by (auto split: db_env.splits)
  with f fe show "case p of (f, e) \<Rightarrow> in_int4 (episode_id f) \<and>
      (case e of DbOk u \<Rightarrow> u \<notin> movie_id ` set rows' | DbDown \<Rightarrow> False)" by simp
qed

lemma sync_save_shape:
  "(\<exists>m. sync_save f e a = a\<lparr>sync_movies := sync_movies a @ [m], sync_rows := sync_rows a @ [m]\<rparr>) \<or>
   (sync_rows (sync_save f e a) = sync_rows a \<and> sync_movies (sync_save f e a) = sync_movies a)"
  by (auto simp: sync_save_def movie_save_Inr_iff split: sum.split prod.split)

lemma sync_save_healthy_step:
  assumes "sync_env_ok ((f, e) # sched) (sync_rows a)"
  shows "sync_env_ok sched (sync_rows (sync_save f e a)) \<and>
         title ` set (sync_rows (sync_save f e a)) = insert (title f) (title ` set (sync_rows a)) \<and>
         sync_error (sync_save f e a) = sync_error a"
proof -
  from assms have f: "in_int4 (episode_id f)"
    and e: "case e of DbOk u \<Rightarrow> u \<notin> movie_id ` set (sync_rows a) | DbDown \<Rightarrow> False"
    and ue: "e \<notin> snd ` set sched" and rest: "sync_env_ok sched (sync_rows a)"
    by (simp_all add: sync_env_ok_Cons)
  from e obtain u where eu: "e = DbOk u" and u: "u \<notin> movie_id ` set (sync_rows a)"
    by (cases e) auto
  from sync_save_fresh [OF f u] have
    t: "title ` set (sync_rows (sync_save f e a)) = insert (title f) (title ` set (sync_rows a))"
    and fl: "sync_error (sync_save f e a) = sync_error a"
    and ids: "movie_id ` set (sync_rows (sync_save f e a)) \<subseteq> insert u (movie_id ` set (sync_rows a))"
    by (simp_all add: eu)
  from ue eu have "DbOk u \<notin> snd ` set sched" by simp
  from sync_env_ok_shift [OF rest this ids] t fl show ?thesis by blast
qed

lemma sync_saves_healthy:
  "sync_env_ok sched (sync_rows a) \<Longrightarrow>
     title ` set (sync_rows (sync_saves sched a)) = title ` set (sync_rows a) \<union> title ` fst ` set sched
     \<and> sync_error (sync_saves sched a) = sync_error a"
proof (induction sched arbitrary: a)
  case Nil
  then show ?case by simp
next
  case (Cons p sched)
  obtain f e where p: "p = (f, e)" by fastforce
  with Cons.prems sync_save_healthy_step [of f e sched a] have
    h: "sync_env_ok sched (sync_rows (sync_save f e a))"
    "title ` set (sync_rows (sync_save f e a)) = insert (title f) (title ` set (sync_rows a))"
    "sync_error (sync_save f e a) = sync_error a" by simp_all
  from Cons.IH [OF h(1)] h(2,3) p show ?case by auto
qed

lemma syncronize_Some:
  "syncronize (Some results) sched rows =
     (let a = sync_saves sched \<lparr>sync_error = None, sync_movies = [], sync_rows = rows\<rparr>
      in (case sync_error a of
            None \<Rightarrow> Inr (sync_movies a)
          | Some e \<Rightarrow> Inl (InternalServerError (db_message e)), sync_rows a))"
  by (simp add: syncronize_def)

lemma valid_schedule_set:
  "valid_schedule results sched \<Longrightarrow> fst ` set sched = set results"
  by (metis valid_schedule_def set_map set_mset_mset)

lemma create_wf [keeps_wf]:
  "movies_wf rows \<Longrightarrow> create env d rows = (r, rows') \<Longrightarrow> movies_wf rows'"
  by (auto simp: create_def intro: movie_save_wf split: sum.splits prod.splits)

lemma update_wf [keeps_wf]:
  "movies_wf rows \<Longrightarrow> update env k d rows = (r, rows') \<Longrightarrow> movies_wf rows'"
  by (auto simp: update_def intro: movie_update_wf split: sum.splits)

lemma remove_wf [keeps_wf]:
  "movies_wf rows \<Longrightarrow> remove env k rows = (r, rows') \<Longrightarrow> movies_wf rows'"
  by (auto simp: remove_def intro: movie_delete_wf split: sum.splits prod.splits if_splits)

section \<open>Lemmas on overlapping synchronisations\<close>

lemma ovl_inv_sym: "ovl_inv base a b \<longleftrightarrow> ovl_inv base b a"
  unfolding ovl_inv_def by (metis add.commute)

lemma ovl_inv_save:
  assumes "ovl_inv base a b"
  shows "ovl_inv base (sync_save f e a) (b\<lparr>sync_rows := sync_rows (sync_save f e a)\<rparr>)"
proof -
  from assms obtain ms where r: "sync_rows a = sync_rows b" "sync_rows a = base @ ms"
    "mset ms = mset (sync_movies a) + mset (sync_movies b)" by (auto simp: ovl_inv_def)
  from sync_save_shape [of f e a] show ?thesis
  proof
    assume "\<exists>m. sync_save f e a = a\<lparr>sync_movies := sync_movies a @ [m], sync_rows := sync_rows a @ [m]\<rparr>"
    then obtain m where m: "sync_save f e a = a\<lparr>sync_movies := sync_movies a @ [m], sync_rows := sync_rows a @ [m]\<rparr>" ..
    with r show ?thesis unfolding ovl_inv_def by (intro conjI exI [of _ "ms @ [m]"]) simp_all
  next
    assume "sync_rows (sync_save f e a) = sync_rows a \<and> sync_movies (sync_save f e a) = sync_movies a"
    with r show ?thesis unfolding ovl_inv_def by (intro conjI exI [of _ ms]) simp_all
  qed
qed

lemma sync_overlap_inv:
  "ovl_inv base a b \<Longrightarrow> ovl_inv base (fst (sync_overlap sched a b)) (snd (sync_overlap sched a b))"
proof (induction sched a b rule: sync_overlap.induct)
  case (1 a b)
  then show ?case by simp
next
  case (2 f e sched a b)
  then show ?case by (simp add: Let_def ovl_inv_save)
next
  case (3 f e sched a b)
  from "3.prems" have "ovl_inv base b a" by (simp add: ovl_inv_sym)
  then have "ovl_inv base (a\<lparr>sync_rows := sync_rows (sync_save f e b)\<rparr>) (sync_save f e b)"
    by (subst ovl_inv_sym) (rule ovl_inv_save)
  with "3.IH" show ?case by (simp add: Let_def)
qed

lemma sync_overlap_healthy:
  "sync_env_ok (map snd sched) (sync_rows a) \<Longrightarrow> sync_rows a = sync_rows b \<Longrightarrow>
   title ` set (sync_rows (fst (sync_overlap sched a b))) = title ` set (sync_rows a) \<union> title ` fst ` snd ` set sched \<and>
   sync_error (fst (sync_overlap sched a b)) = sync_error a \<and> sync_error (snd (sync_overlap sched a b)) = sync_error b"
proof (induction sched a b rule: sync_overlap.induct)
  case (1 a b)
  then show ?case by simp
next
  case (2 f e sched a b)
  from sync_save_healthy_step [of f e "map snd sched" a] "2.prems"(1) have
    h: "sync_env_ok (map snd sched) (sync_rows (sync_save f e a))"
    "title ` set (sync_rows (sync_save f e a)) = insert (title f) (title ` set (sync_rows a))"
    "sync_error (sync_save f e a) = sync_error a" by simp_all
  from "2.IH" [OF _ h(1)] h(2,3) show ?case by (auto simp: Let_def)
next
  case (3 f e sched a b)
  from sync_save_healthy_step [of f e "map snd sched" b] "3.prems" have
    h: "sync_env_ok (map snd sched) (sync_rows (sync_save f e b))"
    "title ` set (sync_rows (sync_save f e b)) = insert (title f) (title ` set (sync_rows b))"
    "sync_error (sync_save f e b) = sync_error b" by simp_all
  from "3.IH" [OF _ _] h "3.prems"(2) show ?case by (auto simp: Let_def)
qed

lemma sync_overlap_wf:
  "movies_wf (sync_rows a) \<Longrightarrow> sync_rows a = sync_rows b \<Longrightarrow>
   movies_wf (sync_rows (fst (sync_overlap sched a b)))"
proof (induction sched a b rule: sync_overlap.induct)
  case (3 f e sched a b)
  then have "movies_wf (sync_rows (sync_save f e b))" by (simp add: sync_save_wf)
  with "3.IH" show ?case by (simp add: Let_def)
qed (simp_all add: Let_def sync_save_wf)

lemma valid_overlap_set:
  "valid_overlap ra rb sched \<Longrightarrow> fst ` snd ` set sched = set ra \<union> set rb"
proof -
  assume v: "valid_overlap ra rb sched"
  have "fst ` snd ` set sched = set (map (fst \<circ> snd) (filter (\<lambda>x. \<not> fst x) sched)) \<union>
                                 set (map (fst \<circ> snd) (filter fst sched))"
    by (auto simp: image_iff) (metis fst_conv snd_conv)
  also have "\<dots> = set ra \<union> set rb"
    using v unfolding valid_overlap_def by (metis set_mset_mset)
  finally show ?thesis .
qed

section \<open>Properties of the movies service\<close>

text \<open>Every write of the service keeps the movie table well formed.\<close>

lemma syncronize_wf [keeps_wf]:
  assumes "movies_wf rows" and "syncronize response sched rows = (r, rows')"
  shows "movies_wf rows'"
  using assms sync_saves_wf [of "\<lparr>sync_error = None, sync_movies = [], sync_rows = rows\<rparr>" sched]
  by (auto simp: syncronize_def Let_def split: option.splits)

text \<open>The synchronisation only appends rows, and on success it returns exactly the rows it appended.\<close>

lemma syncronize_appends:
  assumes "syncronize response sched rows = (r, rows')"
  shows "\<exists>ms. rows' = rows @ ms \<and> (\<forall>ms'. r = Inr ms' \<longrightarrow> ms' = ms)"
proof (cases response)
  case None
  with assms show ?thesis by (auto simp: syncronize_def)
next
  case (Some results)
  let ?a = "sync_saves sched \<lparr>sync_error = None, sync_movies = [], sync_rows = rows\<rparr>"
  have "sync_rows ?a = rows @ sync_movies ?a" by (rule sync_saves_rows) simp
  with assms Some show ?thesis
    by (rule_tac exI [of _ "sync_movies ?a"]) (auto simp: syncronize_Some Let_def split: option.splits)
qed

text \<open>C8: with a healthy database the synchronisation succeeds whatever the order of the saves, and afterwards the titles are the old ones and the fetched ones.\<close>

theorem syncronize_inserts_all:
  assumes "valid_schedule results sched" and "sync_env_ok sched rows"
  shows "\<exists>ms. syncronize (Some results) sched rows = (Inr ms, rows @ ms) \<and>
              title ` set (rows @ ms) = title ` set rows \<union> title ` set results"
proof -
  let ?init = "\<lparr>sync_error = None, sync_movies = [], sync_rows = rows\<rparr>"
  let ?a = "sync_saves sched ?init"
  have rows: "sync_rows ?a = rows @ sync_movies ?a" by (rule sync_saves_rows) simp
  from assms(2) have "sync_env_ok sched (sync_rows ?init)" by simp
  note hs = sync_saves_healthy [OF this]
  have h: "title ` set (sync_rows ?a) = title ` set rows \<union> title ` fst ` set sched"
    using hs by simp
  have f: "sync_error ?a = None" using hs by simp
  from h rows valid_schedule_set [OF assms(1)] f show ?thesis
    by (auto simp: syncronize_Some Let_def)
qed

text \<open>C9: a second synchronisation against an unchanged catalogue inserts nothing and returns the empty list.\<close>

theorem syncronize_idempotent:
  assumes "valid_schedule results s1" and "valid_schedule results s2"
    and "sync_env_ok s1 rows" and "DbDown \<notin> snd ` set s2"
    and "syncronize (Some results) s1 rows = (r1, rows1)"
  shows "syncronize (Some results) s2 rows1 = (Inr [], rows1)"
proof -
  let ?init = "\<lparr>sync_error = None, sync_movies = [], sync_rows = rows\<rparr>"
  have "title ` set (sync_rows (sync_saves s1 ?init)) = title ` set rows \<union> title ` fst ` set s1"
    using sync_saves_healthy [of s1 ?init] assms(3) by simp
  with assms(5) have titles: "title ` fst ` set s1 \<subseteq> title ` set rows1"
    by (auto simp: syncronize_Some Let_def)
  have same: "fst ` set s2 = fst ` set s1"
    using valid_schedule_set [OF assms(1)] valid_schedule_set [OF assms(2)] by simp
  have "\<forall>(f, e) \<in> set s2. e \<noteq> DbDown \<and> in_int4 (episode_id f) \<and> title f \<in> title ` set rows1"
  proof (intro ballI, clarify)
    fix f e assume fe: "(f, e) \<in> set s2"
    then have e: "e \<noteq> DbDown" using assms(4) by force
    from fe same have "f \<in> fst ` set s1" by force
    then obtain e' where "(f, e') \<in> set s1" by force
    with assms(3) have "in_int4 (episode_id f)" by (auto simp: sync_env_ok_def)
    moreover from \<open>f \<in> fst ` set s1\<close> titles have "title f \<in> title ` set rows1" by blast
    ultimately show "e \<noteq> DbDown \<and> in_int4 (episode_id f) \<and> title f \<in> title ` set rows1"
      using e by simp
  qed
  then have "sync_saves s2 \<lparr>sync_error = None, sync_movies = [], sync_rows = rows1\<rparr> =
             \<lparr>sync_error = None, sync_movies = [], sync_rows = rows1\<rparr>"
    by (intro sync_saves_dups) simp
  then show ?thesis by (simp add: syncronize_Some)
qed

text \<open>\<open>findAll\<close> returns every movie of the table, ordered by episode number.\<close>

lemma findAll_sorted_perm:
  "sorted (map episode_id (findAll rows)) \<and> mset (findAll rows) = mset rows"
  by (simp add: findAll_def movie_find_ordered_sorted movie_find_ordered_mset)


text \<open>A created movie is found by its key afterwards.\<close>

lemma create_findOne:
  assumes "create env d rows = (Inr m, rows')"
  shows "findOne (movie_id m) rows' = Inr m"
  using assms
  by (auto simp: create_def findOne_def find_by_def movie_save_Inr_iff find_snoc_fresh
      split: sum.splits prod.splits if_splits)



text \<open>An update DTO that sets no field makes \<open>update\<close> fail with an uncaught error.\<close>

lemma update_empty_dto:
  "update_is_empty d \<Longrightarrow>
     update env k d rows = (Inl (RawError (db_message UpdateValuesMissing)), rows)"
  by (simp add: update_def movie_update_def)


text \<open>C21: two synchronisations that overlap, with a healthy database, both succeed whatever the
  interleaving of their saves: the unique title makes the later save of a film a skipped duplicate,
  so the table gets no duplicate title, every fetched film is in it, and the rows added are
  exactly those the two runs return, each reported by one run.\<close>

theorem syncronize_overlap_partition:
  assumes "valid_overlap ra rb sched" and "sync_env_ok (map snd sched) rows" and "movies_wf rows"
  shows "\<exists>ma mb ms. syncronize_overlap ra rb sched rows = ((Inr ma, Inr mb), rows @ ms) \<and>
           mset ms = mset ma + mset mb \<and> movies_wf (rows @ ms) \<and>
           title ` set (rows @ ms) = title ` set rows \<union> title ` set (ra @ rb)"
proof -
  let ?init = "\<lparr>sync_error = None, sync_movies = [], sync_rows = rows\<rparr>"
  let ?r = "sync_overlap sched ?init ?init"
  have "ovl_inv rows ?init ?init" by (simp add: ovl_inv_def)
  from sync_overlap_inv [OF this, of sched] obtain ms where ms: "sync_rows (fst ?r) = rows @ ms"
    and part: "mset ms = mset (sync_movies (fst ?r)) + mset (sync_movies (snd ?r))"
    unfolding ovl_inv_def by blast
  from sync_overlap_healthy [of sched ?init ?init] assms(2) have
    t: "title ` set (sync_rows (fst ?r)) = title ` set rows \<union> title ` fst ` snd ` set sched"
    and ea: "sync_error (fst ?r) = None" and eb: "sync_error (snd ?r) = None" by simp_all
  from sync_overlap_wf [of ?init ?init sched] assms(3) have wf: "movies_wf (sync_rows (fst ?r))" by simp
  have res: "syncronize_overlap ra rb sched rows =
               ((Inr (sync_movies (fst ?r)), Inr (sync_movies (snd ?r))), rows @ ms)"
    using ea eb ms by (simp add: syncronize_overlap_def sync_result_def Let_def case_prod_beta)
  show ?thesis
    using res part wf ms t valid_overlap_set [OF assms(1)] by auto
qed

section \<open>Witnesses\<close>

lemma in_int4_small: "in_int4 4" "in_int4 5" "in_int4 0"
  by (simp_all add: in_int4_def)

lemma sync_film_a:
  "syncronize (Some [film_a]) [(film_a, DbOk ''u1'')] [] =
     (Inr [movie_of_dto ''u1'' (swapi_to_dto film_a)], [movie_of_dto ''u1'' (swapi_to_dto film_a)])"
  by (simp add: syncronize_def sync_save_def movie_save_eq in_int4_small)

lemma syncronize_appends_example:
  "\<exists>ms. [movie_of_dto ''u1'' (swapi_to_dto film_a)] = [] @ ms \<and>
        (\<forall>ms'. Inr [movie_of_dto ''u1'' (swapi_to_dto film_a)] = (Inr ms' :: movie list result) \<longrightarrow> ms' = ms)"
  by (rule syncronize_appends [OF sync_film_a])

theorem syncronize_inserts_all_witness:
  "valid_schedule [film_a, film_b] [(film_b, DbOk ''u2''), (film_a, DbOk ''u1'')] \<and>
   sync_env_ok [(film_b, DbOk ''u2''), (film_a, DbOk ''u1'')] [] \<and>
   (\<exists>ms. syncronize (Some [film_a, film_b]) [(film_b, DbOk ''u2''), (film_a, DbOk ''u1'')] [] = (Inr ms, [] @ ms) \<and>
         title ` set ([] @ ms) = title ` set ([] :: movie list) \<union> title ` set [film_a, film_b])"
proof -
  have v: "valid_schedule [film_a, film_b] [(film_b, DbOk ''u2''), (film_a, DbOk ''u1'')]"
    by (simp add: valid_schedule_def)
  have e: "sync_env_ok [(film_b, DbOk ''u2''), (film_a, DbOk ''u1'')] []"
    by (simp add: sync_env_ok_def in_int4_small)
  from v e syncronize_inserts_all [OF v e] show ?thesis by blast
qed

theorem syncronize_idempotent_witness:
  "valid_schedule [film_a] [(film_a, DbOk ''u1'')] \<and> sync_env_ok [(film_a, DbOk ''u1'')] [] \<and>
   DbDown \<notin> snd ` set [(film_a, DbOk ''u7'')] \<and>
   syncronize (Some [film_a]) [(film_a, DbOk ''u7'')] [movie_of_dto ''u1'' (swapi_to_dto film_a)] =
     (Inr [], [movie_of_dto ''u1'' (swapi_to_dto film_a)])"
proof -
  have v1: "valid_schedule [film_a] [(film_a, DbOk ''u1'')]" by (simp add: valid_schedule_def)
  have v2: "valid_schedule [film_a] [(film_a, DbOk ''u7'')]" by (simp add: valid_schedule_def)
  have e: "sync_env_ok [(film_a, DbOk ''u1'')] []" by (simp add: sync_env_ok_def in_int4_small)
  have d: "DbDown \<notin> snd ` set [(film_a, DbOk ''u7'')]" by simp
  from syncronize_idempotent [OF v1 v2 e d sync_film_a] v1 e d show ?thesis by simp
qed

lemma create_findOne_example:
  "create (DbOk ''u1'') (swapi_to_dto film_a) [] =
     (Inr (movie_of_dto ''u1'' (swapi_to_dto film_a)), [movie_of_dto ''u1'' (swapi_to_dto film_a)]) \<and>
   findOne ''u1'' [movie_of_dto ''u1'' (swapi_to_dto film_a)] = Inr (movie_of_dto ''u1'' (swapi_to_dto film_a))"
proof -
  have c: "create (DbOk ''u1'') (swapi_to_dto film_a) [] =
     (Inr (movie_of_dto ''u1'' (swapi_to_dto film_a)), [movie_of_dto ''u1'' (swapi_to_dto film_a)])"
    by (simp add: create_def movie_save_eq in_int4_small)
  from c create_findOne [OF c] show ?thesis by simp
qed


lemma update_empty_dto_example:
  "update (DbOk ''u0'') ''u1'' \<lparr>upd_title = None, upd_episode_id = None, upd_opening_crawl = None,
     upd_director = None, upd_producer = None, upd_release_date = None\<rparr> [] =
     (Inl (RawError (db_message UpdateValuesMissing)), [])"
  by (rule update_empty_dto) (simp add: update_is_empty_def)

text \<open>A synchronisation that fails keeps what it saved before the failure (no rollback).\<close>

lemma syncronize_failure_keeps_saved:
  "syncronize (Some [film_a, film_b]) [(film_a, DbOk ''u1''), (film_b, DbDown)] [] =
     (Inl (InternalServerError ''Connection terminated unexpectedly''), [movie_of_dto ''u1'' (swapi_to_dto film_a)])"
  by (simp add: syncronize_def sync_save_def movie_save_eq in_int4_small)

theorem syncronize_overlap_partition_witness:
  "valid_overlap [film_a, film_b] [film_a, film_b] sched_overlap \<and>
   sync_env_ok (map snd sched_overlap) [] \<and> movies_wf [] \<and>
   (\<exists>ma mb ms. syncronize_overlap [film_a, film_b] [film_a, film_b] sched_overlap [] = ((Inr ma, Inr mb), [] @ ms) \<and>
      mset ms = mset ma + mset mb \<and> movies_wf ([] @ ms) \<and>
      title ` set ([] @ ms) = title ` set ([] :: movie list) \<union> title ` set ([film_a, film_b] @ [film_a, film_b]))"
proof -
  have v: "valid_overlap [film_a, film_b] [film_a, film_b] sched_overlap"
    by (simp add: valid_overlap_def)
  have e: "sync_env_ok (map snd sched_overlap) []"
    by (simp add: sync_env_ok_def in_int4_small)
  have w: "movies_wf []" by (simp add: movies_wf_def table_wf_def)
  show ?thesis by (intro conjI v e w syncronize_overlap_partition [OF v e w])
qed

end
