(* ===== verification/Api.thy ===== *)
theory Api
  imports Logging AuthService MoviesService
begin

text \<open>
  One request through the application: the controller methods over the services,
  and the order in which NestJS runs the route's guards, the global interceptor,
  the pipes and the handler, and the global filter for any exception. The whole
  application is a state of two tables changed by requests and by the
  synchronisation job; \<open>reachable\<close> collects the states a started application can
  be in.
\<close>

section \<open>Handlers\<close>

datatype response_body =
    UserBody public_user
  | TokensBody tokens
  | AccessBody access_token_body
  | MoviesBody "movie list"
  | MovieBody movie
  | MaybeMovieBody "movie option"
  | TextBody string

text \<open>
  The types the controller methods declare for their results
  (\<open>Promise<User>\<close>, \<open>Promise<Movie[]>\<close>, ...), and the type of a body that
  was actually produced; \<open>null\<close> has none of them.
\<close>

datatype resp_type = TUser | TTokens | TAccessToken | TMovieList | TMovie | TString

fun declared_type :: "route \<Rightarrow> resp_type" where
  "declared_type (PostRegister _) = TUser"
| "declared_type (PostLogin _) = TTokens"
| "declared_type PostRefresh = TAccessToken"
| "declared_type GetMovies = TMovieList"
| "declared_type (GetMovie _) = TMovie"
| "declared_type (PostMovie _) = TMovie"
| "declared_type PostSyncronize = TMovieList"
| "declared_type (PatchMovie _ _) = TMovie"
| "declared_type (DeleteMovie _) = TString"

fun body_type :: "response_body \<Rightarrow> resp_type option" where
  "body_type (UserBody _) = Some TUser"
| "body_type (TokensBody _) = Some TTokens"
| "body_type (AccessBody _) = Some TAccessToken"
| "body_type (MoviesBody _) = Some TMovieList"
| "body_type (MovieBody _) = Some TMovie"
| "body_type (MaybeMovieBody m) = (case m of Some _ \<Rightarrow> Some TMovie | None \<Rightarrow> None)"
| "body_type (TextBody _) = Some TString"

record app_state =
  users :: "user list"
  movies :: "movie list"

text \<open>
  What the outside world contributes to one request: the clock, the database's
  behaviour on the request's write, the salt bcrypt draws, the catalogue's answer
  and the order in which the database runs the concurrent saves.
\<close>

record world =
  clock :: time
  db :: db_env
  bcrypt_salt :: string
  catalogue :: "swapi_film list option"
  schedule :: "(swapi_film \<times> db_env) list"

text \<open>
  The controller methods, each preceded by the pipes of its parameters. The
  refresh handler passes \<open>req.user\<close> on; without a guard it would be undefined and
  \<open>refreshToken\<close> would fail reading its \<open>id\<close>.
\<close>

definition controller ::
  "envs \<Rightarrow> world \<Rightarrow> route \<Rightarrow> jwt_payload option \<Rightarrow> app_state \<Rightarrow> response_body result \<times> app_state" where
  "controller cfg w r user s =
     (case r of
        PostRegister b \<Rightarrow>
          (case validate_register_dto b of
             Inl e \<Rightarrow> (Inl e, s)
           | Inr dto \<Rightarrow>
               (case register (db w) (bcrypt_salt w) dto (users s) of
                  (res, us) \<Rightarrow> (map_sum id UserBody res, s\<lparr>users := us\<rparr>)))
      | PostLogin d \<Rightarrow>
          (case validate_login_dto d of
             Inl e \<Rightarrow> (Inl e, s)
           | Inr d' \<Rightarrow> (map_sum id TokensBody (login cfg (clock w) d' (users s)), s))
      | PostRefresh \<Rightarrow>
          (case user of
             None \<Rightarrow> (Inl (RawError ''Cannot read properties of undefined (reading 'id')''), s)
           | Some p \<Rightarrow> (map_sum id AccessBody (refreshToken cfg (clock w) p), s))
      | GetMovies \<Rightarrow> (Inr (MoviesBody (findAll (movies s))), s)
      | GetMovie k \<Rightarrow>
          (case ParseUUIDPipe k of
             Inl e \<Rightarrow> (Inl e, s)
           | Inr k' \<Rightarrow> (map_sum id MovieBody (findOne k' (movies s)), s))
      | PostMovie d \<Rightarrow>
          (case create (db w) d (movies s) of
             (res, ms) \<Rightarrow> (map_sum id MovieBody res, s\<lparr>movies := ms\<rparr>))
      | PostSyncronize \<Rightarrow>
          (case syncronize (catalogue w) (schedule w) (movies s) of
             (res, ms) \<Rightarrow> (map_sum id MoviesBody res, s\<lparr>movies := ms\<rparr>))
      | PatchMovie k d \<Rightarrow>
          (case ParseUUIDPipe k of
             Inl e \<Rightarrow> (Inl e, s)
           | Inr k' \<Rightarrow>
               (case update (db w) k' d (movies s) of
                  (res, ms) \<Rightarrow> (map_sum id MaybeMovieBody res, s\<lparr>movies := ms\<rparr>)))
      | DeleteMovie k \<Rightarrow>
          (case ParseUUIDPipe k of
             Inl e \<Rightarrow> (Inl e, s)
           | Inr k' \<Rightarrow>
               (case remove (db w) k' (movies s) of
                  (res, ms) \<Rightarrow> (map_sum id TextBody res, s\<lparr>movies := ms\<rparr>))))"

section \<open>One request\<close>

record response =
  status :: nat
  body :: "response_body + error_json"

text \<open>NestJS answers a handler's value with 201 for \<open>@Post()\<close> and 200 otherwise.\<close>

definition success_status :: "route \<Rightarrow> nat" where
  "success_status r = (if http_method r = ''POST'' then 201 else 200)"

text \<open>
  The filter at clock \<open>now\<close>: \<open>logger.error(response)\<close>, then
  \<open>res.status(status).json(response)\<close> with the response object as the logger left it.
\<close>

definition error_reply :: "time \<Rightarrow> exc \<Rightarrow> request \<Rightarrow> response \<times> log_entry" where
  "error_reply now e req =
     (let er = ExceptionsFilter e req in (\<lparr>status = err_status er, body = Inr (logged_response now er)\<rparr>, Error er))"

text \<open>
  Guards first: a rejected request never reaches the interceptor. The interceptor
  runs before the handler, when Express's status code is still its default 200.
\<close>

definition handle ::
  "envs \<Rightarrow> world \<Rightarrow> request \<Rightarrow> app_state \<Rightarrow> response \<times> app_state \<times> log_entry list" where
  "handle cfg w req s =
     (case run_guard cfg (clock w) (route_guard (route req)) (authorization req) of
        Inl e \<Rightarrow> (case error_reply (clock w) e req of (resp, le) \<Rightarrow> (resp, s, [le]))
      | Inr user \<Rightarrow>
          (let li = LoggerInterceptor req 200
           in case controller cfg w (route req) user s of
                (Inl e, s') \<Rightarrow> (case error_reply (clock w) e req of (resp, le) \<Rightarrow> (resp, s', [Info li, le]))
              | (Inr b, s') \<Rightarrow> (\<lparr>status = success_status (route req), body = Inl b\<rparr>, s', [Info li])))"

section \<open>The application\<close>

text \<open>
  One step of the running application: a request, or a run of the synchronisation
  job every 30 minutes, whose errors the scheduler only logs.
\<close>

inductive app_step :: "envs \<Rightarrow> app_state \<Rightarrow> app_state \<Rightarrow> bool" for cfg where
  request: "handle cfg w req s = (resp, s', logs) \<Longrightarrow> app_step cfg s s'"
| cron: "syncronize (catalogue (w :: world)) (schedule w) (movies s) = (r, ms) \<Longrightarrow> app_step cfg s (s\<lparr>movies := ms\<rparr>)"

definition app_wf :: "app_state \<Rightarrow> bool" where
  "app_wf s \<longleftrightarrow> users_wf (users s) \<and> movies_wf (movies s)"

text \<open>
  The application starts on the tables it finds (the schema's constraints hold in
  them) and is up only once \<open>onApplicationBootstrap\<close> has synchronised.
\<close>

inductive reachable :: "envs \<Rightarrow> app_state \<Rightarrow> bool" for cfg where
  boot: "app_wf s \<Longrightarrow> onApplicationBootstrap response sched (movies s) = (Inr (), ms) \<Longrightarrow>
           reachable cfg (s\<lparr>movies := ms\<rparr>)"
| step: "reachable cfg s \<Longrightarrow> app_step cfg s s' \<Longrightarrow> reachable cfg s'"

section \<open>Sample data\<close>

text \<open>Keys in UUID form, a movie, a world in which the database is up, and two tokens.\<close>

abbreviation uuid_m :: uuid where "uuid_m \<equiv> ''123e4567-e89b-12d3-a456-426614174000''"

abbreviation uuid_u :: uuid where "uuid_u \<equiv> ''223e4567-e89b-12d3-a456-426614174000''"

abbreviation uuid_x :: uuid where "uuid_x \<equiv> ''323e4567-e89b-12d3-a456-426614174000''"

abbreviation movie_m :: movie where "movie_m \<equiv> movie_of_dto uuid_m (swapi_to_dto film_a)"

abbreviation world0 :: world where
  "world0 \<equiv> \<lparr>clock = 100, db = DbOk uuid_u, bcrypt_salt = ''salt'', catalogue = Some [film_a],
              schedule = [(film_a, DbOk uuid_m)]\<rparr>"

abbreviation state0 :: app_state where "state0 \<equiv> \<lparr>users = [], movies = [movie_m]\<rparr>"

abbreviation admin_token :: jwt where
  "admin_token \<equiv> JWT \<lparr>pl_id = uuid_u, pl_role = ADMIN\<rparr> ''access-secret'' 50 (Some 3650)"

abbreviation standard_token :: jwt where
  "standard_token \<equiv> JWT \<lparr>pl_id = uuid_u, pl_role = STANDARD\<rparr> ''access-secret'' 50 (Some 3650)"

abbreviation register_bob :: request where
  "register_bob \<equiv> \<lparr>route = PostRegister \<lparr>body_username = ''bob'', body_password = ''hunter2'',
                    body_role = ''standard''\<rparr>, authorization = None\<rparr>"

section \<open>Lemmas on one request\<close>

lemma controller_wf [keeps_wf]:
  assumes "app_wf s" and "controller cfg w r u s = (res, s')"
  shows "app_wf s'"
  using assms
  by (cases r) (auto simp: controller_def app_wf_def intro: keeps_wf split: sum.splits prod.splits option.splits)

lemma handle_cases:
  assumes "handle cfg w req s = (resp, s', logs)"
  obtains (rejected) e where "run_guard cfg (clock w) (route_guard (route req)) (authorization req) = Inl e"
      and "s' = s"
  | (handled) u res where "run_guard cfg (clock w) (route_guard (route req)) (authorization req) = Inr u"
      and "controller cfg w (route req) u s = (res, s')"
  using assms
  by (auto simp: handle_def Let_def error_reply_def split: sum.splits prod.splits)

lemma handle_error_entries:
  "handle cfg w req s = (resp, s', logs) \<Longrightarrow>
   (case body resp of
      Inl b \<Rightarrow> filter (\<lambda>e. entry_level e = L_error) logs = []
    | Inr ej \<Rightarrow> \<exists>er. filter (\<lambda>e. entry_level e = L_error) logs = [Error er] \<and> ej = logged_response (clock w) er)"
  by (auto simp: handle_def Let_def error_reply_def split: sum.splits prod.splits)

lemma map_sum_id_Inr: "map_sum id g x = Inr b \<longleftrightarrow> (\<exists>y. x = Inr y \<and> b = g y)"
  by (cases x) auto

lemma controller_typed:
  "controller cfg w r u s = (Inr b, s') \<Longrightarrow>
   body_type b = Some (declared_type r) \<or> (\<exists>k d. r = PatchMovie k d \<and> b = MaybeMovieBody None)"
  by (cases r)
     (auto simp: controller_def map_sum_id_Inr split: sum.splits prod.splits option.splits if_splits)

lemma handle_wf [keeps_wf]:
  "app_wf s \<Longrightarrow> handle cfg w req s = (resp, s', logs) \<Longrightarrow> app_wf s'"
  by (erule handle_cases) (auto intro: controller_wf)

lemma controller_movies_kept:
  "\<not> writes_movies r \<Longrightarrow> controller cfg w r u s = (res, s') \<Longrightarrow> movies s' = movies s"
  by (cases r) (auto simp: controller_def split: sum.splits prod.splits option.splits)

lemma controller_users:
  "controller cfg w r u s = (res, s') \<Longrightarrow>
     users s' = users s \<or> ((\<exists>b. r = PostRegister b) \<and> (\<exists>x. users s' = users s @ [x]))"
  by (cases r)
     (auto simp: controller_def register_eq split: sum.splits prod.splits db_env.splits if_splits option.splits)

lemma handle_info_log:
  "handle cfg w req s = (resp, s', logs) \<Longrightarrow> Info li \<in> set logs \<Longrightarrow> li = LoggerInterceptor req 200"
  by (auto simp: handle_def Let_def error_reply_def split: sum.splits prod.splits)

lemma handle_reply:
  assumes "handle cfg w req s = (resp, s', logs)"
  shows "(\<exists>b. body resp = Inl b \<and> status resp = success_status (route req)) \<or>
         (\<exists>e. body resp = Inr (logged_response (clock w) (ExceptionsFilter e req)) \<and> status resp = exc_status e \<and>
              last logs = Error (ExceptionsFilter e req))"
  using assms
  by (auto simp: handle_def Let_def error_reply_def ExceptionsFilter_def split: sum.splits prod.splits)

section \<open>Properties of the application\<close>

text \<open>Every state of a started application keeps both tables well formed: unique keys, unique
  usernames, unique titles, and episode numbers within the integer column.\<close>

lemma reachable_app_wf:
  "reachable cfg s \<Longrightarrow> app_wf s"
proof (induction rule: reachable.induct)
  case (boot s response sched ms)
  then have "movies_wf ms"
    by (auto simp: app_wf_def onApplicationBootstrap_def intro: syncronize_wf split: prod.splits)
  with boot.hyps(1) show ?case by (simp add: app_wf_def)
next
  case (step s s')
  from step.hyps(2) step.IH show ?case
  proof (cases rule: app_step.cases)
    case (request w req resp logs)
    with step.IH show ?thesis by (blast intro: handle_wf)
  next
    case (cron w r ms)
    with step.IH show ?thesis by (auto simp: app_wf_def intro: syncronize_wf)
  qed
qed

text \<open>C6: a request changes the movie table only if it carries a bearer token signed with the access
  secret, not expired at the request's time, whose role is admin.\<close>

theorem handle_movies_admin_only:
  assumes "handle cfg w req s = (resp, s', logs)" and "movies s' \<noteq> movies s"
  shows "\<exists>t. fromAuthHeaderAsBearerToken (authorization req) = Some (Token t) \<and>
             jwt_key t = ACCESSTOKEN_SECRET cfg \<and> live_until (jwt_exp t) (clock w) \<and> pl_role (jwt_claims t) = ADMIN"
  using assms(1)
proof (cases rule: handle_cases)
  case rejected
  with assms(2) show ?thesis by simp
next
  case (handled u res)
  with assms(2) have "writes_movies (route req)" by (metis controller_movies_kept)
  then have "route_guard (route req) = UseAuthApi [ADMIN]" by (rule writes_movies_guard)
  with handled(1) obtain p where "AuthApi [ADMIN] cfg (clock w) (authorization req) = Inr p"
    by (cases "AuthApi [ADMIN] cfg (clock w) (authorization req)") auto
  then show ?thesis by (auto simp: AuthApi_Inr_iff role_allowed_def)
qed

text \<open>C15: the user table is append-only: a request changes it only by \<open>POST /auth/register\<close>,
  which adds exactly one row.\<close>

theorem handle_users_append_only:
  assumes "handle cfg w req s = (resp, s', logs)" and "users s' \<noteq> users s"
  shows "(\<exists>b. route req = PostRegister b) \<and> (\<exists>x. users s' = users s @ [x])"
  using assms(1)
proof (cases rule: handle_cases)
  case rejected
  with assms(2) show ?thesis by simp
next
  case (handled u res)
  with assms(2) show ?thesis using controller_users by blast
qed

text \<open>C16: a request to a guarded route without an \<open>Authorization\<close> header is answered 401 by the
  filter, changes nothing, and is logged only as an error: the interceptor never sees it.\<close>

theorem handle_guard_rejects:
  assumes "route_guard (route req) \<noteq> NoGuard" and "authorization req = None"
  shows "handle cfg w req s =
           (\<lparr>status = 401, body = Inr (logged_response (clock w) (ExceptionsFilter (Unauthorized ''Unauthorized'') req))\<rparr>, s,
            [Error (ExceptionsFilter (Unauthorized ''Unauthorized'') req)])"
  using run_guard_no_header [OF assms(1), of cfg "clock w"] assms(2)
  by (simp add: handle_def error_reply_def ExceptionsFilter_def Let_def)

text \<open>C17: the interceptor's log entry never contains the \<open>password\<close> field of the body, and keeps
  every other field as the client sent it.\<close>

theorem handle_log_hides_password:
  assumes "handle cfg w req s = (resp, s', logs)" and "Info li \<in> set logs"
  shows "map_of (log_body li) ''password'' = None \<and>
         (\<forall>k. k \<noteq> ''password'' \<longrightarrow> map_of (log_body li) k = map_of (request_body (route req)) k)"
  using handle_info_log [OF assms] by (simp add: LoggerInterceptor_def delete_conv')

text \<open>The interceptor records \<open>action\<close> 200 for every request it logs, whatever the response's
  status turns out to be, since it reads the status code before the handler runs.\<close>

lemma handle_log_action_200:
  assumes "handle cfg w req s = (resp, s', logs)" and "Info li \<in> set logs"
  shows "log_action li = 200"
  using handle_info_log [OF assms] by (simp add: LoggerInterceptor_def)

text \<open>A handled request is answered 201 when its route is a POST and 200 otherwise.\<close>

lemma handle_success_status:
  assumes "handle cfg w req s = (resp, s', logs)" and "body resp = Inl b"
  shows "status resp = (if http_method (route req) = ''POST'' then 201 else 200)"
  using handle_reply [OF assms(1)] assms(2) by (auto simp: success_status_def)

text \<open>C25: every error response carries the filter's body \<open>{status, message, path, method}\<close> for the
  request, its status is the exception's, the same body is the last log entry, and what the client
  receives is that entry as winston's format left it: the level \<open>error\<close> and the request's
  timestamp added, and an error object's text as the message.\<close>

theorem handle_error_reply:
  assumes "handle cfg w req s = (resp, s', logs)" and "body resp = Inr ej"
  shows "\<exists>er. ej = logged_response (clock w) er \<and> last logs = Error er \<and>
           status resp = err_status er \<and> err_path er = route_url (route req) \<and>
           err_method er = http_method (route req) \<and> err_status er \<in> {400, 401, 403, 404, 409, 500} \<and>
           (msg_truthy (err_message er) \<longrightarrow>
              json_fields ej = errors_response er \<and> json_level ej = Some ''error'' \<and>
              json_timestamp ej = Some (log_timestamp (clock w)))"
proof -
  from handle_reply [OF assms(1)] assms(2) obtain e where
    ej: "ej = logged_response (clock w) (ExceptionsFilter e req)" and "status resp = exc_status e"
    and "last logs = Error (ExceptionsFilter e req)"
    by auto
  moreover have "exc_status e \<in> {400, 401, 403, 404, 409, 500}" by (cases e) auto
  ultimately show ?thesis
    by (intro exI [of _ "ExceptionsFilter e req"]) (simp add: ExceptionsFilter_def logged_response_def)
qed

text \<open>C18: \<open>logs/errors.log\<close> receives an entry for a request exactly when the request is answered
  with an error, and the entry is the error body the client receives; the console and
  \<open>logs/info.log\<close> receive every entry of the request.\<close>

theorem handle_errors_log:
  assumes "handle cfg w req s = (resp, s', logs)"
  shows "(case body resp of
            Inl b \<Rightarrow> transport_output logs errors_log = []
          | Inr ej \<Rightarrow> \<exists>er. transport_output logs errors_log = [Error er] \<and> ej = logged_response (clock w) er) \<and>
         transport_output logs console_transport = logs \<and>
         transport_output logs info_log = logs"
proof (cases "body resp")
  case Inl
  with handle_error_entries [OF assms] show ?thesis by (simp add: transport_output_files)
next
  case Inr
  with handle_error_entries [OF assms] show ?thesis by (simp add: transport_output_files)
qed

text \<open>C26: every body a request is answered with has the type its controller method declares,
  except one: \<open>PATCH /movies/:id\<close>, declared \<open>Promise<Movie>\<close>, can answer \<open>null\<close>.\<close>

theorem handle_typed:
  assumes "handle cfg w req s = (resp, s', logs)" and "body resp = Inl b"
  shows "body_type b = Some (declared_type (route req)) \<or>
         (\<exists>k d. route req = PatchMovie k d \<and> b = MaybeMovieBody None)"
  using assms(1)
proof (cases rule: handle_cases)
  case rejected
  with assms show ?thesis
    by (auto simp: handle_def Let_def error_reply_def split: sum.splits prod.splits)
next
  case (handled u res)
  with assms have "res = Inr b"
    by (auto simp: handle_def Let_def error_reply_def split: sum.splits prod.splits)
  with handled(2) have "controller cfg w (route req) u s = (Inr b, s')" by simp
  then show ?thesis by (rule controller_typed)
qed

section \<open>Witnesses\<close>

lemmas handle_eval = handle_def Let_def error_reply_def ExceptionsFilter_def controller_def
  ParseUUIDPipe_def is_uuid_def hex_digit_def AuthApi_def AuthenticationGuard_def RolesGuard_def
  role_allowed_def auth_strategy_def jwt_strategy_JWT LoggerInterceptor_def success_status_def

lemma handle_delete_m:
  "handle cfg_demo world0 \<lparr>route = DeleteMovie uuid_m, authorization = bearer admin_token\<rparr> state0 =
     (\<lparr>status = 200, body = Inl (TextBody ''Done'')\<rparr>, \<lparr>users = [], movies = []\<rparr>,
      [Info (LoggerInterceptor \<lparr>route = DeleteMovie uuid_m, authorization = bearer admin_token\<rparr> 200)])"
  by (simp add: handle_eval remove_def movie_delete_def delete_by_def)

lemma handle_register_bob:
  "handle cfg_demo world0 register_bob state0 =
     (\<lparr>status = 201, body = Inl (UserBody \<lparr>pub_id = uuid_u, pub_username = ''bob'', pub_role = STANDARD\<rparr>)\<rparr>,
      \<lparr>users = [\<lparr>user_id = uuid_u, username = ''bob'', password = hashSync ''hunter2'' 10 ''salt'',
                  role = STANDARD\<rparr>], movies = [movie_m]\<rparr>,
      [Info (LoggerInterceptor register_bob 200)])"
  by (simp add: handle_eval validate_register_dto_def not_empty_msgs_def parse_roles_def register_eq)

lemma handle_get_absent:
  "handle cfg_demo world0 \<lparr>route = GetMovie uuid_x, authorization = bearer standard_token\<rparr> state0 =
     (\<lparr>status = 404, body = Inr (logged_response 100 \<lparr>err_status = 404, err_message = MsgText ''Movie not found'',
        err_path = ''/movies/'' @ uuid_x, err_method = ''GET''\<rparr>)\<rparr>, state0,
      [Info (LoggerInterceptor \<lparr>route = GetMovie uuid_x, authorization = bearer standard_token\<rparr> 200),
       Error \<lparr>err_status = 404, err_message = MsgText ''Movie not found'', err_path = ''/movies/'' @ uuid_x,
              err_method = ''GET''\<rparr>])"
  by (simp add: handle_eval findOne_def find_by_def)

lemma reachable_app_wf_example:
  "reachable cfg_demo state0 \<and> app_wf state0"
proof -
  have "reachable cfg_demo (\<lparr>users = [], movies = []\<rparr>\<lparr>movies := [movie_m]\<rparr>)"
    by (rule reachable.boot [where response = "Some [film_a]" and sched = "[(film_a, DbOk uuid_m)]"])
       (simp_all add: app_wf_def users_wf_def movies_wf_def table_wf_def onApplicationBootstrap_def
         syncronize_def sync_save_def movie_save_eq in_int4_small)
  then have r: "reachable cfg_demo state0" by simp
  from r reachable_app_wf [OF r] show ?thesis by simp
qed

theorem handle_movies_admin_only_witness:
  "movies \<lparr>users = [], movies = []\<rparr> \<noteq> movies state0 \<and>
   (\<exists>t. fromAuthHeaderAsBearerToken (bearer admin_token) = Some (Token t) \<and>
        jwt_key t = ''access-secret'' \<and> live_until (jwt_exp t) 100 \<and> pl_role (jwt_claims t) = ADMIN)"
proof -
  have c: "movies \<lparr>users = [], movies = []\<rparr> \<noteq> movies state0" by simp
  from c handle_movies_admin_only [OF handle_delete_m c] show ?thesis by simp
qed

theorem handle_users_append_only_witness:
  "users state0 \<noteq> [\<lparr>user_id = uuid_u, username = ''bob'', password = hashSync ''hunter2'' 10 ''salt'',
                    role = STANDARD\<rparr>] \<and>
   (\<exists>b. route register_bob = PostRegister b) \<and>
   (\<exists>x. [\<lparr>user_id = uuid_u, username = ''bob'', password = hashSync ''hunter2'' 10 ''salt'',
          role = STANDARD\<rparr>] = users state0 @ [x])"
proof -
  have c: "users \<lparr>users = [\<lparr>user_id = uuid_u, username = ''bob'', password = hashSync ''hunter2'' 10 ''salt'',
                    role = STANDARD\<rparr>], movies = [movie_m]\<rparr> \<noteq> users state0" by simp
  from handle_users_append_only [OF handle_register_bob c] show ?thesis by simp
qed

theorem handle_guard_rejects_witness:
  "route_guard (DeleteMovie uuid_m) \<noteq> NoGuard \<and>
   handle cfg_demo world0 \<lparr>route = DeleteMovie uuid_m, authorization = None\<rparr> state0 =
     (\<lparr>status = 401, body = Inr (logged_response 100 \<lparr>err_status = 401, err_message = MsgText ''Unauthorized'',
        err_path = ''/movies/'' @ uuid_m, err_method = ''DELETE''\<rparr>)\<rparr>, state0,
      [Error \<lparr>err_status = 401, err_message = MsgText ''Unauthorized'', err_path = ''/movies/'' @ uuid_m,
              err_method = ''DELETE''\<rparr>])"
proof -
  have g: "route_guard (route \<lparr>route = DeleteMovie uuid_m, authorization = None\<rparr>) \<noteq> NoGuard" by simp
  have a: "authorization \<lparr>route = DeleteMovie uuid_m, authorization = None\<rparr> = None" by simp
  from handle_guard_rejects [OF g a, of cfg_demo world0 state0] show ?thesis
    by (simp add: ExceptionsFilter_def)
qed

theorem handle_log_hides_password_witness:
  "Info (LoggerInterceptor register_bob 200) \<in> set [Info (LoggerInterceptor register_bob 200)] \<and>
   map_of (log_body (LoggerInterceptor register_bob 200)) ''password'' = None \<and>
   map_of (log_body (LoggerInterceptor register_bob 200)) ''username'' = Some (JStr ''bob'')"
proof -
  have i: "Info (LoggerInterceptor register_bob 200) \<in> set [Info (LoggerInterceptor register_bob 200)]"
    by simp
  from handle_log_hides_password [OF handle_register_bob i] show ?thesis by simp
qed

lemma handle_log_action_200_example:
  "status (fst (handle cfg_demo world0 \<lparr>route = GetMovie uuid_x, authorization = bearer standard_token\<rparr> state0)) = 404 \<and>
   log_action (LoggerInterceptor \<lparr>route = GetMovie uuid_x, authorization = bearer standard_token\<rparr> 200) = 200"
proof -
  have i: "Info (LoggerInterceptor \<lparr>route = GetMovie uuid_x, authorization = bearer standard_token\<rparr> 200) \<in>
    set [Info (LoggerInterceptor \<lparr>route = GetMovie uuid_x, authorization = bearer standard_token\<rparr> 200),
         Error \<lparr>err_status = 404, err_message = MsgText ''Movie not found'', err_path = ''/movies/'' @ uuid_x,
                err_method = ''GET''\<rparr>]" by simp
  from handle_log_action_200 [OF handle_get_absent i] handle_get_absent show ?thesis by simp
qed

lemma handle_success_status_example:
  "body (fst (handle cfg_demo world0 register_bob state0)) =
     Inl (UserBody \<lparr>pub_id = uuid_u, pub_username = ''bob'', pub_role = STANDARD\<rparr>) \<and>
   status (fst (handle cfg_demo world0 register_bob state0)) = 201"
  using handle_success_status [OF handle_register_bob,
      where b = "UserBody \<lparr>pub_id = uuid_u, pub_username = ''bob'', pub_role = STANDARD\<rparr>"]
    handle_register_bob
  by simp

theorem handle_error_reply_witness:
  "status (fst (handle cfg_demo world0 \<lparr>route = GetMovie uuid_x, authorization = bearer standard_token\<rparr> state0)) = 404 \<and>
   json_level (logged_response 100 \<lparr>err_status = 404, err_message = MsgText ''Movie not found'',
     err_path = ''/movies/'' @ uuid_x, err_method = ''GET''\<rparr>) = Some ''error'' \<and>
   json_timestamp (logged_response 100 \<lparr>err_status = 404, err_message = MsgText ''Movie not found'',
     err_path = ''/movies/'' @ uuid_x, err_method = ''GET''\<rparr>) = Some (log_timestamp 100)"
  using handle_error_reply [OF handle_get_absent,
      of "logged_response 100 \<lparr>err_status = 404, err_message = MsgText ''Movie not found'',
            err_path = ''/movies/'' @ uuid_x, err_method = ''GET''\<rparr>"] handle_get_absent
  by simp



theorem handle_errors_log_witness:
  "(\<exists>er. transport_output
     [Info (LoggerInterceptor \<lparr>route = GetMovie uuid_x, authorization = bearer standard_token\<rparr> 200),
      Error \<lparr>err_status = 404, err_message = MsgText ''Movie not found'', err_path = ''/movies/'' @ uuid_x,
             err_method = ''GET''\<rparr>] errors_log = [Error er] \<and>
     logged_response 100 \<lparr>err_status = 404, err_message = MsgText ''Movie not found'', err_path = ''/movies/'' @ uuid_x,
             err_method = ''GET''\<rparr> = logged_response 100 er)"
  using handle_errors_log [OF handle_get_absent] by simp

theorem handle_typed_witness:
  "body (fst (handle cfg_demo world0 register_bob state0)) =
     Inl (UserBody \<lparr>pub_id = uuid_u, pub_username = ''bob'', pub_role = STANDARD\<rparr>) \<and>
   body_type (UserBody \<lparr>pub_id = uuid_u, pub_username = ''bob'', pub_role = STANDARD\<rparr>) = Some TUser"
  using handle_typed [OF handle_register_bob,
      where b = "UserBody \<lparr>pub_id = uuid_u, pub_username = ''bob'', pub_role = STANDARD\<rparr>"]
    handle_register_bob
  by simp

end
