(* ===== verification/Wiring.thy ===== *)
theory Wiring
  imports Prelude
begin

text \<open>
  The module graph of the application: \<open>AppModule\<close> of \<open>app.module.ts\<close>, the
  \<open>AuthModule\<close> of \<open>modules/auth/auth.module.ts\<close>, the \<open>MoviesModule\<close> they
  import, and the dynamic modules of the libraries (\<open>ConfigModule.forRoot\<close>,
  \<open>TypeOrmModule.forRootAsync\<close> and \<open>forFeature\<close>, \<open>ScheduleModule.forRoot\<close>,
  \<open>WinstonModule.forRoot\<close>). Each class names the providers its constructor
  injects; the Nest injector resolves an injection in the module that provides the
  class, from its own providers or from the exports of the modules it imports and of
  the global modules. The theory computes that every injection of the graph resolves
  and which global filter and interceptor the application installs.
\<close>

section \<open>Injection tokens and providers\<close>

text \<open>
  The tokens the application injects or provides: its own classes, the services of
  the libraries, the repository of an entity (\<open>getRepositoryToken(Entity)\<close>), and
  the string tokens \<open>WINSTON_MODULE_PROVIDER\<close>, \<open>APP_FILTER\<close> and
  \<open>APP_INTERCEPTOR\<close>.
\<close>

datatype inj_token =
    ConfigService | JwtService | Repository string | DataSource | TYPEORM_MODULE_OPTIONS
  | SchedulerRegistry | WINSTON_MODULE_PROVIDER | APP_FILTER | APP_INTERCEPTOR
  | AuthService | MoviesService | AuthStrategy | RefreshStrategy
  | ExceptionsFilter_class | LoggerInterceptor_class | AuthController | MoviesController

text \<open>A provider: a class under its own token, \<open>{provide, useClass}\<close>, or \<open>{provide, useFactory, inject}\<close>.\<close>

datatype provider = Provide inj_token | UseClass inj_token inj_token | UseFactory inj_token "inj_token list"

fun provider_token :: "provider \<Rightarrow> inj_token" where
  "provider_token (Provide c) = c"
| "provider_token (UseClass t _) = t"
| "provider_token (UseFactory t _) = t"

section \<open>Constructor injections\<close>

definition AuthService_deps :: "inj_token list" where
  "AuthService_deps = [JwtService, ConfigService, Repository ''User'']"

definition MoviesService_deps :: "inj_token list" where
  "MoviesService_deps = [Repository ''Movie'']"

definition AuthStrategy_deps :: "inj_token list" where
  "AuthStrategy_deps = [ConfigService]"

definition RefreshStrategy_deps :: "inj_token list" where
  "RefreshStrategy_deps = [ConfigService]"

definition ExceptionsFilter_deps :: "inj_token list" where
  "ExceptionsFilter_deps = [WINSTON_MODULE_PROVIDER]"

definition LoggerInterceptor_deps :: "inj_token list" where
  "LoggerInterceptor_deps = [WINSTON_MODULE_PROVIDER]"

definition AuthController_deps :: "inj_token list" where
  "AuthController_deps = [AuthService]"

definition MoviesController_deps :: "inj_token list" where
  "MoviesController_deps = [MoviesService]"

text \<open>
  The required injections of each class. \<open>JwtService\<close> injects its module options
  with \<open>@Optional()\<close>, so it needs nothing; a repository of \<open>forFeature\<close> is made by
  a factory that injects the data source.
\<close>

fun ctor_deps :: "inj_token \<Rightarrow> inj_token list" where
  "ctor_deps AuthService = AuthService_deps"
| "ctor_deps MoviesService = MoviesService_deps"
| "ctor_deps AuthStrategy = AuthStrategy_deps"
| "ctor_deps RefreshStrategy = RefreshStrategy_deps"
| "ctor_deps ExceptionsFilter_class = ExceptionsFilter_deps"
| "ctor_deps LoggerInterceptor_class = LoggerInterceptor_deps"
| "ctor_deps AuthController = AuthController_deps"
| "ctor_deps MoviesController = MoviesController_deps"
| "ctor_deps (Repository _) = [DataSource]"
| "ctor_deps _ = []"

fun provider_deps :: "provider \<Rightarrow> inj_token list" where
  "provider_deps (Provide c) = ctor_deps c"
| "provider_deps (UseClass _ c) = ctor_deps c"
| "provider_deps (UseFactory _ ds) = ds"

section \<open>Modules\<close>

record nest_module =
  mod_name :: string
  mod_global :: bool
  mod_imports :: "string list"
  mod_controllers :: "inj_token list"
  mod_providers :: "provider list"
  mod_exports :: "inj_token list"

text \<open>\<open>ConfigModule.forRoot({ isGlobal: true })\<close>.\<close>

definition ConfigModule_forRoot :: nest_module where
  "ConfigModule_forRoot =
     \<lparr>mod_name = ''ConfigModule'', mod_global = True, mod_imports = [], mod_controllers = [],
      mod_providers = [Provide ConfigService], mod_exports = [ConfigService]\<rparr>"

text \<open>
  \<open>TypeOrmModule.forRootAsync({ inject: [ConfigService], useFactory })\<close>: the global core
  module, whose options factory injects \<open>ConfigService\<close> and whose data source is made
  from the options.
\<close>

definition TypeOrmModule_forRootAsync :: nest_module where
  "TypeOrmModule_forRootAsync =
     \<lparr>mod_name = ''TypeOrmCoreModule'', mod_global = True, mod_imports = [], mod_controllers = [],
      mod_providers = [UseFactory TYPEORM_MODULE_OPTIONS [ConfigService], UseFactory DataSource [TYPEORM_MODULE_OPTIONS]],
      mod_exports = [DataSource]\<rparr>"

text \<open>\<open>TypeOrmModule.forFeature([Entity])\<close>: the repositories of the entities.\<close>

definition TypeOrmModule_forFeature :: "string list \<Rightarrow> nest_module" where
  "TypeOrmModule_forFeature es =
     \<lparr>mod_name = ''TypeOrmModule.forFeature'' @ concat es, mod_global = False, mod_imports = [],
      mod_controllers = [], mod_providers = map (\<lambda>e. Provide (Repository e)) es,
      mod_exports = map Repository es\<rparr>"

definition ScheduleModule_forRoot :: nest_module where
  "ScheduleModule_forRoot =
     \<lparr>mod_name = ''ScheduleModule'', mod_global = True, mod_imports = [], mod_controllers = [],
      mod_providers = [Provide SchedulerRegistry], mod_exports = [SchedulerRegistry]\<rparr>"

text \<open>\<open>WinstonModule.forRoot(winstonConfig)\<close>: nest-winston's module is \<open>@Global()\<close>.\<close>

definition WinstonModule_forRoot :: nest_module where
  "WinstonModule_forRoot =
     \<lparr>mod_name = ''WinstonModule'', mod_global = True, mod_imports = [], mod_controllers = [],
      mod_providers = [UseFactory WINSTON_MODULE_PROVIDER []], mod_exports = [WINSTON_MODULE_PROVIDER]\<rparr>"

definition AuthModule :: nest_module where
  "AuthModule =
     \<lparr>mod_name = ''AuthModule'', mod_global = False,
      mod_imports = [mod_name (TypeOrmModule_forFeature [''User''])], mod_controllers = [AuthController],
      mod_providers = [Provide AuthService, Provide JwtService, Provide AuthStrategy, Provide RefreshStrategy],
      mod_exports = []\<rparr>"

text \<open>
  \<open>MoviesModule\<close> is imported by \<open>AppModule\<close> but its file is not in the repository;
  it is taken to import the repository of \<open>Movie\<close> and declare the movies controller
  and service, as \<open>MoviesController\<close> and \<open>MoviesService\<close> need.
\<close>

definition MoviesModule :: nest_module where
  "MoviesModule =
     \<lparr>mod_name = ''MoviesModule'', mod_global = False,
      mod_imports = [mod_name (TypeOrmModule_forFeature [''Movie''])], mod_controllers = [MoviesController],
      mod_providers = [Provide MoviesService], mod_exports = []\<rparr>"

definition AppModule :: nest_module where
  "AppModule =
     \<lparr>mod_name = ''AppModule'', mod_global = False,
      mod_imports = map mod_name [ConfigModule_forRoot, TypeOrmModule_forRootAsync, ScheduleModule_forRoot,
                                  WinstonModule_forRoot, MoviesModule, AuthModule],
      mod_controllers = [],
      mod_providers = [Provide AuthStrategy, Provide RefreshStrategy,
                       UseClass APP_FILTER ExceptionsFilter_class, UseClass APP_INTERCEPTOR LoggerInterceptor_class],
      mod_exports = []\<rparr>"

text \<open>Every module the application loads.\<close>

definition app_modules :: "nest_module list" where
  "app_modules =
     [AppModule, ConfigModule_forRoot, TypeOrmModule_forRootAsync, ScheduleModule_forRoot, WinstonModule_forRoot,
      MoviesModule, AuthModule, TypeOrmModule_forFeature [''User''], TypeOrmModule_forFeature [''Movie'']]"

section \<open>Resolution\<close>

definition provides :: "nest_module \<Rightarrow> inj_token \<Rightarrow> bool" where
  "provides m t \<longleftrightarrow> t \<in> set (map provider_token (mod_providers m))"

text \<open>
  An injection of a class of module \<open>host\<close> resolves when \<open>host\<close> provides the token,
  or a module that \<open>host\<close> imports, or a global module, provides and exports it. No
  module of the application re-exports an imported module, so the chains of
  re-exports the injector also follows are not needed.
\<close>

definition resolvable :: "nest_module list \<Rightarrow> nest_module \<Rightarrow> inj_token \<Rightarrow> bool" where
  "resolvable app host t \<longleftrightarrow>
     provides host t \<or>
     list_ex (\<lambda>m. (mod_name m \<in> set (mod_imports host) \<or> mod_global m) \<and> mod_name m \<noteq> mod_name host \<and>
                  t \<in> set (mod_exports m) \<and> provides m t) app"

definition module_ok :: "nest_module list \<Rightarrow> nest_module \<Rightarrow> bool" where
  "module_ok app host \<longleftrightarrow>
     list_all (\<lambda>n. n \<in> set (map mod_name app)) (mod_imports host) \<and>
     list_all (\<lambda>p. list_all (resolvable app host) (provider_deps p)) (mod_providers host) \<and>
     list_all (\<lambda>c. list_all (resolvable app host) (ctor_deps c)) (mod_controllers host)"

text \<open>The injector can build every provider and controller of the application.\<close>

definition app_boots :: "nest_module list \<Rightarrow> bool" where
  "app_boots app \<longleftrightarrow> list_all (module_ok app) app"

text \<open>The classes bound to \<open>APP_FILTER\<close> and \<open>APP_INTERCEPTOR\<close>, which Nest applies to every route.\<close>

definition global_enhancers :: "inj_token \<Rightarrow> nest_module list \<Rightarrow> inj_token list" where
  "global_enhancers t app =
     concat (map (\<lambda>m. concat (map (\<lambda>p. case p of UseClass t' c \<Rightarrow> if t' = t then [c] else [] | _ \<Rightarrow> []) (mod_providers m))) app)"

section \<open>Lemmas on the module graph\<close>

lemmas module_defs = app_modules_def AppModule_def AuthModule_def MoviesModule_def ConfigModule_forRoot_def
  TypeOrmModule_forRootAsync_def TypeOrmModule_forFeature_def ScheduleModule_forRoot_def WinstonModule_forRoot_def

lemmas deps_defs = AuthService_deps_def MoviesService_deps_def AuthStrategy_deps_def RefreshStrategy_deps_def
  ExceptionsFilter_deps_def LoggerInterceptor_deps_def AuthController_deps_def MoviesController_deps_def

text \<open>The one filter and the one interceptor around every route, as \<open>Api.handle\<close> composes them.\<close>

lemma app_global_enhancers:
  "global_enhancers APP_FILTER app_modules = [ExceptionsFilter_class]"
  "global_enhancers APP_INTERCEPTOR app_modules = [LoggerInterceptor_class]"
  by (simp_all add: global_enhancers_def module_defs)

text \<open>
  The two passport strategies are provided by \<open>AppModule\<close> and again by \<open>AuthModule\<close>:
  each is constructed twice, and the second construction registers the strategy name
  with passport again.
\<close>

lemma strategies_provided_twice:
  "filter (\<lambda>m. provides m AuthStrategy) app_modules = [AppModule, AuthModule]"
  "filter (\<lambda>m. provides m RefreshStrategy) app_modules = [AppModule, AuthModule]"
  by (simp_all add: provides_def module_defs)

text \<open>
  \<open>isGlobal: true\<close> is what lets \<open>AuthModule\<close> and the TypeORM options factory inject
  \<open>ConfigService\<close>: without it the application does not start.
\<close>

lemma app_needs_global_config:
  "\<not> app_boots (map (\<lambda>m. if m = ConfigModule_forRoot then m\<lparr>mod_global := False\<rparr> else m) app_modules)"
  by (simp add: app_boots_def module_ok_def resolvable_def provides_def module_defs deps_defs)

section \<open>The application starts\<close>

text \<open>Every injection of every provider and controller of the module graph resolves:
  each module imports only modules of the application, and each constructor dependency
  is provided by its module or exported to it by an imported or a global module.\<close>

lemma app_modules_boot: "app_boots app_modules"
  by (simp add: app_boots_def module_ok_def resolvable_def provides_def module_defs deps_defs)

end
