(* ===== verification/Spec2Isabelle.thy ===== *)
theory Spec2Isabelle
  imports Api Wiring
begin

text \<open>
  \<^bold>\<open>A verification development of the conexa-challenge API.\<close>

  The program (\<open>src/src\<close>) is a NestJS application over PostgreSQL with two
  modules. The auth module (\<open>modules/auth\<close>) registers users with a bcrypt hash
  of their password, logs them in with a pair of JWTs (an access token and a
  refresh token, each signed with its own secret and lifetime from \<open>IEnvs\<close>) and
  issues a new access token for a valid refresh token. The movies module
  (\<open>modules/movies\<close>) offers CRUD on a movie table and a synchronisation job that
  fetches the Star Wars catalogue and saves every film concurrently, at start-up
  and every 30 minutes. Requests pass the guards declared on their route
  (\<open>AuthApi(...roles)\<close>, \<open>RefreshGuard\<close>), the global \<open>LoggerInterceptor\<close>, the
  pipes and the handler; any exception is turned into a JSON error by the global
  \<open>ExceptionsFilter\<close>. Both log to the winston transports of \<open>winston.config.ts\<close>.

  \<^bold>\<open>Theories and what they model.\<close>
  \<^item> \<open>Prelude\<close>: the basic types (\<open>uuid\<close>, \<open>time\<close>), the framework exceptions
    \<open>exc\<close> and the result type \<open>exc + 'a\<close> every fallible operation returns, the
    lemma collections \<open>table_simps\<close> and \<open>keeps_wf\<close>, ASCII lower case and decimal
    digits, generic facts on lists used as tables.
  \<^item> \<open>Entities\<close>: \<open>Roles\<close> (\<open>roles-auth.guard.ts\<close>), the DTOs with their
    class-validator checks (\<open>login.dto.ts\<close>, \<open>register.dto.ts\<close>,
    \<open>create-movie.dto.ts\<close>) collecting every failed constraint's message in the
    order \<open>ValidationPipe\<close> reports them, the entities \<open>User\<close> and \<open>Movie\<close> as
    records (a movie extends its creation DTO with its key), bcrypt's
    \<open>hashSync\<close>/\<open>compareSync\<close> on symbolic hashes (\<open>compareSync\<close> reads the
    first 72 bytes, as bcrypt does), and \<open>IEnvs\<close> as \<open>ConfigService.get\<close> returns it (the
    expirations are strings, \<open>None\<close> when unset).
  \<^item> \<open>Store\<close>: the TypeORM repositories as lists of rows with the schema's
    constraints (UUID key, unique \<open>username\<close>, unique \<open>title\<close>, \<open>episode_id\<close> an
    \<open>integer\<close> column, i.e. within \<open>[-2^31, 2^31)\<close>). A write that breaks a
    constraint fails with the PostgreSQL error and its message and leaves the
    table unchanged; \<open>save\<close> is an \<open>INSERT\<close> with a generated key, since the
    saved entities carry no key once the validation pipe has stripped undeclared
    properties; a lost connection is an input (\<open>db_env\<close>). Each table is abstracted to the map
    from key to row (\<open>table_map\<close>) and every write is shown to refine the
    corresponding map update, and to keep the constraints (\<open>keeps_wf\<close>).
  \<^item> \<open>Timespan\<close>: how jsonwebtoken reads the \<open>expiresIn\<close> string passed from the
    configuration: \<open>timespan\<close> and the \<open>ms\<close> grammar (sign, digits, fraction,
    spaces, case-insensitive unit, at most 100 characters) with exact decimals.
    This is library code the sources only call; it is modelled from the
    libraries' behaviour and not mapped to source lines.
  \<^item> \<open>Tokens\<close>: \<open>JwtService.sign\<close> (which throws jsonwebtoken's error, with its
    message, when \<open>expiresIn\<close> is \<open>undefined\<close>, empty or no timespan: the services
    always pass the key, so an unset lifetime is refused) and passport-jwt's verification with
    symbolic signatures (a token records the secret it was signed with, its
    \<open>iat\<close> and \<open>exp\<close>), bearer extraction, and \<open>AuthStrategy\<close>/\<open>RefreshStrategy\<close>
    (\<open>common/strategies\<close>).
  \<^item> \<open>AuthService\<close>: \<open>AuthService.register\<close>, \<open>login\<close>, \<open>refreshToken\<close>
    (\<open>auth.service.ts\<close>), every branch and error, with the clock, the salt and the
    database's behaviour as inputs.
  \<^item> \<open>MoviesService\<close>: \<open>MoviesService.syncronize\<close>, \<open>findAll\<close>, \<open>findOne\<close>,
    \<open>create\<close>, \<open>update\<close>, \<open>remove\<close>, \<open>onApplicationBootstrap\<close>
    (\<open>movies.service.ts\<close>). The callbacks of \<open>Promise.all\<close> share the array
    \<open>movies\<close> and the table; they are run one after the other in an order given as
    input (\<open>valid_schedule\<close>: any permutation of the fetched films), each with the
    database's answer to its save. Since a rejected \<open>Promise.all\<close> does not cancel
    the other callbacks, all of them run and the first failure is reported. Two
    runs that overlap (the cron job and a request) share the table and
    interleave their saves in a schedule given as input (\<open>sync_overlap\<close>).
  \<^item> \<open>AccessControl\<close>: \<open>AuthApi\<close> as the composition of the authentication guard
    and the roles guard, \<open>RefreshGuard\<close>, and the per-request state machine of the
    specification as an inductive step relation \<open>ac_step\<close>, shown to compute what
    the guard chain computes.
  \<^item> \<open>Routes\<close>: the routes of \<open>auth.controller.ts\<close> and \<open>movies.controller.ts\<close>,
    their methods and paths, the guards their decorators install, and
    \<open>ParseUUIDPipe\<close>, proved to accept exactly the language of its regular
    expression.
  \<^item> \<open>Timestamp\<close>: the \<open>timestamp({ format: 'DD-MM-YYYY HH:mm:ss' })\<close> of
    \<open>winston.config.ts\<close>: the \<open>Date\<close> getters as a \<open>while_option\<close> loop over the
    years and a walk over the month lengths (Gregorian calendar, UTC), fecha's
    \<open>pad\<close> (a \<open>function\<close> with a measure) and the format tokens of the mask.
    The calendar and fecha are library code, modelled from the libraries and not
    mapped to source lines; only the mask and the timestamp field are.
  \<^item> \<open>Logging\<close>: the filter (\<open>all.exception.ts\<close>: status, body, error entry), the
    interceptor (\<open>logger.interceptor.ts\<close>: the logged entry), and the winston
    levels and transports (console, \<open>logs/info.log\<close>, \<open>logs/errors.log\<close>) with
    which entries each writes; the npm levels are a \<open>linorder\<close> instance. The
    format stage \<open>errors({ stack: false })\<close> and \<open>timestamp\<close> gives the record a
    transport receives. \<open>logger.error(response)\<close> hands winston the filter's
    object itself (its \<open>message\<close> is truthy), and the format mutates it in place
    before \<open>res.json\<close> sends it: \<open>logged_response\<close> is the body the client
    receives, with \<open>level\<close>, \<open>timestamp\<close> and an error object's text. This
    assumes the logger's stream writes synchronously, as it does while it is not
    backed up.
  \<^item> \<open>Api\<close>: the controller methods over the services, \<open>handle\<close> for one request
    in the order NestJS runs its parts (guards, interceptor, pipes and handler,
    filter), the declared result types of the methods, and the running
    application as a step relation \<open>app_step\<close> (requests and the cron job) with
    the reachable states \<open>reachable\<close>.
  \<^item> \<open>Wiring\<close>: the module graph of \<open>app.module.ts\<close> and \<open>auth.module.ts\<close>
    with the library modules it loads, the constructor injections of every class
    (\<open>AuthService\<close>, \<open>MoviesService\<close>, the strategies, the filter, the
    interceptor, the controllers), and the injector's resolution through own
    providers, imports and global modules.
  \<^item> This theory: sequences of requests that cross the components.

  \<^bold>\<open>What is proved.\<close> For the stores: refinement of the map abstraction and
  preservation of the constraints. For the lifetimes: the reading of a number
  of seconds with a unit (a round trip through the decimal spelling) and of a
  bare number as milliseconds. For the auth service: the outcome of every
  branch (conflict on a taken username, not found, wrong password, a lifetime
  \<open>sign\<close> refuses, with the message it throws), the register/login round trip
  and the passwords that share its first 72 bytes, which strategy accepts which
  token and until when (a bare-number lifetime gives tokens of a thousandth of
  the intended life, an unset one no login and no refresh at all), and that the
  separation of access and refresh tokens holds exactly when the configured
  secrets differ. For the movies service: synchronisation succeeds for every
  order of the saves on a healthy database, appends exactly what it returns, is
  idempotent, and two overlapping runs neither duplicate a film nor lose one;
  CRUD outcomes on every branch, with PostgreSQL's message for an
  \<open>episode_id\<close> the column cannot hold. For access
  control: the guard chain equals the state machine's final state, and what an
  admitted request carries. For the boundary: an invariant of all reachable
  states, that only admin tokens change movies, that users are only appended,
  the status, type and body of every answer (an error body as the logger
  leaves it), what is logged and where. For the log timestamp: the year loop
  stops at the unique year and day, every date field is in its range, and the
  19-character timestamp reads back to the second it was written at. For the wiring: every injection resolves (the \<open>isGlobal\<close>
  of the configuration module is needed for that), and the application installs
  exactly the one filter and interceptor that \<open>handle\<close> composes. Across
  components: an anonymous client can obtain an administrator account.

  \<^bold>\<open>Bounds and fuel.\<close> No loop of the program can diverge: the synchronisation
  loops are structural recursions over the schedule, the \<open>ms\<close> scanner reads a
  bounded prefix with \<open>takeWhile\<close>, fecha's \<open>pad\<close> terminates by the measure
  \<open>len - length v\<close>, the year loop of the timestamp is a \<open>while_option\<close> whose
  termination is a theorem (the remaining days decrease), and every other
  operation is straight-line code, so no fuel is needed. The timestamp round
  trip is stated below \<open>10^11\<close> seconds (before the year 5000), where the year
  has the four digits \<open>YYYY\<close> pads to. Integers are kept at the width that matters:
  \<open>episode_id\<close> is an unbounded \<open>int\<close> in the DTO (a JavaScript number that
  validation only requires to be a number) and the store checks the 32-bit column
  range, which is where the program's overflow shows. Times are Unix seconds as
  \<open>nat\<close>; \<open>exp\<close> is an \<open>int\<close>, since a negative lifetime can put it before 1970.
  The lifetime theorems need the decimal spelling to fit the 100 characters
  \<open>ms\<close> reads (below \<open>10^99\<close> seconds with the unit, \<open>10^100\<close> without).

  \<^bold>\<open>Not modelled.\<close> The JSON text that winston's \<open>json()\<close> prints, the time
  zone of the process (the timestamp is read in UTC), and the file I/O of the
  transports; the TypeORM connection options (configuration values) and the
  re-export chains of the Nest injector, which no module of the application
  uses; the unit tests (restated as theorems); cryptographic strength (signatures and hashes are symbolic);
  database failures on reads (reads always reach the database); the query string
  of a request (no route reads one; the interceptor would log it as \<open>query\<close> and
  the filter's \<open>path\<close>, which is \<open>req.url\<close>, would include it); the name of the
  violated constraint in PostgreSQL's 23505 message; the enumerable properties
  that \<open>errors()\<close> copies from an error object into the error body (the model
  keeps the error's text); a logger stream that is backed up (the response
  would then be sent before the format mutates it); and IEEE double rounding in \<open>ms\<close>, which the model replaces by exact
  decimals and which differs only for fractional or very long numbers. The
  guard classes, \<open>UpdateMovieDto\<close> and \<open>MoviesModule\<close> are imported from files
  absent from the repository and are modelled from the specification and from
  their use; the roles guard is the overlap test of the specification's section
  4.3, under which a route declared \<open>AuthApi(Roles.STANDARD)\<close> refuses an
  administrator. The global \<open>ValidationPipe\<close> is configured in \<open>main.ts\<close>, which
  is not in the repository either: the model assumes one that validates every
  DTO and strips undeclared properties.
\<close>

section \<open>Requests across components\<close>

text \<open>
  The responses of single requests on which a sequence of requests is built: an
  anonymous registration, a login with the password just registered, and a
  deletion with an administrator's access token.
\<close>

lemma register_admin_step:
  assumes "n \<notin> username ` set (users s)" and "u \<notin> user_id ` set (users s)"
    and "n \<noteq> []" and "pw \<noteq> []" and "db w = DbOk u"
  shows "handle cfg w \<lparr>route = PostRegister \<lparr>body_username = n, body_password = pw, body_role = ''admin''\<rparr>,
                        authorization = None\<rparr> s =
           (\<lparr>status = 201, body = Inl (UserBody \<lparr>pub_id = u, pub_username = n, pub_role = ADMIN\<rparr>)\<rparr>,
            s\<lparr>users := users s @ [\<lparr>user_id = u, username = n, password = hashSync pw 10 (bcrypt_salt w),
                                    role = ADMIN\<rparr>]\<rparr>,
            [Info (LoggerInterceptor \<lparr>route = PostRegister \<lparr>body_username = n, body_password = pw,
                                        body_role = ''admin''\<rparr>, authorization = None\<rparr> 200)])"
  using assms
  by (simp add: handle_def Let_def controller_def validate_register_dto_def not_empty_msgs_def parse_roles_def register_eq
      success_status_def)

lemma login_fresh_user_step:
  assumes "n \<notin> username ` set us" and "n \<noteq> []" and "pw \<noteq> []" and "lifetimes_ok cfg"
  shows "handle cfg w \<lparr>route = PostLogin \<lparr>login_username = n, login_password = pw\<rparr>, authorization = None\<rparr>
           (s\<lparr>users := us @ [\<lparr>user_id = u, username = n, password = hashSync pw 10 salt, role = r\<rparr>]\<rparr>) =
         (\<lparr>status = 201, body = Inl (TokensBody (issued cfg (clock w) \<lparr>pl_id = u, pl_role = r\<rparr>))\<rparr>,
          s\<lparr>users := us @ [\<lparr>user_id = u, username = n, password = hashSync pw 10 salt, role = r\<rparr>]\<rparr>,
          [Info (LoggerInterceptor \<lparr>route = PostLogin \<lparr>login_username = n, login_password = pw\<rparr>, authorization = None\<rparr> 200)])"
  using assms
  by (simp add: handle_def Let_def controller_def validate_login_dto_def not_empty_msgs_def login_eq
      find_by_def find_snoc_fresh hashSync_def compareSync_def user_payload_def success_status_def)

lemma delete_admin_step:
  assumes "m \<in> set (movies s)" and "is_uuid (movie_id m)" and "db w = DbOk v"
    and "live_until x (clock w)"
  shows "\<exists>logs. handle cfg w \<lparr>route = DeleteMovie (movie_id m),
           authorization = bearer (JWT \<lparr>pl_id = u, pl_role = ADMIN\<rparr> (ACCESSTOKEN_SECRET cfg) iat x)\<rparr> s =
         (\<lparr>status = 200, body = Inl (TextBody ''Done'')\<rparr>,
          s\<lparr>movies := filter (\<lambda>r. movie_id r \<noteq> movie_id m) (movies s)\<rparr>, logs)"
proof -
  have "filter (\<lambda>r. movie_id r = movie_id m) (movies s) \<noteq> []"
    using assms(1) by (auto simp: filter_empty_conv)
  with assms(2-4) show ?thesis
    by (simp add: handle_def Let_def controller_def AuthApi_def AuthenticationGuard_def RolesGuard_def
        role_allowed_def auth_strategy_def jwt_strategy_JWT ParseUUIDPipe_def remove_def movie_delete_def
        delete_by_def success_status_def)
qed

section \<open>Properties spanning the components\<close>

text \<open>C1: Privilege escalation by self-registration. On any application state in which the database is reachable, an anonymous client can register an account with role
  \<open>admin\<close> through \<open>POST /auth/register\<close> (no guard), log in with it, and delete any
  movie through \<open>DELETE /movies/:id\<close> (declared \<open>AuthApi(Roles.ADMIN)\<close>) with the
  access token it received, as long as the configured lifetimes are accepted by \<open>sign\<close> and
  that token has not expired.
\<close>

theorem anonymous_admin_signup:
  assumes "n \<notin> username ` set (users s)" and "u \<notin> user_id ` set (users s)"
    and "n \<noteq> []" and "pw \<noteq> []" and "db wr = DbOk u"
    and "m \<in> set (movies s)" and "is_uuid (movie_id m)" and "db wd = DbOk v"
    and "lifetimes_ok cfg" and "live_until (exp_claim (ACCESSTOKEN_EXPIRATION cfg) (clock wl)) (clock wd)"
  shows "\<exists>r1 s1 l1 r2 l2 tk r3 s3 l3.
     handle cfg wr \<lparr>route = PostRegister \<lparr>body_username = n, body_password = pw, body_role = ''admin''\<rparr>,
                    authorization = None\<rparr> s = (r1, s1, l1) \<and>
     handle cfg wl \<lparr>route = PostLogin \<lparr>login_username = n, login_password = pw\<rparr>, authorization = None\<rparr> s1 =
       (r2, s1, l2) \<and> body r2 = Inl (TokensBody tk) \<and>
     handle cfg wd \<lparr>route = DeleteMovie (movie_id m), authorization = bearer (accessToken tk)\<rparr> s1 =
       (r3, s3, l3) \<and> body r3 = Inl (TextBody ''Done'') \<and> m \<notin> set (movies s3)"
proof -
  let ?x = "\<lparr>user_id = u, username = n, password = hashSync pw 10 (bcrypt_salt wr), role = ADMIN\<rparr>"
  let ?s1 = "s\<lparr>users := users s @ [?x]\<rparr>"
  note h1 = register_admin_step [OF assms(1-5), of cfg]
  note h2 = login_fresh_user_step [OF assms(1,3,4,9), where w = wl and s = s and u = u
    and salt = "bcrypt_salt wr" and r = ADMIN]
  have "m \<in> set (movies ?s1)" using assms(6) by simp
  from delete_admin_step [OF this assms(7,8,10), where u = u and iat = "clock wl" and cfg = cfg] obtain l3 where h3:
    "handle cfg wd \<lparr>route = DeleteMovie (movie_id m),
        authorization = bearer (JWT \<lparr>pl_id = u, pl_role = ADMIN\<rparr> (ACCESSTOKEN_SECRET cfg) (clock wl)
                                  (exp_claim (ACCESSTOKEN_EXPIRATION cfg) (clock wl)))\<rparr> ?s1 =
     (\<lparr>status = 200, body = Inl (TextBody ''Done'')\<rparr>,
      ?s1\<lparr>movies := filter (\<lambda>r. movie_id r \<noteq> movie_id m) (movies ?s1)\<rparr>, l3)" by blast
  show ?thesis
    using h1 h2 h3 by fastforce
qed

section \<open>Witnesses\<close>

theorem anonymous_admin_signup_witness:
  "is_uuid (movie_id movie_m) \<and> movie_m \<in> set (movies state0) \<and>
   (\<exists>r1 s1 l1 r2 l2 tk r3 s3 l3.
     handle cfg_demo world0 \<lparr>route = PostRegister \<lparr>body_username = ''mallory'', body_password = ''pw'',
                    body_role = ''admin''\<rparr>, authorization = None\<rparr> state0 = (r1, s1, l1) \<and>
     handle cfg_demo world0 \<lparr>route = PostLogin \<lparr>login_username = ''mallory'', login_password = ''pw''\<rparr>,
                    authorization = None\<rparr> s1 = (r2, s1, l2) \<and> body r2 = Inl (TokensBody tk) \<and>
     handle cfg_demo world0 \<lparr>route = DeleteMovie (movie_id movie_m), authorization = bearer (accessToken tk)\<rparr> s1 =
       (r3, s3, l3) \<and> body r3 = Inl (TextBody ''Done'') \<and> movie_m \<notin> set (movies s3))"
proof -
  have uuid: "is_uuid (movie_id movie_m)"
    by (simp add: is_uuid_def hex_digit_def)
  have lt: "lifetimes_ok cfg_demo" and ex: "live_until (exp_claim (ACCESSTOKEN_EXPIRATION cfg_demo) 100) 100"
    by (simp_all add: lifetimes_eval)
  show ?thesis
    using uuid lt ex anonymous_admin_signup [where n = "''mallory''" and s = state0 and u = uuid_u and pw = "''pw''"
        and wr = world0 and m = movie_m and wd = world0 and v = uuid_u and wl = world0 and cfg = cfg_demo]
    by simp
qed

end
